theory Spec2Isabelle
  imports Complex_Main
begin

section \<open>JavaScript values\<close>

text \<open>
  The validators receive untyped JavaScript values. A number is NaN, an infinity or a
  finite value; a finite value is kept as the rational it is exactly equal to (every
  IEEE-754 double is a rational; the signed zeros are both \<open>Num 0\<close>, which \<^verbatim>\<open><\<close>,
  \<^verbatim>\<open>>\<close> and \<^verbatim>\<open>===\<close> do not tell apart). Values of other types that can
  reach the validators are \<^verbatim>\<open>undefined\<close>, \<^verbatim>\<open>null\<close>, booleans and strings.
  A string is a list of 8-bit code units.
\<close>

datatype jsnum = NaN | NegInf | Num rat | PosInf

datatype jsval = JUndefined | JNull | JBool bool | JNumber jsnum | JString string

text \<open>The relational operators of JavaScript on numbers: every comparison with NaN is false.\<close>

fun js_lt :: "jsnum \<Rightarrow> jsnum \<Rightarrow> bool" where
  "js_lt NaN _ = False"
| "js_lt _ NaN = False"
| "js_lt (Num a) (Num b) = (a < b)"
| "js_lt _ NegInf = False"
| "js_lt NegInf _ = True"
| "js_lt PosInf _ = False"
| "js_lt _ PosInf = True"

definition js_gt :: "jsnum \<Rightarrow> jsnum \<Rightarrow> bool" where
  "js_gt a b = js_lt b a"

definition js_le :: "jsnum \<Rightarrow> jsnum \<Rightarrow> bool" where
  "js_le a b = (a \<noteq> NaN \<and> b \<noteq> NaN \<and> \<not> js_lt b a)"

definition js_strict_eq :: "jsnum \<Rightarrow> jsnum \<Rightarrow> bool" where
  "js_strict_eq a b = (a \<noteq> NaN \<and> a = b)"

definition isNaN :: "jsnum \<Rightarrow> bool" where
  "isNaN x = (x = NaN)"

definition Number_isInteger :: "jsnum \<Rightarrow> bool" where
  "Number_isInteger x = (case x of Num r \<Rightarrow> r = of_int \<lfloor>r\<rfloor> | _ \<Rightarrow> False)"

subsection \<open>Rounding to the nearest double\<close>

text \<open>
  \<^verbatim>\<open>parseInt\<close>, \<^verbatim>\<open>parseFloat\<close> and numeric literals denote the double nearest to
  the decimal numeral they read (ties to even, 53 significant bits, exponent at least
  \<open>-1022\<close>, infinity when the rounded value reaches \<open>2 ^ 1024\<close>). \<open>ndigits b n\<close> is the number of base-\<open>b\<close>
  digits of \<open>n\<close>.
\<close>

definition round_half_even :: "rat \<Rightarrow> int" where
  "round_half_even q =
     (let n = \<lfloor>q\<rfloor>; f = q - of_int n
      in if f < 1 / 2 then n else if 1 / 2 < f then n + 1 else if even n then n else n + 1)"

function ndigits :: "int \<Rightarrow> int \<Rightarrow> nat" where
  "ndigits b n = (if n \<le> 0 \<or> b \<le> 1 then 0 else Suc (ndigits b (n div b)))"
  by pat_completeness auto
termination
  by (relation "measure (\<lambda>(b, n). nat n)") (auto simp: div_less_dividend pos_imp_zdiv_nonneg_iff intro!: int_div_less_self)

declare ndigits.simps [simp del]

definition floor_log2 :: "rat \<Rightarrow> int" where
  "floor_log2 a =
     (if 1 \<le> a then int (ndigits 2 \<lfloor>a\<rfloor>) - 1
      else - int (ndigits 2 (\<lceil>1 / a\<rceil> - 1)))"

definition toDouble :: "rat \<Rightarrow> jsnum" where
  "toDouble r =
     (if r = 0 then Num 0
      else let a = \<bar>r\<bar>;
               e = max (floor_log2 a) (- 1022);
               ulp = 2 powi (e - 52);
               v = of_int (round_half_even (a / ulp)) * ulp
           in if 1024 \<le> floor_log2 v then (if r < 0 then NegInf else PosInf)
              else Num (if r < 0 then - v else v))"


subsection \<open>Strings\<close>

text \<open>
  Character classes of ECMAScript restricted to code units below 256: decimal digits,
  white space and line terminators (what \<^verbatim>\<open>trim\<close>, \<^verbatim>\<open>\s\<close> and the number parsers
  skip), word characters (\<^verbatim>\<open>\w\<close>), and the case folding of the \<^verbatim>\<open>i\<close> flag.
\<close>

definition code_unit :: "char \<Rightarrow> nat" where
  "code_unit c = of_char c"

definition is_digit :: "char \<Rightarrow> bool" where
  "is_digit c = (48 \<le> code_unit c \<and> code_unit c \<le> 57)"

definition is_space :: "char \<Rightarrow> bool" where
  "is_space c = (code_unit c \<in> {9, 10, 11, 12, 13, 32, 160})"

definition is_word :: "char \<Rightarrow> bool" where
  "is_word c = (is_digit c \<or> (65 \<le> code_unit c \<and> code_unit c \<le> 90)
                \<or> (97 \<le> code_unit c \<and> code_unit c \<le> 122) \<or> code_unit c = 95)"

definition lower :: "char \<Rightarrow> char" where
  "lower c = (if 65 \<le> code_unit c \<and> code_unit c \<le> 90 then char_of (code_unit c + 32) else c)"

definition trim :: "string \<Rightarrow> string" where
  "trim s = rev (dropWhile is_space (rev (dropWhile is_space s)))"

definition digits_value :: "string \<Rightarrow> int" where
  "digits_value ds = foldl (\<lambda>a c. 10 * a + (int (code_unit c) - 48)) 0 ds"

fun match_ci :: "string \<Rightarrow> string \<Rightarrow> bool" where
  "match_ci [] s = True"
| "match_ci (p # ps) [] = False"
| "match_ci (p # ps) (c # cs) = (lower p = lower c \<and> match_ci ps cs)"

subsection \<open>parseInt and parseFloat\<close>

text \<open>
  \<^verbatim>\<open>parseInt(value, 10)\<close> and \<^verbatim>\<open>parseFloat(value)\<close> convert their argument to a
  string, skip leading white space and read the longest prefix that is a decimal integer
  (respectively a decimal literal with optional fraction and exponent, or
  \<^verbatim>\<open>Infinity\<close>); whatever follows the prefix is ignored, and NaN is returned when
  there is no such prefix.

  For a number argument the string is \<^verbatim>\<open>Number.prototype.toString\<close> of it, the shortest
  decimal that reads back as the same double: \<^verbatim>\<open>parseFloat\<close> returns the number
  itself. The string is in positional notation when the number is zero or its magnitude
  is at least the double \<^verbatim>\<open>0.000001\<close> and below \<^verbatim>\<open>1e21\<close>, so that
  \<^verbatim>\<open>parseInt\<close> truncates the number; otherwise it is in exponent notation
  \<^verbatim>\<open>d.ddde+x\<close> and \<^verbatim>\<open>parseInt\<close> reads the single leading digit \<open>d\<close>.

  The digits of that string are the integer \<open>s\<close> with the fewest digits \<open>k\<close> such that
  \<open>s * 10 ^ (n - k)\<close> rounds to the number, where \<open>10 ^ (n - 1) \<le> s * 10 ^ (n - k) < 10 ^ n\<close>;
  among several such \<open>s\<close> the one nearest to the number is taken, the even one on a tie.
  \<open>shortest_decimal\<close> searches \<open>k = 1, 2, \<dots>\<close>: for each \<open>k\<close> the two candidates are
  the number cut to \<open>k\<close> digits and its successor. Seventeen digits always suffice for a
  double; the first equation is reached only for a rational that is not a double.
\<close>

definition parseInt_string :: "string \<Rightarrow> jsnum" where
  "parseInt_string s =
     (let t = dropWhile is_space s;
          neg = (t \<noteq> [] \<and> hd t = CHR ''-'');
          u = (if t \<noteq> [] \<and> (hd t = CHR ''-'' \<or> hd t = CHR ''+'') then tl t else t);
          z = takeWhile is_digit u
      in if z = [] then NaN
         else toDouble (of_int (if neg then - digits_value z else digits_value z)))"

definition decimal_exponent :: "rat \<Rightarrow> int" where
  "decimal_exponent a =
     (if 1 \<le> a then int (ndigits 10 \<lfloor>a\<rfloor>) else 1 - int (ndigits 10 (\<lceil>1 / a\<rceil> - 1)))"

fun shortest_decimal :: "nat \<Rightarrow> nat \<Rightarrow> rat \<Rightarrow> int" where
  "shortest_decimal 0 k a = \<lfloor>a / 10 powi (decimal_exponent a - int k)\<rfloor>"
| "shortest_decimal (Suc fuel) k a =
     (let u = 10 powi (decimal_exponent a - int k);
          lo = \<lfloor>a / u\<rfloor>;
          hi = lo + 1;
          below = a - of_int lo * u;
          above = of_int hi * u - a;
          ok_lo = (toDouble (of_int lo * u) = Num a);
          ok_hi = (toDouble (of_int hi * u) = Num a)
      in if ok_lo \<and> (\<not> ok_hi \<or> below < above \<or> (below = above \<and> even lo)) then lo
         else if ok_hi then hi
         else shortest_decimal fuel (Suc k) a)"

definition leading_digit :: "rat \<Rightarrow> int" where
  "leading_digit a =
     (let s = shortest_decimal 17 1 a in s div 10 ^ (ndigits 10 s - 1))"

definition decimal_notation :: "rat \<Rightarrow> bool" where
  "decimal_notation r = (r = 0 \<or> (js_le (toDouble (1 / 1000000)) (Num \<bar>r\<bar>) \<and> \<bar>r\<bar> < 10 ^ 21))"

definition parseInt_number :: "jsnum \<Rightarrow> jsnum" where
  "parseInt_number n =
     (case n of
        Num r \<Rightarrow>
          if decimal_notation r then Num (of_int (if r < 0 then \<lceil>r\<rceil> else \<lfloor>r\<rfloor>))
          else Num (of_int (if r < 0 then - leading_digit \<bar>r\<bar> else leading_digit \<bar>r\<bar>))
      | _ \<Rightarrow> NaN)"

definition parseInt :: "jsval \<Rightarrow> jsnum" where
  "parseInt v = (case v of JString s \<Rightarrow> parseInt_string s
                         | JNumber n \<Rightarrow> parseInt_number n
                         | _ \<Rightarrow> NaN)"

definition exponent_part :: "string \<Rightarrow> int" where
  "exponent_part s =
     (case s of
        e # rest \<Rightarrow>
          if e = CHR ''e'' \<or> e = CHR ''E'' then
            (let neg = (rest \<noteq> [] \<and> hd rest = CHR ''-'');
                 u = (if rest \<noteq> [] \<and> (hd rest = CHR ''-'' \<or> hd rest = CHR ''+'')
                      then tl rest else rest);
                 ds = takeWhile is_digit u
             in if ds = [] then 0 else if neg then - digits_value ds else digits_value ds)
          else 0
      | [] \<Rightarrow> 0)"

definition parseFloat_string :: "string \<Rightarrow> jsnum" where
  "parseFloat_string s =
     (let t = dropWhile is_space s;
          neg = (t \<noteq> [] \<and> hd t = CHR ''-'');
          u = (if t \<noteq> [] \<and> (hd t = CHR ''-'' \<or> hd t = CHR ''+'') then tl t else t)
      in if take 8 u = ''Infinity'' then (if neg then NegInf else PosInf)
         else let ip = takeWhile is_digit u;
                  r1 = dropWhile is_digit u;
                  fp = (if r1 \<noteq> [] \<and> hd r1 = CHR ''.'' then takeWhile is_digit (tl r1) else []);
                  r2 = (if r1 \<noteq> [] \<and> hd r1 = CHR ''.'' \<and> (ip \<noteq> [] \<or> fp \<noteq> [])
                        then dropWhile is_digit (tl r1) else r1)
              in if ip = [] \<and> fp = [] then NaN
                 else let m = of_int (digits_value ip)
                              + of_int (digits_value fp) / 10 ^ length fp;
                          x = m * 10 powi exponent_part r2
                      in toDouble (if neg then - x else x))"

definition parseFloat :: "jsval \<Rightarrow> jsnum" where
  "parseFloat v = (case v of JString s \<Rightarrow> parseFloat_string s
                           | JNumber n \<Rightarrow> n
                           | _ \<Rightarrow> NaN)"


subsection \<open>InputValidator.sanitizeHtml\<close>

text \<open>
  Five global, case-insensitive replacements by the empty string, then \<^verbatim>\<open>#escapeHtml\<close>:
  \<^item> \<^verbatim>\<open>/<script\b[^<]*(?:(?!<\/script>)<[^<]*)*<\/script>/gi\<close> removes, scanning from the
    left, each \<^verbatim>\<open><script\<close> that is followed by a non-word character together with
    everything up to and including the first \<^verbatim>\<open></script>\<close> after it
    (\<open>remove_scripts\<close>);
  \<^item> \<^verbatim>\<open>/javascript:/gi\<close>, \<^verbatim>\<open>/data:/gi\<close>, \<^verbatim>\<open>/vbscript:/gi\<close> remove the
    occurrences of a fixed word (\<open>remove_ci\<close>);
  \<^item> \<^verbatim>\<open>/on\w+\s*=/gi\<close> removes \<^verbatim>\<open>on\<close>, the longest run of word characters
    after it (at least one), the white space after that and the \<^verbatim>\<open>=\<close> sign
    (\<open>remove_handlers\<close>).
\<close>

function remove_ci :: "string \<Rightarrow> string \<Rightarrow> string" where
  "remove_ci pat [] = []"
| "remove_ci pat (c # cs) =
     (if pat \<noteq> [] \<and> match_ci pat (c # cs) then remove_ci pat (drop (length pat) (c # cs))
      else c # remove_ci pat cs)"
  by pat_completeness auto
termination
  by (relation "measure (\<lambda>(pat, s). length s)") auto

fun after_first_ci :: "string \<Rightarrow> string \<Rightarrow> string option" where
  "after_first_ci pat [] = None"
| "after_first_ci pat (c # cs) =
     (if match_ci pat (c # cs) then Some (drop (length pat) (c # cs))
      else after_first_ci pat cs)"

lemma after_first_ci_length:
  "after_first_ci pat s = Some rest \<Longrightarrow> length rest \<le> length s"
  by (induction s) (auto split: if_splits)

function remove_scripts :: "string \<Rightarrow> string" where
  "remove_scripts [] = []"
| "remove_scripts (c # cs) =
     (if match_ci ''<script'' (c # cs) \<and> (drop 6 cs = [] \<or> \<not> is_word (hd (drop 6 cs)))
      then (case after_first_ci ''</script>'' (drop 6 cs) of
              Some rest \<Rightarrow> remove_scripts rest
            | None \<Rightarrow> c # remove_scripts cs)
      else c # remove_scripts cs)"
  by pat_completeness auto
termination
proof (relation "measure length")
  fix c cs rest
  assume "after_first_ci ''</script>'' (drop 6 cs) = Some rest"
  from after_first_ci_length [OF this]
  show "(rest, c # cs) \<in> measure length" by simp
qed auto

function remove_handlers :: "string \<Rightarrow> string" where
  "remove_handlers [] = []"
| "remove_handlers (c # cs) =
     (let w = takeWhile is_word (drop 1 cs);
          r = dropWhile is_space (dropWhile is_word (drop 1 cs))
      in if match_ci ''on'' (c # cs) \<and> w \<noteq> [] \<and> r \<noteq> [] \<and> hd r = CHR ''=''
         then remove_handlers (tl r)
         else c # remove_handlers cs)"
  by pat_completeness auto
termination
proof (relation "measure length")
  fix c cs w r
  assume r: "r = dropWhile is_space (dropWhile is_word (drop 1 cs))"
  have "length r \<le> length (dropWhile is_word (drop 1 cs))"
    unfolding r by (rule length_dropWhile_le)
  also have "\<dots> \<le> length (drop 1 cs)" by (rule length_dropWhile_le)
  also have "\<dots> \<le> length cs" by simp
  finally have "length r \<le> length cs" .
  thus "(tl r, c # cs) \<in> measure length" by simp
qed auto

definition escapeHtml :: "string \<Rightarrow> string" where
  "escapeHtml unsafe =
     concat (map (\<lambda>c. if c = CHR ''&'' then ''&amp;''
                       else if c = CHR ''<'' then ''&lt;''
                       else if c = CHR ''>'' then ''&gt;''
                       else if c = CHR 0x22 then ''&quot;''
                       else if c = CHR 0x27 then ''&#039;''
                       else [c]) unsafe)"

definition sanitizeHtml :: "string \<Rightarrow> string" where
  "sanitizeHtml input =
     (let cleaned = remove_ci ''vbscript:'' (remove_ci ''data:'' (remove_handlers
                      (remove_ci ''javascript:'' (remove_scripts input))))
      in escapeHtml cleaned)"


section \<open>Configuration (ConfigManager)\<close>

text \<open>
  The part of the configuration object that the pipeline reads:
  \<^verbatim>\<open>app.transaction\<close>, \<^verbatim>\<open>app.security.maxInputLength\<close> and the \<^verbatim>\<open>validation\<close>
  rules. \<open>default_config\<close> holds the values of \<^verbatim>\<open>#loadConfiguration\<close>; the literal
  \<^verbatim>\<open>0.000001\<close> is the double nearest to one millionth.
\<close>

record rules =
  min_value :: jsnum
  max_value :: jsnum

record config =
  gasBufferPercent :: nat
  maxRetries :: nat
  retryDelay :: nat
  maxBatchSize :: nat
  maxInputLength :: nat
  validation_price :: rules
  validation_quantity :: rules
  validation_tokenId :: rules

definition MAX_SAFE_INTEGER :: rat where
  "MAX_SAFE_INTEGER = 2 ^ 53 - 1"

definition default_config :: config where
  "default_config =
     \<lparr> gasBufferPercent = 20, maxRetries = 3, retryDelay = 2000, maxBatchSize = 50,
       maxInputLength = 1000,
       validation_price = \<lparr> min_value = toDouble (1 / 1000000), max_value = Num 1000000 \<rparr>,
       validation_quantity = \<lparr> min_value = Num 1, max_value = Num 16777215 \<rparr>,
       validation_tokenId = \<lparr> min_value = Num 1, max_value = Num MAX_SAFE_INTEGER \<rparr> \<rparr>"

section \<open>Input validator (InputValidator.validateInput)\<close>

text \<open>
  The result object \<^verbatim>\<open>{isValid, sanitizedValue, errors}\<close>; \<open>None\<close> is \<^verbatim>\<open>null\<close>.
  Each error message of the source is a constructor:
  \<^item> \<open>InputTooLong n\<close>: \<^verbatim>\<open>Input too long. Maximum n characters allowed.\<close>
  \<^item> \<open>NotANumber\<close>: \<^verbatim>\<open>... must be a valid number\<close>
  \<^item> \<open>BelowMin m\<close>: \<^verbatim>\<open>... must be at least m\<close>
  \<^item> \<open>AboveMax m\<close>: \<^verbatim>\<open>... cannot exceed m\<close>, \<^verbatim>\<open>Token ID is too large\<close>
  \<^item> \<open>NotPositive\<close>: \<^verbatim>\<open>Price must be greater than 0\<close>
  \<^item> \<open>NotWhole\<close>: \<^verbatim>\<open>Quantity must be a whole number\<close>
  \<^item> \<open>UnknownType t\<close>: \<^verbatim>\<open>Unknown validation type: t\<close>
\<close>

datatype validation_error =
    InputTooLong nat
  | NotANumber
  | BelowMin jsnum
  | AboveMax jsnum
  | NotPositive
  | NotWhole
  | UnknownType string

record validation =
  isValid :: bool
  sanitizedValue :: "jsnum option"
  errors :: "validation_error list"

definition invalid :: "validation_error \<Rightarrow> validation" where
  "invalid e = \<lparr> isValid = False, sanitizedValue = None, errors = [e] \<rparr>"

definition valid :: "jsnum \<Rightarrow> validation" where
  "valid v = \<lparr> isValid = True, sanitizedValue = Some v, errors = [] \<rparr>"

definition validatePrice :: "config \<Rightarrow> jsval \<Rightarrow> validation" where
  "validatePrice cfg v =
     (let rules = validation_price cfg;
          numValue = parseFloat v
      in if isNaN numValue then invalid NotANumber
         else if js_lt numValue (min_value rules) then invalid (BelowMin (min_value rules))
         else if js_gt numValue (max_value rules) then invalid (AboveMax (max_value rules))
         else if js_le numValue (Num 0) then invalid NotPositive
         else valid numValue)"

definition validateQuantity :: "config \<Rightarrow> jsval \<Rightarrow> validation" where
  "validateQuantity cfg v =
     (let rules = validation_quantity cfg;
          intValue = parseInt v
      in if isNaN intValue then invalid NotANumber
         else if js_lt intValue (min_value rules) then invalid (BelowMin (min_value rules))
         else if js_gt intValue (max_value rules) then invalid (AboveMax (max_value rules))
         else if \<not> Number_isInteger intValue \<or> \<not> js_strict_eq intValue (parseFloat v)
              then invalid NotWhole
         else valid intValue)"

definition validateTokenId :: "config \<Rightarrow> jsval \<Rightarrow> validation" where
  "validateTokenId cfg v =
     (let rules = validation_tokenId cfg;
          intValue = parseInt v
      in if isNaN intValue then invalid NotANumber
         else if js_lt intValue (min_value rules) then invalid (BelowMin (min_value rules))
         else if js_gt intValue (max_value rules) then invalid (AboveMax (max_value rules))
         else valid intValue)"

text \<open>
  \<^verbatim>\<open>validateInput(value, type)\<close> as every caller in the pipeline invokes it, without
  the \<^verbatim>\<open>options\<close> argument. The kinds \<^verbatim>\<open>'address'\<close> and \<^verbatim>\<open>'text'\<close>, whose
  sanitised value is a string, are not used by the order pipeline and are left out;
  \<open>OtherType t\<close> is a type string outside the five kinds of the \<^verbatim>\<open>switch\<close>.
\<close>

datatype input_type = Price | Quantity | TokenId | OtherType string

text \<open>
  The first block of \<^verbatim>\<open>validateInput\<close> (``basic sanitization''): a string is trimmed,
  rejected when longer than the cap and otherwise passed through \<^verbatim>\<open>sanitizeHtml\<close>;
  any other value is passed on as it is.
\<close>

definition basicSanitization :: "config \<Rightarrow> jsval \<Rightarrow> validation_error + jsval" where
  "basicSanitization cfg v =
     (case v of
        JString s \<Rightarrow>
          (let trimmed = trim s
           in if length trimmed > maxInputLength cfg
              then Inl (InputTooLong (maxInputLength cfg))
              else Inr (JString (sanitizeHtml trimmed)))
      | _ \<Rightarrow> Inr v)"

definition validateInput :: "config \<Rightarrow> jsval \<Rightarrow> input_type \<Rightarrow> validation" where
  "validateInput cfg v ty =
     (case basicSanitization cfg v of
        Inl e \<Rightarrow> invalid e
      | Inr v' \<Rightarrow>
          (case ty of
             Price \<Rightarrow> validatePrice cfg v'
           | Quantity \<Rightarrow> validateQuantity cfg v'
           | TokenId \<Rightarrow> validateTokenId cfg v'
           | OtherType t \<Rightarrow> invalid (UnknownType t)))"

section \<open>Rate limiter (InputValidator.checkRateLimit)\<close>

text \<open>
  \<^verbatim>\<open>static #rateLimits = new Map()\<close> maps a key to the array of admitted request
  timestamps (milliseconds, as returned by \<^verbatim>\<open>Date.now()\<close>). The clock value read at
  the start of the call is the parameter \<open>now\<close>; the map is passed in and returned.
\<close>

type_synonym rate_limits = "string \<rightharpoonup> int list"

text \<open>
  The returned object is \<^verbatim>\<open>{allowed: true}\<close> or \<^verbatim>\<open>{allowed: false, resetTime}\<close>.
  \<open>resetTime\<close> is \<open>None\<close> when \<^verbatim>\<open>recentRequests[0]\<close> is \<^verbatim>\<open>undefined\<close>
  (an empty array, possible only for \<open>maxRequests = 0\<close>), where JavaScript computes NaN.
\<close>

datatype rate_decision = Allowed | Rejected "int option"

definition Math_ceil_div :: "int \<Rightarrow> int \<Rightarrow> int" where
  "Math_ceil_div x d = \<lceil>rat_of_int x / rat_of_int d\<rceil>"

definition requests_of :: "rate_limits \<Rightarrow> string \<Rightarrow> int list" where
  "requests_of limits key = (case limits key of None \<Rightarrow> [] | Some ts \<Rightarrow> ts)"

definition recentRequests :: "int \<Rightarrow> int \<Rightarrow> int list \<Rightarrow> int list" where
  "recentRequests now windowMs requests =
     (let windowStart = now - windowMs
      in filter (\<lambda>timestamp. timestamp > windowStart) requests)"

definition checkRateLimit ::
  "int \<Rightarrow> string \<Rightarrow> nat \<Rightarrow> int \<Rightarrow> rate_limits \<Rightarrow> rate_decision \<times> rate_limits" where
  "checkRateLimit now key maxRequests windowMs limits =
     (let requests = requests_of limits key;
          recent = recentRequests now windowMs requests
      in if length recent \<ge> maxRequests
         then (Rejected (case recent of
                           [] \<Rightarrow> None
                         | t # _ \<Rightarrow> Some (Math_ceil_div (t + windowMs - now) 1000)),
               limits(key \<mapsto> recent))
         else (Allowed, limits(key \<mapsto> recent @ [now])))"


section \<open>Domain models (models/index.js)\<close>

text \<open>
  Every model class extends \<^verbatim>\<open>BaseModel\<close>, whose constructor runs
  \<^verbatim>\<open>this.#validate(data); Object.assign(this, this.#transform(data)); Object.freeze(this)\<close>.
  \<^verbatim>\<open>#validate\<close> and \<^verbatim>\<open>#transform\<close> are private methods. A private name of
  JavaScript is resolved lexically, in the class body where it is written: the two calls
  in \<^verbatim>\<open>BaseModel\<close>'s constructor always reach \<^verbatim>\<open>BaseModel\<close>'s own methods, which accept
  every \<^verbatim>\<open>data\<close> and return it unchanged. The methods of the same spelling that
  \<^verbatim>\<open>MarketOrder\<close>, \<^verbatim>\<open>UserBalance\<close> and \<^verbatim>\<open>TransactionResult\<close> declare (under the
  comment \<^verbatim>\<open>// Override in subclasses\<close>) are separate private names that no code calls.
  Constructing a model therefore copies the fields it is given and never throws.
\<close>

definition BaseModel_validate :: "'a \<Rightarrow> bool" where
  "BaseModel_validate data = True"

definition BaseModel_transform :: "'a \<Rightarrow> 'a" where
  "BaseModel_transform data = data"

definition BaseModel :: "'a \<Rightarrow> 'a" where
  "BaseModel data = (let checked = BaseModel_validate data in BaseModel_transform data)"

record MarketOrder =
  order_tokenId :: jsval
  order_side :: jsval
  order_price :: jsval
  order_quantity :: jsval
  order_user :: "string option"

definition new_MarketOrder :: "MarketOrder \<Rightarrow> MarketOrder" where
  "new_MarketOrder data = BaseModel data"

definition sideNumeric :: "MarketOrder \<Rightarrow> nat" where
  "sideNumeric order = (if order_side order = JString ''sell'' then 0 else 1)"

text \<open>
  \<^verbatim>\<open>MarketOrder\<close>'s own \<^verbatim>\<open>#validate\<close>, the method that the constructor does not
  reach: the error it would throw for \<^verbatim>\<open>data\<close>, if any. \<open>InvalidField f errs\<close> is
  \<^verbatim>\<open>Invalid f: errs\<close>, \<open>InvalidSide\<close> is
  \<^verbatim>\<open>Order side must be either "buy" or "sell"\<close>.
\<close>

datatype model_error = InvalidField string "validation_error list" | InvalidSide

definition MarketOrder_validate :: "config \<Rightarrow> MarketOrder \<Rightarrow> model_error option" where
  "MarketOrder_validate cfg data =
     (let t = validateInput cfg (order_tokenId data) TokenId;
          p = validateInput cfg (order_price data) Price;
          q = validateInput cfg (order_quantity data) Quantity
      in if \<not> isValid t then Some (InvalidField ''tokenId'' (errors t))
         else if \<not> isValid p then Some (InvalidField ''price'' (errors p))
         else if \<not> isValid q then Some (InvalidField ''quantity'' (errors q))
         else if order_side data \<noteq> JString ''buy'' \<and> order_side data \<noteq> JString ''sell''
              then Some InvalidSide
         else None)"

text \<open>
  \<^verbatim>\<open>UserBalance.balance\<close> is the decimal string of the unsigned integer that
  \<^verbatim>\<open>balanceOf\<close> returned, or the number \<^verbatim>\<open>0\<close>; \<^verbatim>\<open>canSell\<close> only compares it with
  \<^verbatim>\<open>>\<close>, which converts it to a number, so the model keeps the integer.
  \<^verbatim>\<open>canSell\<close> returns \<^verbatim>\<open>{canSell: true}\<close> or \<^verbatim>\<open>{canSell: false, reason}\<close> with the
  reason \<^verbatim>\<open>Invalid quantity\<close> or \<^verbatim>\<open>Insufficient balance. Have: b, Need: q\<close>.
\<close>

record UserBalance =
  balance_tokenId :: jsval
  balance :: nat

definition new_UserBalance :: "UserBalance \<Rightarrow> UserBalance" where
  "new_UserBalance data = BaseModel data"

datatype reason = InvalidQuantity | InsufficientBalance nat jsnum

datatype sell_check = CanSell | CannotSell reason

definition canSell :: "config \<Rightarrow> UserBalance \<Rightarrow> jsval \<Rightarrow> sell_check" where
  "canSell cfg this quantity =
     (let quantityValidation = validateInput cfg quantity Quantity
      in if \<not> isValid quantityValidation then CannotSell InvalidQuantity
         else let q = (case sanitizedValue quantityValidation of Some q \<Rightarrow> q | None \<Rightarrow> Num 0)
              in if js_gt q (Num (of_nat (balance this)))
                 then CannotSell (InsufficientBalance (balance this) q)
                 else CanSell)"

record TransactionResult =
  success :: bool
  txHash :: "string option"
  blockNumber :: "nat option"
  gasUsed :: "string option"
  ordersCreated :: "nat option"
  error :: "string option"
  note_field :: "string option"
  timestamp :: int

definition new_TransactionResult :: "TransactionResult \<Rightarrow> TransactionResult" where
  "new_TransactionResult data = BaseModel data"

section \<open>Thrown values\<close>

text \<open>
  A value that is thrown, or that a promise is rejected with. JavaScript lets any value
  be thrown, and the \<^verbatim>\<open>catch\<close> clauses of the services read the properties
  \<^verbatim>\<open>message\<close> and \<^verbatim>\<open>code\<close> of what they caught. The model therefore tells
  apart \<^verbatim>\<open>undefined\<close>, \<^verbatim>\<open>null\<close>, and any other value, of which it keeps these
  two properties: \<open>Thrown code message\<close>, with \<open>None\<close> for a property that the value
  does not have. A \<^verbatim>\<open>message\<close> that is present is a string and a \<^verbatim>\<open>code\<close> that is
  present is an integer (the wallet's error codes). \<open>new_Error m\<close> is
  \<^verbatim>\<open>new Error(m)\<close>.

  Reading a property of \<^verbatim>\<open>undefined\<close> or \<^verbatim>\<open>null\<close> throws a \<^verbatim>\<open>TypeError\<close>
  instead of returning a value: \<open>cannot_read\<close> is that error, with the message that the
  V8 engine gives it. \<open>message_of\<close> is the expression \<^verbatim>\<open>error.message\<close> and
  \<open>code_of\<close> is \<^verbatim>\<open>switchError.code\<close>: \<open>Inl\<close> when evaluating it throws.
  \<open>interpolate\<close> is a value of \<^verbatim>\<open>error.message\<close> inside a template literal.
\<close>

datatype thrown = ThrownUndefined | ThrownNull | Thrown "int option" "string option"

definition new_Error :: "string \<Rightarrow> thrown" where
  "new_Error m = Thrown None (Some m)"

definition cannot_read :: "string \<Rightarrow> string \<Rightarrow> thrown" where
  "cannot_read target property =
     new_Error (''Cannot read properties of '' @ target
                @ '' (reading '' @ [CHR 0x27] @ property @ [CHR 0x27] @ '')'')"

definition message_of :: "thrown \<Rightarrow> thrown + string option" where
  "message_of caught =
     (case caught of
        ThrownUndefined \<Rightarrow> Inl (cannot_read ''undefined'' ''message'')
      | ThrownNull \<Rightarrow> Inl (cannot_read ''null'' ''message'')
      | Thrown code message \<Rightarrow> Inr message)"

definition code_of :: "thrown \<Rightarrow> thrown + int option" where
  "code_of caught =
     (case caught of
        ThrownUndefined \<Rightarrow> Inl (cannot_read ''undefined'' ''code'')
      | ThrownNull \<Rightarrow> Inl (cannot_read ''null'' ''code'')
      | Thrown code message \<Rightarrow> Inr code)"

definition interpolate :: "string option \<Rightarrow> string" where
  "interpolate message = (case message of None \<Rightarrow> ''undefined'' | Some m \<Rightarrow> m)"

section \<open>Collaborators of MarketplaceService\<close>

text \<open>
  An order in contract format, \<^verbatim>\<open>{side, tokenId, price, quantity}\<close>: the side is 0 (sell)
  or 1 (buy), price (in wei) and quantity are \<^verbatim>\<open>BigNumber\<close>s.
\<close>

datatype contract_order =
  ContractOrder (co_side: nat) (co_tokenId: jsval) (co_price: int) (co_quantity: int)

text \<open>
  What makes \<^verbatim>\<open>#validateAndPrepareOrders\<close> skip a request: the failed balance check,
  an exception of the two \<^verbatim>\<open>ethers\<close> conversions, or one of the four messages of
  \<^verbatim>\<open>#validateContractLimits\<close>.
\<close>

datatype order_error =
    BalanceCheckFailed reason
  | ConversionFailed thrown
  | PriceExceedsMaximum
  | QuantityExceedsMaximum
  | PriceNotGreaterThanZero
  | QuantityNotGreaterThanZero

datatype phase = SellPhase | BuyPhase

text \<open>
  The calls that leave the service, in the order in which they are made, and what it
  writes to the console. \<open>ConsoleWarn p n m\<close> is the warning of the \<open>n\<close>-th failed attempt
  of the sell loop or of the buy loop, with the value \<open>m\<close> of \<^verbatim>\<open>error.message\<close> for
  the caught error (\<open>None\<close> is \<^verbatim>\<open>undefined\<close>).
\<close>

datatype event =
    SwitchEthereumChain
  | AddEthereumChain
  | BalanceOf jsval
  | ConsoleError_balance jsval thrown
  | ConsoleError_order jsval order_error
  | IsApprovedForAll
  | SetApprovalForAll
  | ApprovalWait
  | EstimateGas "contract_order list"
  | LimitOrders "contract_order list" nat
  | TxWait string
  | ConsoleWarn phase nat "string option"
  | Delay nat

text \<open>
  The state of the wallet and of the service when \<^verbatim>\<open>createBatchOrders\<close> is entered,
  and the external operations. An operation that can fail returns \<open>Inl x\<close>, where \<open>x\<close>
  is the value that it throws or rejects with.
  \<^item> \<open>switchEthereumChain\<close>, \<open>addEthereumChain\<close>: the two wallet requests of
    \<^verbatim>\<open>switchNetwork\<close>; \<open>None\<close> when the request resolves, else the rejection.
  \<^item> \<open>contracts_initialized\<close>: \<^verbatim>\<open>this.#contract\<close> is set;
    \<open>contracts_constructible\<close>: \<^verbatim>\<open>new ethers.Contract\<close> succeeds.
  \<^item> \<open>balanceOf t\<close>: the balance of the connected address for token \<open>t\<close>, one snapshot
    for the whole call.
  \<^item> \<open>parseEther p\<close> is \<^verbatim>\<open>ethers.utils.parseEther(p.toString())\<close> and
    \<open>BigNumber_from q\<close> is \<^verbatim>\<open>ethers.BigNumber.from(q)\<close>.
  \<^item> The approval and order operations of the two contracts answer depending on the
    events that happened before them in the call, so that successive attempts can differ.
    \<open>limitOrders\<close> returns the transaction hash, \<open>tx_wait\<close> the block number and the
    gas used of the receipt.
\<close>

record env =
  wallet_isConnected :: bool
  wallet_address :: "string option"
  wallet_isOnCorrectNetwork :: bool
  wallet_provider :: bool
  switchEthereumChain :: "thrown option"
  addEthereumChain :: "thrown option"
  contracts_initialized :: bool
  contracts_constructible :: bool
  balanceOf :: "jsval \<Rightarrow> thrown + nat"
  parseEther :: "jsval \<Rightarrow> thrown + int"
  BigNumber_from :: "jsval \<Rightarrow> thrown + int"
  isApprovedForAll :: "event list \<Rightarrow> thrown + bool"
  setApprovalForAll :: "event list \<Rightarrow> thrown + unit"
  approval_wait :: "event list \<Rightarrow> thrown + unit"
  estimateGas :: "event list \<Rightarrow> contract_order list \<Rightarrow> thrown + nat"
  limitOrders :: "event list \<Rightarrow> contract_order list \<Rightarrow> nat \<Rightarrow> thrown + string"
  tx_wait :: "event list \<Rightarrow> thrown + nat \<times> nat"

text \<open>
  When the contracts could not be created, \<^verbatim>\<open>this.#contract\<close> and
  \<^verbatim>\<open>this.#itemsContract\<close> are \<^verbatim>\<open>null\<close>: a call on them throws a \<^verbatim>\<open>TypeError\<close>
  and nothing leaves the service.
\<close>

definition null_contract_error :: "string \<Rightarrow> thrown" where
  "null_contract_error method = cannot_read ''null'' method"

definition contract_call ::
  "bool \<Rightarrow> string \<Rightarrow> event \<Rightarrow> thrown + 'a \<Rightarrow> (thrown + 'a) \<times> event list" where
  "contract_call available method ev reply =
     (if available then (reply, [ev]) else (Inl (null_contract_error method), []))"

section \<open>MarketplaceService\<close>

subsection \<open>Wallet and contract set-up\<close>

text \<open>
  \<^verbatim>\<open>WalletService.switchNetwork\<close>: the value it rejects with, if any. Its
  \<^verbatim>\<open>catch\<close> clause reads \<^verbatim>\<open>switchError.code\<close>; for the code 4902 it calls
  \<^verbatim>\<open>#addNetwork\<close>, whose rejection is passed on as it is, and any other rejection is
  thrown again.
\<close>

definition switchNetwork :: "env \<Rightarrow> thrown option \<times> event list" where
  "switchNetwork e =
     (case switchEthereumChain e of
        None \<Rightarrow> (None, [SwitchEthereumChain])
      | Some switchError \<Rightarrow>
          (case code_of switchError of
             Inl typeError \<Rightarrow> (Some typeError, [SwitchEthereumChain])
           | Inr code \<Rightarrow>
               if code = Some 4902
               then (addEthereumChain e, [SwitchEthereumChain, AddEthereumChain])
               else (Some switchError, [SwitchEthereumChain])))"

text \<open>
  \<^verbatim>\<open>#initializeContracts\<close>: the error it throws, if any, and whether the contracts
  exist afterwards.
\<close>

definition initializeContracts :: "env \<Rightarrow> thrown option \<times> bool" where
  "initializeContracts e =
     (if \<not> wallet_isConnected e \<or> \<not> wallet_provider e then (None, False)
      else if contracts_constructible e then (None, True)
      else (Some (new_Error ''Failed to initialize marketplace contracts''), False))"

subsection \<open>Validating and preparing the orders\<close>

text \<open>A request of the caller: \<^verbatim>\<open>{tokenId, side, priceInEth, amount}\<close>.\<close>

record order_request =
  request_tokenId :: jsval
  request_side :: jsval
  request_priceInEth :: jsval
  request_amount :: jsval

definition falsy :: "jsval \<Rightarrow> bool" where
  "falsy v = (v = JUndefined \<or> v = JNull \<or> v = JBool False \<or> v = JNumber (Num 0)
              \<or> v = JNumber NaN \<or> v = JString [])"

definition MAX_UINT72 :: int where
  "MAX_UINT72 = 2 ^ 72 - 1"

definition MAX_UINT24 :: int where
  "MAX_UINT24 = 2 ^ 24 - 1"

definition validateContractLimits :: "contract_order \<Rightarrow> order_error option" where
  "validateContractLimits order =
     (if co_price order > MAX_UINT72 then Some PriceExceedsMaximum
      else if co_quantity order > MAX_UINT24 then Some QuantityExceedsMaximum
      else if co_price order \<le> 0 then Some PriceNotGreaterThanZero
      else if co_quantity order \<le> 0 then Some QuantityNotGreaterThanZero
      else None)"

definition getUserBalance :: "bool \<Rightarrow> env \<Rightarrow> jsval \<Rightarrow> UserBalance \<times> event list" where
  "getUserBalance available e tokenId =
     (case contract_call available ''balanceOf'' (BalanceOf tokenId) (balanceOf e tokenId) of
        (Inr b, evs) \<Rightarrow> (new_UserBalance \<lparr> balance_tokenId = tokenId, balance = b \<rparr>, evs)
      | (Inl m, evs) \<Rightarrow>
          (new_UserBalance \<lparr> balance_tokenId = tokenId, balance = 0 \<rparr>,
           evs @ [ConsoleError_balance tokenId m]))"

text \<open>The body of the \<^verbatim>\<open>try\<close> block that the loop runs for one request.\<close>

definition prepareOrder ::
  "bool \<Rightarrow> config \<Rightarrow> env \<Rightarrow> order_request \<Rightarrow> (order_error + contract_order) \<times> event list" where
  "prepareOrder available cfg e request =
     (let order = new_MarketOrder
            \<lparr> order_tokenId = request_tokenId request,
              order_side = (if falsy (request_side request) then JString ''sell''
                            else request_side request),
              order_price = request_priceInEth request,
              order_quantity = request_amount request,
              order_user = wallet_address e \<rparr>;
          (userBalance, evs) = getUserBalance available e (order_tokenId order)
      in case canSell cfg userBalance (order_quantity order) of
           CannotSell r \<Rightarrow> (Inl (BalanceCheckFailed r), evs)
         | CanSell \<Rightarrow>
             (case parseEther e (order_price order) of
                Inl m \<Rightarrow> (Inl (ConversionFailed m), evs)
              | Inr price \<Rightarrow>
                  (case BigNumber_from e (order_quantity order) of
                     Inl m \<Rightarrow> (Inl (ConversionFailed m), evs)
                   | Inr quantity \<Rightarrow>
                       (let contractOrder =
                              ContractOrder (sideNumeric order) (order_tokenId order) price quantity
                        in case validateContractLimits contractOrder of
                             Some err \<Rightarrow> (Inl err, evs)
                           | None \<Rightarrow> (Inr contractOrder, evs)))))"

text \<open>
  The \<^verbatim>\<open>for\<close> loop: an order that was prepared is pushed, an error is written to the
  console and the loop goes on.
\<close>

fun prepareOrders ::
  "bool \<Rightarrow> config \<Rightarrow> env \<Rightarrow> order_request list \<Rightarrow> contract_order list \<times> event list" where
  "prepareOrders available cfg e [] = ([], [])"
| "prepareOrders available cfg e (request # requests) =
     (let (outcome, evs) = prepareOrder available cfg e request;
          (validatedOrders, evs') = prepareOrders available cfg e requests
      in case outcome of
           Inr contractOrder \<Rightarrow> (contractOrder # validatedOrders, evs @ evs')
         | Inl err \<Rightarrow>
             (validatedOrders, evs @ [ConsoleError_order (request_tokenId request) err] @ evs'))"

text \<open>The decimal digits of a number, as template literals and \<^verbatim>\<open>toString\<close> print it.\<close>

definition digit_char :: "nat \<Rightarrow> char" where
  "digit_char d = ''0123456789'' ! d"

function show_nat :: "nat \<Rightarrow> string" where
  "show_nat n = (if n < 10 then [digit_char n]
                 else show_nat (n div 10) @ [digit_char (n mod 10)])"
  by pat_completeness auto
termination
  by (relation "measure id") auto

declare show_nat.simps [simp del]

definition show_int :: "int \<Rightarrow> string" where
  "show_int i = (if i < 0 then CHR ''-'' # show_nat (nat (- i)) else show_nat (nat i))"

definition too_many_orders :: "nat \<Rightarrow> string" where
  "too_many_orders n = ''Too many orders. Maximum '' @ show_nat n @ '' orders per batch.''"

definition validateAndPrepareOrders ::
  "bool \<Rightarrow> config \<Rightarrow> env \<Rightarrow> order_request list
     \<Rightarrow> (thrown + contract_order list) \<times> event list" where
  "validateAndPrepareOrders available cfg e orderRequests =
     (if length orderRequests > maxBatchSize cfg
      then (Inl (new_Error (too_many_orders (maxBatchSize cfg))), [])
      else (let (validatedOrders, evs) = prepareOrders available cfg e orderRequests
            in (Inr validatedOrders, evs)))"

subsection \<open>Approval\<close>

text \<open>
  \<^verbatim>\<open>#ensureApprovals\<close>, started after the events \<open>tr\<close>; it returns the events extended
  by its own. Its \<^verbatim>\<open>catch\<close> clause throws
  \<^verbatim>\<open>new Error(`Failed to approve marketplace: ${error.message}`)\<close> for what it caught
  (\<open>approval_error\<close>): when reading \<^verbatim>\<open>error.message\<close> throws, that \<^verbatim>\<open>TypeError\<close>
  leaves the method instead.
\<close>

definition approval_error :: "thrown \<Rightarrow> thrown" where
  "approval_error caught =
     (case message_of caught of
        Inl typeError \<Rightarrow> typeError
      | Inr message \<Rightarrow> new_Error (''Failed to approve marketplace: '' @ interpolate message))"

definition ensureApprovals :: "bool \<Rightarrow> env \<Rightarrow> event list \<Rightarrow> (thrown + unit) \<times> event list" where
  "ensureApprovals available e tr =
     (case contract_call available ''isApprovedForAll'' IsApprovedForAll (isApprovedForAll e tr) of
        (Inl m, evs) \<Rightarrow> (Inl (approval_error m), tr @ evs)
      | (Inr True, evs) \<Rightarrow> (Inr (), tr @ evs)
      | (Inr False, evs) \<Rightarrow>
          (case setApprovalForAll e (tr @ evs) of
             Inl m \<Rightarrow> (Inl (approval_error m), tr @ evs @ [SetApprovalForAll])
           | Inr tx \<Rightarrow>
               (case approval_wait e (tr @ evs @ [SetApprovalForAll]) of
                  Inl m \<Rightarrow> (Inl (approval_error m), tr @ evs @ [SetApprovalForAll, ApprovalWait])
                | Inr receipt \<Rightarrow> (Inr (), tr @ evs @ [SetApprovalForAll, ApprovalWait]))))"

subsection \<open>Submitting the batch\<close>

text \<open>The object that \<^verbatim>\<open>#executeBatchTransaction\<close> returns.\<close>

record batch_result =
  result_txHash :: string
  result_blockNumber :: nat
  result_gasUsed :: string
  result_note :: "string option"

text \<open>
  The \<^verbatim>\<open>try\<close> block of one attempt: estimate the gas, add the buffer, send the
  transaction and wait for the receipt.
\<close>

definition attempt ::
  "bool \<Rightarrow> config \<Rightarrow> env \<Rightarrow> contract_order list \<Rightarrow> event list
     \<Rightarrow> (thrown + batch_result) \<times> event list" where
  "attempt available cfg e orders tr =
     (case contract_call available ''estimateGas'' (EstimateGas orders) (estimateGas e tr orders) of
        (Inl m, evs) \<Rightarrow> (Inl m, tr @ evs)
      | (Inr gasEstimate, evs) \<Rightarrow>
          (let gasLimit = gasEstimate * (100 + gasBufferPercent cfg) div 100;
               tr1 = tr @ evs @ [LimitOrders orders gasLimit]
           in case limitOrders e (tr @ evs) orders gasLimit of
                Inl m \<Rightarrow> (Inl m, tr1)
              | Inr hash \<Rightarrow>
                  (case tx_wait e tr1 of
                     Inl m \<Rightarrow> (Inl m, tr1 @ [TxWait hash])
                   | Inr (block, used) \<Rightarrow>
                       (Inr \<lparr> result_txHash = hash, result_blockNumber = block,
                              result_gasUsed = show_nat used, result_note = None \<rparr>,
                        tr1 @ [TxWait hash]))))"

text \<open>
  One of the two \<^verbatim>\<open>for (let attempt = 0; attempt < maxRetries; attempt++)\<close> loops,
  entered with the loop counter, \<^verbatim>\<open>lastError\<close> (\<open>None\<close> while it is
  \<^verbatim>\<open>undefined\<close>) and the events so far. The loop is left in one of three ways:
  \<^item> \<open>Returned\<close>: the \<^verbatim>\<open>return\<close> after an attempt that succeeded;
  \<^item> \<open>RanOut\<close>: the counter reached \<open>maxRetries\<close>, with the value of \<^verbatim>\<open>lastError\<close>;
  \<^item> \<open>Raised\<close>: the \<^verbatim>\<open>catch\<close> clause itself threw. It evaluates
    \<^verbatim>\<open>error.message\<close> for the warning, which throws a \<^verbatim>\<open>TypeError\<close> when the
    attempt failed with \<^verbatim>\<open>undefined\<close> or \<^verbatim>\<open>null\<close>; nothing catches it inside
    \<^verbatim>\<open>#executeBatchTransaction\<close>, so no further attempt is made.
\<close>

datatype loop_exit = Returned batch_result | RanOut "thrown option" | Raised thrown

function tryOrders ::
  "phase \<Rightarrow> bool \<Rightarrow> config \<Rightarrow> env \<Rightarrow> contract_order list \<Rightarrow> nat \<Rightarrow> thrown option
     \<Rightarrow> event list \<Rightarrow> loop_exit \<times> event list" where
  "tryOrders ph available cfg e orders n lastError tr =
     (if n < maxRetries cfg
      then (case attempt available cfg e orders tr of
              (Inr result, tr') \<Rightarrow> (Returned result, tr')
            | (Inl caught, tr') \<Rightarrow>
                (case message_of caught of
                   Inl typeError \<Rightarrow> (Raised typeError, tr')
                 | Inr message \<Rightarrow>
                     tryOrders ph available cfg e orders (n + 1) (Some caught)
                       (tr' @ [ConsoleWarn ph (n + 1) message]
                            @ (if n + 1 < maxRetries cfg then [Delay (retryDelay cfg)] else []))))
      else (RanOut lastError, tr))"
  by pat_completeness auto
termination
  by (relation "measure (\<lambda>(ph, available, cfg, e, orders, n, lastError, tr). maxRetries cfg - n)")
     auto

declare tryOrders.simps [simp del]

text \<open>
  The message of the final error,
  \<^verbatim>\<open>`All transaction attempts failed: ${lastError?.message || 'Unknown error'}`\<close>:
  a message that is missing or empty is replaced.
\<close>

definition all_attempts_failed :: "thrown option \<Rightarrow> string" where
  "all_attempts_failed lastError =
     ''All transaction attempts failed: ''
       @ (case lastError of
            Some (Thrown code (Some m)) \<Rightarrow> if m = [] then ''Unknown error'' else m
          | _ \<Rightarrow> ''Unknown error'')"

definition buy_note :: string where
  "buy_note = ''Created BUY orders instead of SELL orders''"

text \<open>\<^verbatim>\<open>orders.map(order => ({ ...order, side: 1 }))\<close>\<close>

definition buyOrders_of :: "contract_order list \<Rightarrow> contract_order list" where
  "buyOrders_of orders =
     map (\<lambda>order. ContractOrder 1 (co_tokenId order) (co_price order) (co_quantity order)) orders"

definition executeBatchTransaction ::
  "bool \<Rightarrow> config \<Rightarrow> env \<Rightarrow> contract_order list \<Rightarrow> event list
     \<Rightarrow> (thrown + batch_result) \<times> event list" where
  "executeBatchTransaction available cfg e orders tr =
     (case tryOrders SellPhase available cfg e orders 0 None tr of
        (Returned result, tr1) \<Rightarrow> (Inr result, tr1)
      | (Raised typeError, tr1) \<Rightarrow> (Inl typeError, tr1)
      | (RanOut lastError, tr1) \<Rightarrow>
          (let buyOrders = buyOrders_of orders
           in case tryOrders BuyPhase available cfg e buyOrders 0 lastError tr1 of
                (Returned result, tr2) \<Rightarrow> (Inr (result \<lparr> result_note := Some buy_note \<rparr>), tr2)
              | (Raised typeError, tr2) \<Rightarrow> (Inl typeError, tr2)
              | (RanOut lastError', tr2) \<Rightarrow>
                  (Inl (new_Error (all_attempts_failed lastError')), tr2)))"

subsection \<open>createBatchOrders\<close>

definition rate_limit_error :: "int option \<Rightarrow> string" where
  "rate_limit_error resetTime =
     ''Rate limit exceeded. Try again in ''
       @ (case resetTime of None \<Rightarrow> ''NaN'' | Some t \<Rightarrow> show_int t) @ '' seconds.''"

definition rate_limit_key :: "env \<Rightarrow> string" where
  "rate_limit_key e =
     ''batch-orders-'' @ (case wallet_address e of None \<Rightarrow> ''null'' | Some a \<Rightarrow> a)"

text \<open>
  The \<^verbatim>\<open>try\<close> block of \<^verbatim>\<open>createBatchOrders\<close>, in two parts. \<open>Inl x\<close> is a thrown
  value \<open>x\<close> that reaches the \<^verbatim>\<open>catch\<close> clause. \<open>now\<close> is the clock read by
  the rate limiter.

  \<open>createBatchOrders_setup\<close> is the part before the orders are looked at: the rate-limit
  check, the wallet connection, the network, the contracts. It returns whether the
  contracts exist.
\<close>

definition createBatchOrders_setup ::
  "env \<Rightarrow> rate_limits \<Rightarrow> int \<Rightarrow> (thrown + bool) \<times> event list \<times> rate_limits" where
  "createBatchOrders_setup e limits now =
     (let (rateLimitCheck, limits') = checkRateLimit now (rate_limit_key e) 5 60000 limits
      in case rateLimitCheck of
           Rejected resetTime \<Rightarrow> (Inl (new_Error (rate_limit_error resetTime)), [], limits')
         | Allowed \<Rightarrow>
             if \<not> wallet_isConnected e then (Inl (new_Error ''Wallet not connected''), [], limits')
             else
               (let (switched, tr0) =
                      (if \<not> wallet_isOnCorrectNetwork e then switchNetwork e else (None, []))
                in case switched of
                     Some m \<Rightarrow> (Inl m, tr0, limits')
                   | None \<Rightarrow>
                       (let (initError, available) =
                              (if \<not> contracts_initialized e then initializeContracts e
                               else (None, True))
                        in case initError of
                             Some m \<Rightarrow> (Inl m, tr0, limits')
                           | None \<Rightarrow> (Inr available, tr0, limits'))))"

text \<open>
  \<open>createBatchOrders_try\<close> continues with the preparation of the orders, the approval
  and the submission; \<open>Inr\<close> carries the result of the submission and
  \<^verbatim>\<open>validatedOrders.length\<close>.
\<close>

definition createBatchOrders_try ::
  "config \<Rightarrow> env \<Rightarrow> rate_limits \<Rightarrow> int \<Rightarrow> order_request list
     \<Rightarrow> (thrown + batch_result \<times> nat) \<times> event list \<times> rate_limits" where
  "createBatchOrders_try cfg e limits now orderRequests =
     (case createBatchOrders_setup e limits now of
        (Inl m, tr0, limits') \<Rightarrow> (Inl m, tr0, limits')
      | (Inr available, tr0, limits') \<Rightarrow>
          (case validateAndPrepareOrders available cfg e orderRequests of
             (Inl m, evs) \<Rightarrow> (Inl m, tr0 @ evs, limits')
           | (Inr validatedOrders, evs) \<Rightarrow>
               if length validatedOrders = 0
               then (Inl (new_Error ''No valid orders to create''), tr0 @ evs, limits')
               else
                 (case ensureApprovals available e (tr0 @ evs) of
                    (Inl m, tr2) \<Rightarrow> (Inl m, tr2, limits')
                  | (Inr u, tr2) \<Rightarrow>
                      (case executeBatchTransaction available cfg e validatedOrders tr2 of
                         (Inl m, tr3) \<Rightarrow> (Inl m, tr3, limits')
                       | (Inr result, tr3) \<Rightarrow>
                           (Inr (result, length validatedOrders), tr3, limits')))))"

text \<open>
  \<^verbatim>\<open>createBatchOrders\<close>: the object built after the \<^verbatim>\<open>try\<close> block
  (\<open>succeeded\<close>), or the one built by the \<^verbatim>\<open>catch\<close> clause (\<open>failure\<close>) from the
  value of \<^verbatim>\<open>error.message\<close>. A field that the object literal does not mention, or
  that it sets to \<^verbatim>\<open>undefined\<close>, is \<open>None\<close>. \<open>finished\<close> is the clock read for
  \<^verbatim>\<open>timestamp\<close>.

  The call returns \<open>Inr\<close> with the result object. It returns \<open>Inl\<close> when the
  \<^verbatim>\<open>catch\<close> clause itself throws, which leaves the \<^verbatim>\<open>async\<close> method with a
  rejected promise: evaluating \<^verbatim>\<open>error.message\<close> throws when the value caught is
  \<^verbatim>\<open>undefined\<close> or \<^verbatim>\<open>null\<close>.
\<close>

definition succeeded :: "batch_result \<Rightarrow> nat \<Rightarrow> int \<Rightarrow> TransactionResult" where
  "succeeded result n finished =
     new_TransactionResult
       \<lparr> success = True,
         txHash = Some (result_txHash result),
         blockNumber = Some (result_blockNumber result),
         gasUsed = Some (result_gasUsed result),
         ordersCreated = Some n,
         error = None,
         note_field = None,
         timestamp = finished \<rparr>"

definition failure :: "string option \<Rightarrow> int \<Rightarrow> TransactionResult" where
  "failure message finished =
     new_TransactionResult
       \<lparr> success = False,
         txHash = None,
         blockNumber = None,
         gasUsed = None,
         ordersCreated = None,
         error = message,
         note_field = None,
         timestamp = finished \<rparr>"

definition createBatchOrders ::
  "config \<Rightarrow> env \<Rightarrow> rate_limits \<Rightarrow> int \<Rightarrow> int \<Rightarrow> order_request list
     \<Rightarrow> (thrown + TransactionResult) \<times> event list \<times> rate_limits" where
  "createBatchOrders cfg e limits now finished orderRequests =
     (case createBatchOrders_try cfg e limits now orderRequests of
        (Inr (result, n), tr, limits') \<Rightarrow> (Inr (succeeded result n finished), tr, limits')
      | (Inl caught, tr, limits') \<Rightarrow>
          (case message_of caught of
             Inl typeError \<Rightarrow> (Inl typeError, tr, limits')
           | Inr message \<Rightarrow> (Inr (failure message finished), tr, limits')))"

section \<open>Reading the outcome of a call\<close>

text \<open>
  The batches for which gas was estimated (one per attempt), the warnings of the failed
  attempts with their loop, number and message, and the number of approval transactions.
  \<open>returned_success\<close> tells whether a call returned a result with \<^verbatim>\<open>success: true\<close>.
\<close>

definition attempts_of :: "event list \<Rightarrow> contract_order list list" where
  "attempts_of tr = List.map_filter (\<lambda>ev. case ev of EstimateGas os \<Rightarrow> Some os | _ \<Rightarrow> None) tr"

definition warnings_of :: "event list \<Rightarrow> (phase \<times> nat \<times> string option) list" where
  "warnings_of tr =
     List.map_filter (\<lambda>ev. case ev of ConsoleWarn ph n m \<Rightarrow> Some (ph, n, m) | _ \<Rightarrow> None) tr"

definition approvals_of :: "event list \<Rightarrow> nat" where
  "approvals_of tr = length (filter (\<lambda>ev. ev = SetApprovalForAll) tr)"

definition returned_success :: "thrown + TransactionResult \<Rightarrow> bool" where
  "returned_success outcome = (case outcome of Inr r \<Rightarrow> success r | Inl x \<Rightarrow> False)"

section \<open>Example collaborators\<close>

text \<open>
  A wallet that is connected to the right network with the contracts in place, balances
  3, 10 and 1 for the tokens 7, 1 and 2 (the balance read fails for any other token),
  no approval until one is set, and an order book that accepts every batch.
  \<open>sell_request t q\<close> asks to sell \<open>q\<close> of token \<open>t\<close> at the price 1.5.
\<close>

definition demo_env :: env where
  "demo_env =
     \<lparr> wallet_isConnected = True, wallet_address = Some ''0xabc'',
       wallet_isOnCorrectNetwork = True, wallet_provider = True,
       switchEthereumChain = None, addEthereumChain = None,
       contracts_initialized = True, contracts_constructible = True,
       balanceOf = (\<lambda>t. if t = JNumber (Num 7) then Inr 3
                       else if t = JNumber (Num 1) then Inr 10
                       else if t = JNumber (Num 2) then Inr 1
                       else Inl (new_Error ''call revert exception'')),
       parseEther = (\<lambda>p. if p = JNumber (Num (3 / 2)) then Inr 1500000000000000000
                        else Inl (new_Error ''invalid decimal value'')),
       BigNumber_from = (\<lambda>q. case q of JNumber (Num r) \<Rightarrow>
                                   if r = of_int \<lfloor>r\<rfloor> then Inr \<lfloor>r\<rfloor>
                                   else Inl (new_Error ''underflow'')
                                 | _ \<Rightarrow> Inl (new_Error ''invalid BigNumber value'')),
       isApprovedForAll = (\<lambda>tr. Inr (SetApprovalForAll \<in> set tr)),
       setApprovalForAll = (\<lambda>tr. Inr ()),
       approval_wait = (\<lambda>tr. Inr ()),
       estimateGas = (\<lambda>tr os. Inr 100000),
       limitOrders = (\<lambda>tr os gasLimit. Inr ''0xfeed''),
       tx_wait = (\<lambda>tr. Inr (1234, 90000)) \<rparr>"

definition sell_request :: "rat \<Rightarrow> rat \<Rightarrow> order_request" where
  "sell_request t q =
     \<lparr> request_tokenId = JNumber (Num t), request_side = JString ''sell'',
       request_priceInEth = JNumber (Num (3 / 2)), request_amount = JNumber (Num q) \<rparr>"

text \<open>
  \<open>hold_request\<close> is the request for 3 of token 7 with the side \<^verbatim>\<open>hold\<close>.
  \<open>rejecting_env\<close> is \<open>demo_env\<close> with an order book that rejects every gas
  estimation; \<open>buy_only_env\<close> rejects a batch unless all its orders are buy orders.
  \<open>bare_rejecting_env\<close> rejects every gas estimation with \<^verbatim>\<open>undefined\<close>, as
  \<^verbatim>\<open>Promise.reject()\<close> does.
\<close>

definition hold_request :: order_request where
  "hold_request = (sell_request 7 3) \<lparr> request_side := JString ''hold'' \<rparr>"

definition rejecting_env :: env where
  "rejecting_env = demo_env \<lparr> estimateGas := (\<lambda>tr os. Inl (new_Error ''execution reverted'')) \<rparr>"

definition buy_only_env :: env where
  "buy_only_env =
     demo_env \<lparr> estimateGas := (\<lambda>tr os. if list_all (\<lambda>order. co_side order = 1) os
                                        then Inr 100000
                                        else Inl (new_Error ''execution reverted'')) \<rparr>"

definition bare_rejecting_env :: env where
  "bare_rejecting_env = demo_env \<lparr> estimateGas := (\<lambda>tr os. Inl ThrownUndefined) \<rparr>"

text \<open>
  \<open>unconfirmed_env\<close> is \<open>demo_env\<close> with an approval transaction that is sent but does
  not confirm.
\<close>

definition unconfirmed_env :: env where
  "unconfirmed_env = demo_env \<lparr> approval_wait := (\<lambda>tr. Inl (new_Error ''transaction failed'')) \<rparr>"

text \<open>
  Wallets on another network. \<open>unknown_chain_env\<close>: the wallet does not know the chain
  (code 4902) and rejects the request to add it with \<^verbatim>\<open>undefined\<close>.
  \<open>refused_switch_env\<close>: the wallet rejects the switch with a value that has no
  \<^verbatim>\<open>message\<close>.
\<close>

definition unknown_chain_env :: env where
  "unknown_chain_env =
     demo_env \<lparr> wallet_isOnCorrectNetwork := False,
                switchEthereumChain := Some (Thrown (Some 4902) (Some ''Unrecognized chain ID'')),
                addEthereumChain := Some ThrownUndefined \<rparr>"

definition refused_switch_env :: env where
  "refused_switch_env =
     demo_env \<lparr> wallet_isOnCorrectNetwork := False,
                switchEthereumChain := Some (Thrown (Some 4001) None) \<rparr>"

section \<open>The validator claims as the specification words them\<close>

text \<open>
  The specification accepts a value that \<^emph>\<open>denotes\<close> a number in a range. Read
  literally: a finite JavaScript number denotes itself; a string denotes a number when,
  apart from surrounding white space, the whole of it is an optionally signed decimal
  numeral with an optional fraction. \<open>spec_quantity_accepts\<close> and
  \<open>spec_price_accepts\<close> are these readings for the default limits; they are used only
  to state where the code departs from them.
\<close>

definition spec_numeral :: "string \<Rightarrow> rat option" where
  "spec_numeral s =
     (let neg = (s \<noteq> [] \<and> hd s = CHR ''-'');
          u = (if s \<noteq> [] \<and> (hd s = CHR ''-'' \<or> hd s = CHR ''+'') then tl s else s);
          ip = takeWhile is_digit u;
          r1 = dropWhile is_digit u;
          fp = (if r1 \<noteq> [] \<and> hd r1 = CHR ''.'' then tl r1 else [])
      in if ip \<noteq> [] \<and> (r1 = [] \<or> (hd r1 = CHR ''.'' \<and> fp \<noteq> [] \<and> list_all is_digit fp))
         then (let x = of_int (digits_value ip) + of_int (digits_value fp) / 10 ^ length fp
               in Some (if neg then - x else x))
         else None)"

definition spec_denotes :: "jsval \<Rightarrow> rat option" where
  "spec_denotes v = (case v of JNumber (Num r) \<Rightarrow> Some r
                             | JString s \<Rightarrow> spec_numeral (trim s)
                             | _ \<Rightarrow> None)"

definition spec_quantity_accepts :: "jsval \<Rightarrow> bool" where
  "spec_quantity_accepts q =
     (case spec_denotes q of
        Some r \<Rightarrow> r = of_int \<lfloor>r\<rfloor> \<and> 1 \<le> r \<and> r \<le> 16777215
      | None \<Rightarrow> False)"

definition spec_price_accepts :: "jsval \<Rightarrow> bool" where
  "spec_price_accepts p =
     (case spec_denotes p of
        Some r \<Rightarrow> 0 < r \<and> js_le (toDouble (1 / 1000000)) (toDouble r)
                         \<and> js_le (toDouble r) (Num 1000000)
      | None \<Rightarrow> False)"

section \<open>Properties of the rate limiter\<close>





section \<open>Properties of the validators\<close>

lemma price_min_double:
  "toDouble (1 / 1000000) = Num (4722366482869645 / 4722366482869645213696)"
  by code_simp

lemma js_lt_Num_iff: "js_lt x (Num b) \<longleftrightarrow> x = NegInf \<or> (\<exists>a. x = Num a \<and> a < b)"
  by (cases x) auto

lemma js_lt_Num_iff2: "js_lt (Num b) x \<longleftrightarrow> x = PosInf \<or> (\<exists>a. x = Num a \<and> b < a)"
  by (cases x) auto

lemma validateQuantity_valid_iff:
  "isValid (validateQuantity default_config v) \<longleftrightarrow>
     (\<exists>k. parseInt v = Num (of_int k) \<and> 1 \<le> k \<and> k \<le> 16777215 \<and> parseFloat v = Num (of_int k))"
  by (cases "parseInt v")
     (auto simp: validateQuantity_def Let_def isNaN_def invalid_def valid_def js_gt_def js_le_def
      js_strict_eq_def Number_isInteger_def js_lt_Num_iff js_lt_Num_iff2 default_config_def)

lemma validateQuantity_cases:
  "validateQuantity cfg v = valid (parseInt v) \<and> isValid (validateQuantity cfg v)
   \<or> (\<exists>e. validateQuantity cfg v = invalid e) \<and> \<not> isValid (validateQuantity cfg v)"
  by (auto simp: validateQuantity_def Let_def invalid_def valid_def)

lemma validatePrice_cases:
  "validatePrice cfg v = valid (parseFloat v) \<and> isValid (validatePrice cfg v)
   \<or> (\<exists>e. validatePrice cfg v = invalid e) \<and> \<not> isValid (validatePrice cfg v)"
  by (auto simp: validatePrice_def Let_def invalid_def valid_def)

lemma decimal_notation_int:
  assumes "1 \<le> k" "k \<le> 16777215"
  shows "decimal_notation (of_int k)"
proof -
  have a: "(1::rat) \<le> of_int k" using assms by simp
  have b: "(of_int k :: rat) \<le> 16777215" using assms by (metis of_int_le_iff of_int_numeral)
  have c: "\<bar>of_int k :: rat\<bar> = of_int k" using a by simp
  show ?thesis
    unfolding decimal_notation_def price_min_double js_le_def c using a b by simp
qed

lemma parseInt_number_int:
  "1 \<le> k \<Longrightarrow> k \<le> 16777215 \<Longrightarrow> parseInt_number (Num (of_int k)) = Num (of_int k)"
  by (simp add: parseInt_number_def decimal_notation_int)

text \<open>
  Numbers that print in exponent notation: \<^verbatim>\<open>parseInt(1e23)\<close> is 1 although the
  double is below \<open>10 ^ 23\<close>, and \<^verbatim>\<open>parseInt(5e-7)\<close> is 5 although the double is
  below \<open>5 / 10 ^ 7\<close>, so that the token id \<^verbatim>\<open>5e-7\<close> is accepted as 5.
\<close>

lemma parseInt_exponent_notation:
  "toDouble (10 ^ 23) = Num 99999999999999991611392"
  "parseInt (JNumber (Num 99999999999999991611392)) = Num 1"
  "toDouble (5 / 10000000) = Num (4722366482869645 / 9444732965739290427392)"
  "parseInt (JNumber (Num (4722366482869645 / 9444732965739290427392))) = Num 5"
  "validateInput default_config (JNumber (Num (4722366482869645 / 9444732965739290427392))) TokenId
     = valid (Num 5)"
  by code_simp+

lemma validateQuantity_number_iff:
  "isValid (validateQuantity default_config (JNumber n)) \<longleftrightarrow>
     (\<exists>k. n = Num (of_int k) \<and> 1 \<le> k \<and> k \<le> 16777215)"
  unfolding validateQuantity_valid_iff
  by (auto simp: parseInt_def parseFloat_def parseInt_number_int)

lemma validateInput_Quantity:
  "validateInput cfg v Quantity =
     (case basicSanitization cfg v of Inl e \<Rightarrow> invalid e | Inr v' \<Rightarrow> validateQuantity cfg v')"
  by (simp add: validateInput_def split: sum.splits)

lemma validateInput_Price:
  "validateInput cfg v Price =
     (case basicSanitization cfg v of Inl e \<Rightarrow> invalid e | Inr v' \<Rightarrow> validatePrice cfg v')"
  by (simp add: validateInput_def split: sum.splits)

lemma basicSanitization_number [simp]:
  "basicSanitization cfg (JNumber n) = Inr (JNumber n)"
  by (simp add: basicSanitization_def)

lemma basicSanitization_string:
  "basicSanitization cfg (JString s) =
     (if length (trim s) > maxInputLength cfg then Inl (InputTooLong (maxInputLength cfg))
      else Inr (JString (sanitizeHtml (trim s))))"
  by (simp add: basicSanitization_def Let_def)

lemma isValid_invalid [simp]: "\<not> isValid (invalid e)"
  by (simp add: invalid_def)

text \<open>
  Claim C6, amended. Quantity validation (default limits) accepts a value exactly when
  basic sanitisation passes it and \<^verbatim>\<open>parseInt\<close> and \<^verbatim>\<open>parseFloat\<close> of the sanitised
  value agree on an integer in \<open>[1, 16777215]\<close>. For a JavaScript number that means: it
  is an integer in \<open>[1, 16777215]\<close>. For a string it means: the trimmed string is at
  most \<open>maxInputLength\<close> long and the longest numeric prefix of the trimmed, sanitised
  string is such an integer, whatever follows the prefix. An accepted value gives that
  integer as \<open>sanitizedValue\<close> and no error; a rejected value gives \<open>isValid = False\<close>,
  \<open>sanitizedValue = None\<close> and one error.
\<close>

theorem validateQuantity_accepts:
  "(isValid (validateInput default_config v Quantity) \<longleftrightarrow>
      (\<exists>v' k. basicSanitization default_config v = Inr v' \<and> 1 \<le> k \<and> k \<le> 16777215 \<and>
              parseInt v' = Num (of_int k) \<and> parseFloat v' = Num (of_int k) \<and>
              validateInput default_config v Quantity = valid (Num (of_int k))))
   \<and> (isValid (validateInput default_config (JNumber n) Quantity) \<longleftrightarrow>
        (\<exists>k. n = Num (of_int k) \<and> 1 \<le> k \<and> k \<le> 16777215))
   \<and> (isValid (validateInput default_config (JString s) Quantity) \<longleftrightarrow>
        length (trim s) \<le> maxInputLength default_config \<and>
        (\<exists>k. 1 \<le> k \<and> k \<le> 16777215 \<and>
             parseInt_string (sanitizeHtml (trim s)) = Num (of_int k) \<and>
             parseFloat_string (sanitizeHtml (trim s)) = Num (of_int k)))
   \<and> (\<not> isValid (validateInput default_config v Quantity) \<longrightarrow>
        (\<exists>e. validateInput default_config v Quantity = invalid e))"
proof -
  have gen: "isValid (validateInput default_config v Quantity) \<longleftrightarrow>
      (\<exists>v' k. basicSanitization default_config v = Inr v' \<and> 1 \<le> k \<and> k \<le> 16777215 \<and>
              parseInt v' = Num (of_int k) \<and> parseFloat v' = Num (of_int k) \<and>
              validateInput default_config v Quantity = valid (Num (of_int k)))"
    (is "?L \<longleftrightarrow> ?R")
  proof
    assume l: ?L
    then obtain v' where v': "basicSanitization default_config v = Inr v'"
      and q: "isValid (validateQuantity default_config v')"
      unfolding validateInput_Quantity by (auto split: sum.splits)
    from q obtain k where k: "parseInt v' = Num (of_int k)" "1 \<le> k" "k \<le> 16777215"
      "parseFloat v' = Num (of_int k)"
      unfolding validateQuantity_valid_iff by blast
    from q validateQuantity_cases [of default_config v']
    have "validateQuantity default_config v' = valid (parseInt v')" by blast
    with v' k show ?R unfolding validateInput_Quantity by auto
  next
    assume ?R
    then show ?L by (auto simp: valid_def)
  qed
  have num: "isValid (validateInput default_config (JNumber n) Quantity) \<longleftrightarrow>
      (\<exists>k. n = Num (of_int k) \<and> 1 \<le> k \<and> k \<le> 16777215)"
    by (simp add: validateInput_Quantity validateQuantity_number_iff)
  have str: "isValid (validateInput default_config (JString s) Quantity) \<longleftrightarrow>
      length (trim s) \<le> maxInputLength default_config \<and>
      (\<exists>k. 1 \<le> k \<and> k \<le> 16777215 \<and>
           parseInt_string (sanitizeHtml (trim s)) = Num (of_int k) \<and>
           parseFloat_string (sanitizeHtml (trim s)) = Num (of_int k))"
    unfolding validateInput_Quantity basicSanitization_string
    by (auto simp: validateQuantity_valid_iff parseInt_def parseFloat_def)
  have bad: "\<not> isValid (validateInput default_config v Quantity) \<longrightarrow>
      (\<exists>e. validateInput default_config v Quantity = invalid e)"
    unfolding validateInput_Quantity
    using validateQuantity_cases [of default_config]
    by (auto split: sum.splits)
  from gen num str bad show ?thesis by blast
qed


theorem validateQuantity_accepts_witness:
  "(\<exists>v' k. basicSanitization default_config (JString ''5abc'') = Inr v' \<and> 1 \<le> k \<and> k \<le> 16777215 \<and>
       parseInt v' = Num (of_int k) \<and> parseFloat v' = Num (of_int k) \<and>
       validateInput default_config (JString ''5abc'') Quantity = valid (Num (of_int k)))
   \<and> isValid (validateInput default_config (JNumber (Num 3)) Quantity)
   \<and> isValid (validateInput default_config (JString ''  42 '') Quantity)
   \<and> (\<exists>e. validateInput default_config (JNumber (Num (5 / 2))) Quantity = invalid e)"
proof -
  have e1: "isValid (validateInput default_config (JString ''5abc'') Quantity)"
    by code_simp
  have e2: "\<not> isValid (validateInput default_config (JNumber (Num (5 / 2))) Quantity)"
    by code_simp
  have e3: "\<exists>k. Num 3 = Num (of_int k) \<and> 1 \<le> k \<and> k \<le> 16777215"
    by (rule exI [of _ 3]) simp
  have e4: "length (trim ''  42 '') \<le> maxInputLength default_config \<and>
      (\<exists>k. 1 \<le> k \<and> k \<le> 16777215 \<and>
           parseInt_string (sanitizeHtml (trim ''  42 '')) = Num (of_int k) \<and>
           parseFloat_string (sanitizeHtml (trim ''  42 '')) = Num (of_int k))"
  proof -
    have "length (trim ''  42 '') \<le> maxInputLength default_config" by code_simp
    moreover have "parseInt_string (sanitizeHtml (trim ''  42 '')) = Num (of_int 42)"
      by code_simp
    moreover have "parseFloat_string (sanitizeHtml (trim ''  42 '')) = Num (of_int 42)"
      by code_simp
    ultimately show ?thesis by (intro conjI exI [of _ 42]) simp_all
  qed
  from validateQuantity_accepts [of "JString ''5abc''" "Num 3" "''  42 ''"] e1 e3 e4
  have a: "\<exists>v' k. basicSanitization default_config (JString ''5abc'') = Inr v' \<and> 1 \<le> k \<and> k \<le> 16777215 \<and>
       parseInt v' = Num (of_int k) \<and> parseFloat v' = Num (of_int k) \<and>
       validateInput default_config (JString ''5abc'') Quantity = valid (Num (of_int k))"
    and b: "isValid (validateInput default_config (JNumber (Num 3)) Quantity)"
    and c: "isValid (validateInput default_config (JString ''  42 '') Quantity)"
    by blast+
  from validateQuantity_accepts [of "JNumber (Num (5 / 2))" "Num 3" "''  42 ''"] e2
  have d: "\<exists>e. validateInput default_config (JNumber (Num (5 / 2))) Quantity = invalid e"
    by blast
  from a b c d show ?thesis by blast
qed

text \<open>
  Claim C6 as stated fails on the string \<^verbatim>\<open>5abc\<close>: it does not denote an integer, and
  quantity validation accepts it with the sanitised value 5.
\<close>

theorem validateQuantity_counterexample:
  "validateInput default_config (JString ''5abc'') Quantity = valid (Num 5)
   \<and> \<not> spec_quantity_accepts (JString ''5abc'')"
  by code_simp

lemma validatePrice_valid_iff:
  "isValid (validatePrice default_config v) \<longleftrightarrow>
     (\<exists>p. parseFloat v = Num p \<and> 4722366482869645 / 4722366482869645213696 \<le> p \<and> p \<le> 1000000)"
proof -
  have rules: "validation_price default_config
      = \<lparr> min_value = Num (4722366482869645 / 4722366482869645213696),
          max_value = Num 1000000 \<rparr>"
    by (simp add: default_config_def price_min_double)
  show ?thesis
    unfolding validatePrice_def rules
    by (cases "parseFloat v")
       (auto simp: Let_def isNaN_def invalid_def valid_def js_gt_def js_le_def)
qed

text \<open>
  Claim C7, amended. Price validation (default limits) accepts a value exactly when basic
  sanitisation passes it and \<^verbatim>\<open>parseFloat\<close> of the sanitised value is a finite number
  between the double \<^verbatim>\<open>0.000001\<close> (which is \<open>4722366482869645 / 2 ^ 72\<close>) and
  \<open>1000000\<close>; such a number is positive. For a JavaScript number that means: it lies in
  that interval. For a string it means: the trimmed string is at most \<open>maxInputLength\<close>
  long and the longest prefix of the trimmed, sanitised string that is a decimal literal
  denotes, after rounding to a double, a number in the interval, whatever follows the
  prefix. An accepted value gives that number as \<open>sanitizedValue\<close> and no error; a
  rejected value gives \<open>isValid = False\<close>, \<open>sanitizedValue = None\<close> and one error.
\<close>

theorem validatePrice_accepts:
  "(isValid (validateInput default_config v Price) \<longleftrightarrow>
      (\<exists>v' p. basicSanitization default_config v = Inr v' \<and> parseFloat v' = Num p \<and>
              toDouble (1 / 1000000) = Num (4722366482869645 / 2 ^ 72) \<and>
              4722366482869645 / 2 ^ 72 \<le> p \<and> p \<le> 1000000 \<and> 0 < p \<and>
              validateInput default_config v Price = valid (Num p)))
   \<and> (isValid (validateInput default_config (JNumber n) Price) \<longleftrightarrow>
        (\<exists>p. n = Num p \<and> 4722366482869645 / 2 ^ 72 \<le> p \<and> p \<le> 1000000))
   \<and> (isValid (validateInput default_config (JString s) Price) \<longleftrightarrow>
        length (trim s) \<le> maxInputLength default_config \<and>
        (\<exists>p. parseFloat_string (sanitizeHtml (trim s)) = Num p \<and>
             4722366482869645 / 2 ^ 72 \<le> p \<and> p \<le> 1000000))
   \<and> (\<not> isValid (validateInput default_config v Price) \<longrightarrow>
        (\<exists>e. validateInput default_config v Price = invalid e))"
proof -
  have pw: "(4722366482869645 / 2 ^ 72 :: rat) = 4722366482869645 / 4722366482869645213696"
    by simp
  have gen: "isValid (validateInput default_config v Price) \<longleftrightarrow>
      (\<exists>v' p. basicSanitization default_config v = Inr v' \<and> parseFloat v' = Num p \<and>
              toDouble (1 / 1000000) = Num (4722366482869645 / 2 ^ 72) \<and>
              4722366482869645 / 2 ^ 72 \<le> p \<and> p \<le> 1000000 \<and> 0 < p \<and>
              validateInput default_config v Price = valid (Num p))"
    (is "?L \<longleftrightarrow> ?R")
  proof
    assume l: ?L
    then obtain v' where v': "basicSanitization default_config v = Inr v'"
      and q: "isValid (validatePrice default_config v')"
      unfolding validateInput_Price by (auto split: sum.splits)
    from q obtain p where p: "parseFloat v' = Num p"
      "4722366482869645 / 4722366482869645213696 \<le> p" "p \<le> 1000000"
      unfolding validatePrice_valid_iff by blast
    from p(2) have pos: "0 < p" by simp
    from q validatePrice_cases [of default_config v']
    have "validatePrice default_config v' = valid (parseFloat v')" by blast
    with v' p pos show ?R unfolding validateInput_Price pw price_min_double by auto
  next
    assume ?R
    then show ?L by (auto simp: valid_def)
  qed
  have num: "isValid (validateInput default_config (JNumber n) Price) \<longleftrightarrow>
      (\<exists>p. n = Num p \<and> 4722366482869645 / 2 ^ 72 \<le> p \<and> p \<le> 1000000)"
    unfolding pw by (simp add: validateInput_Price validatePrice_valid_iff parseFloat_def)
  have str: "isValid (validateInput default_config (JString s) Price) \<longleftrightarrow>
      length (trim s) \<le> maxInputLength default_config \<and>
      (\<exists>p. parseFloat_string (sanitizeHtml (trim s)) = Num p \<and>
           4722366482869645 / 2 ^ 72 \<le> p \<and> p \<le> 1000000)"
    unfolding validateInput_Price basicSanitization_string pw
    by (auto simp: validatePrice_valid_iff parseFloat_def)
  have bad: "\<not> isValid (validateInput default_config v Price) \<longrightarrow>
      (\<exists>e. validateInput default_config v Price = invalid e)"
    unfolding validateInput_Price
    using validatePrice_cases [of default_config]
    by (auto split: sum.splits)
  from gen num str bad show ?thesis by blast
qed

theorem validatePrice_accepts_witness:
  "(\<exists>v' p. basicSanitization default_config (JString ''1.5abc'') = Inr v' \<and> parseFloat v' = Num p \<and>
       toDouble (1 / 1000000) = Num (4722366482869645 / 2 ^ 72) \<and>
       4722366482869645 / 2 ^ 72 \<le> p \<and> p \<le> 1000000 \<and> 0 < p \<and>
       validateInput default_config (JString ''1.5abc'') Price = valid (Num p))
   \<and> isValid (validateInput default_config (JNumber (Num (3 / 2))) Price)
   \<and> isValid (validateInput default_config (JString ''0.25'') Price)
   \<and> (\<exists>e. validateInput default_config (JNumber (Num 0)) Price = invalid e)"
proof -
  have e1: "isValid (validateInput default_config (JString ''1.5abc'') Price)"
    by code_simp
  have e2: "\<not> isValid (validateInput default_config (JNumber (Num 0)) Price)"
    by code_simp
  have e3: "\<exists>p. Num (3 / 2) = Num p \<and> 4722366482869645 / 2 ^ 72 \<le> p \<and> p \<le> 1000000"
    by (rule exI [of _ "3 / 2"]) simp
  have e4: "length (trim ''0.25'') \<le> maxInputLength default_config \<and>
      (\<exists>p. parseFloat_string (sanitizeHtml (trim ''0.25'')) = Num p \<and>
           4722366482869645 / 2 ^ 72 \<le> p \<and> p \<le> 1000000)"
  proof -
    have "length (trim ''0.25'') \<le> maxInputLength default_config" by code_simp
    moreover have "parseFloat_string (sanitizeHtml (trim ''0.25'')) = Num (1 / 4)"
      by code_simp
    ultimately show ?thesis by (intro conjI exI [of _ "1 / 4"]) simp_all
  qed
  from validatePrice_accepts [of "JString ''1.5abc''" "Num (3 / 2)" "''0.25''"] e1 e3 e4
  have a: "\<exists>v' p. basicSanitization default_config (JString ''1.5abc'') = Inr v' \<and> parseFloat v' = Num p \<and>
       toDouble (1 / 1000000) = Num (4722366482869645 / 2 ^ 72) \<and>
       4722366482869645 / 2 ^ 72 \<le> p \<and> p \<le> 1000000 \<and> 0 < p \<and>
       validateInput default_config (JString ''1.5abc'') Price = valid (Num p)"
    and b: "isValid (validateInput default_config (JNumber (Num (3 / 2))) Price)"
    and c: "isValid (validateInput default_config (JString ''0.25'') Price)"
    by blast+
  from validatePrice_accepts [of "JNumber (Num 0)" "Num (3 / 2)" "''0.25''"] e2
  have d: "\<exists>e. validateInput default_config (JNumber (Num 0)) Price = invalid e"
    by blast
  from a b c d show ?thesis by blast
qed

text \<open>
  Claim C7 as stated fails on the string \<^verbatim>\<open>1.5abc\<close>: it does not denote a number, and
  price validation accepts it with the sanitised value 1.5.
\<close>

theorem validatePrice_counterexample:
  "validateInput default_config (JString ''1.5abc'') Price = valid (Num (3 / 2))
   \<and> \<not> spec_price_accepts (JString ''1.5abc'')"
  by code_simp


section \<open>Properties of the order pipeline\<close>

lemma message_of_simps [simp]:
  "message_of (Thrown code message) = Inr message"
  "message_of (new_Error m) = Inr (Some m)"
  "message_of (cannot_read target property)
     = Inr (Some (''Cannot read properties of '' @ target
                  @ '' (reading '' @ [CHR 0x27] @ property @ [CHR 0x27] @ '')''))"
  "message_of ThrownUndefined = Inl (cannot_read ''undefined'' ''message'')"
  "message_of ThrownNull = Inl (cannot_read ''null'' ''message'')"
  by (simp_all add: message_of_def new_Error_def cannot_read_def)

lemma message_of_Inr_iff:
  "message_of x = Inr m \<longleftrightarrow> (\<exists>code. x = Thrown code m)"
  by (cases x) (auto simp: message_of_def)

lemma message_of_Inl_iff:
  "message_of x = Inl t \<longleftrightarrow>
     x = ThrownUndefined \<and> t = cannot_read ''undefined'' ''message''
     \<or> x = ThrownNull \<and> t = cannot_read ''null'' ''message''"
  by (cases x) (auto simp: message_of_def)

lemma new_Error_inject [simp]: "new_Error m = new_Error m' \<longleftrightarrow> m = m'"
  by (simp add: new_Error_def)

lemma new_Error_distinct [simp]:
  "new_Error m \<noteq> ThrownUndefined" "new_Error m \<noteq> ThrownNull"
  "ThrownUndefined \<noteq> new_Error m" "ThrownNull \<noteq> new_Error m"
  by (simp_all add: new_Error_def)

lemma failure_fields [simp]:
  "success (failure m fin) = False" "error (failure m fin) = m"
  "txHash (failure m fin) = None" "note_field (failure m fin) = None"
  "blockNumber (failure m fin) = None" "gasUsed (failure m fin) = None"
  "ordersCreated (failure m fin) = None" "timestamp (failure m fin) = fin"
  by (simp_all add: failure_def new_TransactionResult_def BaseModel_def BaseModel_transform_def)

lemma succeeded_fields [simp]:
  "success (succeeded result n fin) = True" "error (succeeded result n fin) = None"
  "txHash (succeeded result n fin) = Some (result_txHash result)"
  "ordersCreated (succeeded result n fin) = Some n"
  "note_field (succeeded result n fin) = None"
  by (simp_all add: succeeded_def new_TransactionResult_def BaseModel_def BaseModel_transform_def)

lemma createBatchOrders_caught:
  "createBatchOrders_try cfg e limits now reqs = (Inl (new_Error m), tr, limits') \<Longrightarrow>
     createBatchOrders cfg e limits now fin reqs = (Inr (failure (Some m) fin), tr, limits')"
  by (simp add: createBatchOrders_def)

lemma prepareOrders_orders:
  "fst (prepareOrders av cfg e rs) =
     List.map_filter (\<lambda>r. case fst (prepareOrder av cfg e r) of Inr co \<Rightarrow> Some co | Inl err \<Rightarrow> None) rs"
  by (induction rs) (auto simp: List.map_filter_simps split: prod.splits sum.splits)

lemma prepareOrders_append:
  "fst (prepareOrders av cfg e (xs @ ys)) = fst (prepareOrders av cfg e xs) @ fst (prepareOrders av cfg e ys)"
  by (simp add: prepareOrders_orders List.map_filter_def)

lemma validateAndPrepareOrders_too_many:
  "length reqs > maxBatchSize cfg \<Longrightarrow>
     validateAndPrepareOrders av cfg e reqs =
       (Inl (new_Error (too_many_orders (maxBatchSize cfg))), [])"
  by (simp add: validateAndPrepareOrders_def)

lemma validateAndPrepareOrders_within:
  "length reqs \<le> maxBatchSize cfg \<Longrightarrow>
     validateAndPrepareOrders av cfg e reqs =
       (Inr (fst (prepareOrders av cfg e reqs)), snd (prepareOrders av cfg e reqs))"
  by (simp add: validateAndPrepareOrders_def split: prod.splits)


lemma setup_events:
  "createBatchOrders_setup e limits now = (r, tr0, limits') \<Longrightarrow>
     set tr0 \<subseteq> {SwitchEthereumChain, AddEthereumChain}"
  by (auto simp: createBatchOrders_setup_def switchNetwork_def Let_def
           split: prod.splits rate_decision.splits if_splits option.splits sum.splits)

lemma createBatchOrders_not_prepared:
  assumes "createBatchOrders_setup e limits now = (r, tr0, limits')"
    and "\<And>av. validateAndPrepareOrders av cfg e reqs = (Inl (new_Error m), [])"
  shows "\<not> returned_success (fst (createBatchOrders cfg e limits now fin reqs))
     \<and> fst (snd (createBatchOrders cfg e limits now fin reqs)) = tr0
     \<and> (\<forall>av. r = Inr av \<longrightarrow>
           fst (createBatchOrders cfg e limits now fin reqs) = Inr (failure (Some m) fin))"
proof (cases r)
  case (Inl x)
  hence t: "createBatchOrders_try cfg e limits now reqs = (Inl x, tr0, limits')"
    by (simp add: createBatchOrders_try_def assms(1))
  show ?thesis
    by (cases "message_of x") (simp_all add: createBatchOrders_def t returned_success_def Inl)
next
  case (Inr av)
  hence t: "createBatchOrders_try cfg e limits now reqs = (Inl (new_Error m), tr0, limits')"
    by (simp add: createBatchOrders_try_def assms)
  show ?thesis
    by (simp add: createBatchOrders_caught [OF t] returned_success_def Inr)
qed

text \<open>
  Claim C3. A request list longer than \<open>maxBatchSize\<close> makes
  \<^verbatim>\<open>#validateAndPrepareOrders\<close> throw its single error before any event: no balance
  is read, no request is processed, nothing is truncated. The enclosing
  \<^verbatim>\<open>createBatchOrders\<close> then does not succeed and makes no contract call (the only
  events possible are the wallet's network switch that precedes the preparation); when the
  set-up succeeded it returns a failed result with that error. A list of exactly
  \<open>maxBatchSize\<close> requests passes the check and is processed.
\<close>

theorem batch_size_cap:
  "(maxBatchSize cfg < length reqs \<longrightarrow>
      validateAndPrepareOrders av cfg e reqs
        = (Inl (new_Error (too_many_orders (maxBatchSize cfg))), [])
      \<and> \<not> returned_success (fst (createBatchOrders cfg e limits now fin reqs))
      \<and> set (fst (snd (createBatchOrders cfg e limits now fin reqs)))
          \<subseteq> {SwitchEthereumChain, AddEthereumChain}
      \<and> (\<forall>tr0 limits'. createBatchOrders_setup e limits now = (Inr av, tr0, limits') \<longrightarrow>
            (\<exists>r. fst (createBatchOrders cfg e limits now fin reqs) = Inr r
                 \<and> \<not> success r
                 \<and> error r = Some (too_many_orders (maxBatchSize cfg)))))
   \<and> (length reqs = maxBatchSize cfg \<longrightarrow>
        validateAndPrepareOrders av cfg e reqs
          = (Inr (fst (prepareOrders av cfg e reqs)), snd (prepareOrders av cfg e reqs)))"
proof -
  let ?msg = "too_many_orders (maxBatchSize cfg)"
  {
    assume big: "maxBatchSize cfg < length reqs"
    have v: "\<And>av. validateAndPrepareOrders av cfg e reqs = (Inl (new_Error ?msg), [])"
      using big by (rule validateAndPrepareOrders_too_many)
    obtain r tr0 limits' where st: "createBatchOrders_setup e limits now = (r, tr0, limits')"
      by (cases "createBatchOrders_setup e limits now") auto
    have ev: "set tr0 \<subseteq> {SwitchEthereumChain, AddEthereumChain}"
      using st by (rule setup_events)
    note c = createBatchOrders_not_prepared [OF st v, of fin]
    have "validateAndPrepareOrders av cfg e reqs = (Inl (new_Error ?msg), [])
      \<and> \<not> returned_success (fst (createBatchOrders cfg e limits now fin reqs))
      \<and> set (fst (snd (createBatchOrders cfg e limits now fin reqs)))
          \<subseteq> {SwitchEthereumChain, AddEthereumChain}
      \<and> (\<forall>tr0 limits'. createBatchOrders_setup e limits now = (Inr av, tr0, limits') \<longrightarrow>
            (\<exists>r. fst (createBatchOrders cfg e limits now fin reqs) = Inr r
                 \<and> \<not> success r \<and> error r = Some ?msg))"
      using v ev c by (auto simp: st)
  }
  moreover
  {
    assume "length reqs = maxBatchSize cfg"
    hence "validateAndPrepareOrders av cfg e reqs
          = (Inr (fst (prepareOrders av cfg e reqs)), snd (prepareOrders av cfg e reqs))"
      by (simp add: validateAndPrepareOrders_within)
  }
  ultimately show ?thesis by blast
qed

lemma prepareOrder_kept:
  assumes "validateInput cfg (request_amount r) Quantity = valid (Num q)"
    and "balanceOf e (request_tokenId r) = Inr b"
    and "q \<le> of_nat b"
    and "parseEther e (request_priceInEth r) = Inr p"
    and "BigNumber_from e (request_amount r) = Inr k"
    and "0 < p" "p \<le> MAX_UINT72" "0 < k" "k \<le> MAX_UINT24"
  shows "prepareOrder True cfg e r =
    (Inr (ContractOrder
            (if request_side r = JString ''sell'' \<or> falsy (request_side r) then 0 else 1)
            (request_tokenId r) p k),
     [BalanceOf (request_tokenId r)])"
  using assms
  by (auto simp: prepareOrder_def getUserBalance_def contract_call_def canSell_def valid_def
        new_MarketOrder_def new_UserBalance_def BaseModel_def BaseModel_transform_def
        sideNumeric_def validateContractLimits_def js_gt_def Let_def falsy_def)

lemma prepareOrders_replicate:
  "prepareOrder av cfg e r = (Inr co, evs) \<Longrightarrow>
     fst (prepareOrders av cfg e (replicate n r)) = replicate n co"
  by (induction n) (auto split: prod.splits)

lemma quantity_3: "validateInput default_config (JNumber (Num 3)) Quantity = valid (Num 3)"
  by code_simp

lemma prepareOrder_demo_7_3:
  "prepareOrder True default_config demo_env (sell_request 7 3) =
     (Inr (ContractOrder 0 (JNumber (Num 7)) 1500000000000000000 3), [BalanceOf (JNumber (Num 7))])"
proof -
  have "prepareOrder True default_config demo_env (sell_request 7 3) =
    (Inr (ContractOrder
            (if request_side (sell_request 7 3) = JString ''sell''
                \<or> falsy (request_side (sell_request 7 3)) then 0 else 1)
            (request_tokenId (sell_request 7 3)) 1500000000000000000 3),
     [BalanceOf (request_tokenId (sell_request 7 3))])"
    by (rule prepareOrder_kept [where q = 3 and b = 3])
       (simp_all add: sell_request_def demo_env_def quantity_3 MAX_UINT72_def MAX_UINT24_def)
  thus ?thesis by (simp add: sell_request_def)
qed

theorem batch_size_cap_witness:
  "validateAndPrepareOrders True default_config demo_env (replicate 51 (sell_request 7 3))
     = (Inl (new_Error ''Too many orders. Maximum 50 orders per batch.''), [])
   \<and> \<not> returned_success (fst (createBatchOrders default_config demo_env Map.empty 1000 2000
                                 (replicate 51 (sell_request 7 3))))
   \<and> (\<exists>r. fst (createBatchOrders default_config demo_env Map.empty 1000 2000
                   (replicate 51 (sell_request 7 3))) = Inr r
          \<and> \<not> success r
          \<and> error r = Some ''Too many orders. Maximum 50 orders per batch.'')
   \<and> fst (validateAndPrepareOrders True default_config demo_env (replicate 50 (sell_request 7 3)))
     = Inr (replicate 50 (ContractOrder 0 (JNumber (Num 7)) 1500000000000000000 3))"
proof -
  let ?big = "replicate 51 (sell_request 7 3)"
  let ?ok = "replicate 50 (sell_request 7 3)"
  have n: "maxBatchSize default_config < length ?big"
    by (simp add: default_config_def)
  have n2: "length ?ok = maxBatchSize default_config"
    by (simp add: default_config_def)
  have mb: "maxBatchSize default_config = 50" by (simp add: default_config_def)
  have sn: "too_many_orders 50 = ''Too many orders. Maximum 50 orders per batch.''"
    by (simp add: too_many_orders_def show_nat.simps digit_char_def)
  have st: "createBatchOrders_setup demo_env Map.empty 1000
      = (Inr True, [], [''batch-orders-0xabc'' \<mapsto> [1000]])"
    by (simp add: createBatchOrders_setup_def demo_env_def checkRateLimit_def
          rate_limit_key_def requests_of_def recentRequests_def Let_def)
  note w = batch_size_cap [of default_config ?big True demo_env Map.empty 1000 2000]
  note w2 = batch_size_cap [of default_config ?ok True demo_env Map.empty 1000 2000]
  from w n have a: "validateAndPrepareOrders True default_config demo_env ?big
      = (Inl (new_Error ''Too many orders. Maximum 50 orders per batch.''), [])"
    and b: "\<not> returned_success
               (fst (createBatchOrders default_config demo_env Map.empty 1000 2000 ?big))"
    unfolding mb sn by simp_all
  from w n st have c: "\<exists>r. fst (createBatchOrders default_config demo_env Map.empty 1000 2000 ?big)
        = Inr r \<and> \<not> success r
      \<and> error r = Some ''Too many orders. Maximum 50 orders per batch.''"
    unfolding mb sn by simp
  from w2 n2 have d: "fst (validateAndPrepareOrders True default_config demo_env ?ok)
     = Inr (replicate 50 (ContractOrder 0 (JNumber (Num 7)) 1500000000000000000 3))"
    by (simp add: prepareOrders_replicate [OF prepareOrder_demo_7_3])
  from a b c d show ?thesis by blast
qed


lemma validateInput_Quantity_valid_default:
  assumes "isValid (validateInput default_config v Quantity)"
  shows "\<exists>k. 1 \<le> k \<and> k \<le> 16777215 \<and> validateInput default_config v Quantity = valid (Num (of_int k))"
proof -
  from assms obtain v' where v': "basicSanitization default_config v = Inr v'"
    and q: "isValid (validateQuantity default_config v')"
    unfolding validateInput_Quantity by (auto split: sum.splits)
  from q obtain k where k: "parseInt v' = Num (of_int k)" "1 \<le> k" "k \<le> 16777215"
    unfolding validateQuantity_valid_iff by blast
  from q validateQuantity_cases [of default_config v']
  have "validateQuantity default_config v' = valid (parseInt v')" by blast
  with v' k show ?thesis unfolding validateInput_Quantity by auto
qed

lemma getUserBalance_failed:
  "balanceOf e t = Inl m \<Longrightarrow>
     getUserBalance True e t =
       (\<lparr> balance_tokenId = t, balance = 0 \<rparr>, [BalanceOf t, ConsoleError_balance t m])"
  by (simp add: getUserBalance_def contract_call_def new_UserBalance_def BaseModel_def
        BaseModel_transform_def)

lemma prepareOrder_insufficient:
  assumes "balanceOf e (request_tokenId r) = Inl m"
    and "validateInput cfg (request_amount r) Quantity = valid (Num q)" and "1 \<le> q"
  shows "prepareOrder True cfg e r =
    (Inl (BalanceCheckFailed (InsufficientBalance 0 (Num q))),
     [BalanceOf (request_tokenId r), ConsoleError_balance (request_tokenId r) m])"
  using assms
  by (simp add: prepareOrder_def getUserBalance_failed canSell_def valid_def js_gt_def
        new_MarketOrder_def BaseModel_def BaseModel_transform_def Let_def)

lemma prepareOrder_failed_balance_default:
  assumes "balanceOf e (request_tokenId r) = Inl m"
  shows "\<exists>reason. prepareOrder True default_config e r =
    (Inl (BalanceCheckFailed reason),
     [BalanceOf (request_tokenId r), ConsoleError_balance (request_tokenId r) m])"
proof (cases "isValid (validateInput default_config (request_amount r) Quantity)")
  case True
  from validateInput_Quantity_valid_default [OF True] obtain k where
    k: "1 \<le> k" "validateInput default_config (request_amount r) Quantity = valid (Num (of_int k))"
    by blast
  from k(1) have "(1::rat) \<le> of_int k" by simp
  from prepareOrder_insufficient [OF assms k(2) this] show ?thesis by blast
next
  case False
  then show ?thesis using assms
    by (simp add: prepareOrder_def getUserBalance_failed canSell_def
        new_MarketOrder_def BaseModel_def BaseModel_transform_def Let_def)
qed

lemma prepareOrders_drop:
  assumes "fst (prepareOrder av cfg e r) = Inl err"
  shows "fst (prepareOrders av cfg e (xs @ r # ys)) = fst (prepareOrders av cfg e (xs @ ys))"
  using assms by (simp add: prepareOrders_orders List.map_filter_def)

text \<open>
  Claim C10. When the balance read for a request's token throws, the request is treated
  as one with balance 0: a request whose quantity is valid and at least 1 is dropped with
  the reason ``insufficient balance, have 0''; with the default limits the request is
  dropped whatever its quantity; the other requests of the batch are prepared as if the
  request were not there, and the preparation itself does not fail.
\<close>

theorem failed_balance_read_drops_request:
  "balanceOf e (request_tokenId r) = Inl m \<longrightarrow>
     fst (getUserBalance True e (request_tokenId r))
       = \<lparr> balance_tokenId = request_tokenId r, balance = 0 \<rparr>
     \<and> (\<forall>q. validateInput cfg (request_amount r) Quantity = valid (Num q) \<and> 1 \<le> q \<longrightarrow>
           fst (prepareOrder True cfg e r)
             = Inl (BalanceCheckFailed (InsufficientBalance 0 (Num q)))
           \<and> fst (prepareOrders True cfg e (xs @ r # ys)) = fst (prepareOrders True cfg e (xs @ ys)))
     \<and> (\<exists>reason. fst (prepareOrder True default_config e r) = Inl (BalanceCheckFailed reason))
     \<and> fst (prepareOrders True default_config e (xs @ r # ys))
         = fst (prepareOrders True default_config e (xs @ ys))
     \<and> (length (xs @ r # ys) \<le> maxBatchSize default_config \<longrightarrow>
           fst (validateAndPrepareOrders True default_config e (xs @ r # ys))
             = Inr (fst (prepareOrders True default_config e (xs @ ys))))"
proof
  assume f: "balanceOf e (request_tokenId r) = Inl m"
  have a: "fst (getUserBalance True e (request_tokenId r))
       = \<lparr> balance_tokenId = request_tokenId r, balance = 0 \<rparr>"
    by (simp add: getUserBalance_failed [OF f])
  have b: "fst (prepareOrder True cfg e r) = Inl (BalanceCheckFailed (InsufficientBalance 0 (Num q)))
      \<and> fst (prepareOrders True cfg e (xs @ r # ys)) = fst (prepareOrders True cfg e (xs @ ys))"
    if "validateInput cfg (request_amount r) Quantity = valid (Num q)" "1 \<le> q" for q
  proof -
    have p: "fst (prepareOrder True cfg e r) = Inl (BalanceCheckFailed (InsufficientBalance 0 (Num q)))"
      by (simp add: prepareOrder_insufficient [OF f that])
    from p prepareOrders_drop [OF p] show ?thesis by blast
  qed
  from prepareOrder_failed_balance_default [OF f] obtain reason where
    c: "fst (prepareOrder True default_config e r) = Inl (BalanceCheckFailed reason)" by auto
  have d: "fst (prepareOrders True default_config e (xs @ r # ys))
         = fst (prepareOrders True default_config e (xs @ ys))"
    by (rule prepareOrders_drop [OF c])
  have e: "fst (validateAndPrepareOrders True default_config e (xs @ r # ys))
             = Inr (fst (prepareOrders True default_config e (xs @ ys)))"
    if "length (xs @ r # ys) \<le> maxBatchSize default_config"
    by (simp add: validateAndPrepareOrders_within [OF that] d)
  from a b c d e
  show "fst (getUserBalance True e (request_tokenId r))
       = \<lparr> balance_tokenId = request_tokenId r, balance = 0 \<rparr>
     \<and> (\<forall>q. validateInput cfg (request_amount r) Quantity = valid (Num q) \<and> 1 \<le> q \<longrightarrow>
           fst (prepareOrder True cfg e r)
             = Inl (BalanceCheckFailed (InsufficientBalance 0 (Num q)))
           \<and> fst (prepareOrders True cfg e (xs @ r # ys)) = fst (prepareOrders True cfg e (xs @ ys)))
     \<and> (\<exists>reason. fst (prepareOrder True default_config e r) = Inl (BalanceCheckFailed reason))
     \<and> fst (prepareOrders True default_config e (xs @ r # ys))
         = fst (prepareOrders True default_config e (xs @ ys))
     \<and> (length (xs @ r # ys) \<le> maxBatchSize default_config \<longrightarrow>
           fst (validateAndPrepareOrders True default_config e (xs @ r # ys))
             = Inr (fst (prepareOrders True default_config e (xs @ ys))))"
    by blast
qed

theorem failed_balance_read_drops_request_witness:
  "balanceOf demo_env (request_tokenId (sell_request 9 3)) = Inl (new_Error ''call revert exception'')
   \<and> fst (prepareOrder True default_config demo_env (sell_request 9 3))
       = Inl (BalanceCheckFailed (InsufficientBalance 0 (Num 3)))
   \<and> fst (validateAndPrepareOrders True default_config demo_env
            [sell_request 7 3, sell_request 9 3, sell_request 7 3])
       = Inr [ContractOrder 0 (JNumber (Num 7)) 1500000000000000000 3,
              ContractOrder 0 (JNumber (Num 7)) 1500000000000000000 3]"
proof -
  have f: "balanceOf demo_env (request_tokenId (sell_request 9 3)) = Inl (new_Error ''call revert exception'')"
    by (simp add: demo_env_def sell_request_def)
  have v: "validateInput default_config (request_amount (sell_request 9 3)) Quantity = valid (Num 3)"
    by (simp add: sell_request_def quantity_3)
  have l: "length ([sell_request 7 3] @ sell_request 9 3 # [sell_request 7 3])
      \<le> maxBatchSize default_config"
    by (simp add: default_config_def)
  have p: "fst (prepareOrders True default_config demo_env ([sell_request 7 3] @ [sell_request 7 3]))
      = [ContractOrder 0 (JNumber (Num 7)) 1500000000000000000 3,
         ContractOrder 0 (JNumber (Num 7)) 1500000000000000000 3]"
    using prepareOrders_replicate [OF prepareOrder_demo_7_3, of 2]
    by (simp add: numeral_2_eq_2)
  note w = failed_balance_read_drops_request
    [of demo_env "sell_request 9 3" "new_Error ''call revert exception''" default_config
        "[sell_request 7 3]" "[sell_request 7 3]"]
  from w f v have a: "fst (prepareOrder True default_config demo_env (sell_request 9 3))
       = Inl (BalanceCheckFailed (InsufficientBalance 0 (Num 3)))"
    by auto
  from w f l p have b: "fst (validateAndPrepareOrders True default_config demo_env
            [sell_request 7 3, sell_request 9 3, sell_request 7 3])
       = Inr [ContractOrder 0 (JNumber (Num 7)) 1500000000000000000 3,
              ContractOrder 0 (JNumber (Num 7)) 1500000000000000000 3]"
    by simp
  from f a b show ?thesis by blast
qed


lemma tokenId_7: "validateInput default_config (JNumber (Num 7)) TokenId = valid (Num 7)"
  by code_simp

lemma price_3_2: "validateInput default_config (JNumber (Num (3 / 2))) Price = valid (Num (3 / 2))"
  by code_simp

text \<open>
  Claim C8 fails on the code. The request \<open>hold_request\<close> does not pass the validation
  that \<^verbatim>\<open>MarketOrder\<close> declares (its side is neither \<^verbatim>\<open>buy\<close> nor \<^verbatim>\<open>sell\<close>), yet
  the preparation keeps it, as a buy order: the constructor never runs that validation.
\<close>

theorem invalid_side_request_is_kept:
  "MarketOrder_validate default_config
      \<lparr> order_tokenId = request_tokenId hold_request, order_side = request_side hold_request,
        order_price = request_priceInEth hold_request,
        order_quantity = request_amount hold_request, order_user = wallet_address demo_env \<rparr>
     = Some InvalidSide
   \<and> validateAndPrepareOrders True default_config demo_env [hold_request]
     = (Inr [ContractOrder 1 (JNumber (Num 7)) 1500000000000000000 3],
        [BalanceOf (JNumber (Num 7))])"
proof -
  have a: "MarketOrder_validate default_config
      \<lparr> order_tokenId = request_tokenId hold_request, order_side = request_side hold_request,
        order_price = request_priceInEth hold_request,
        order_quantity = request_amount hold_request, order_user = wallet_address demo_env \<rparr>
     = Some InvalidSide"
    by (simp add: MarketOrder_validate_def hold_request_def sell_request_def tokenId_7 price_3_2
          quantity_3 valid_def)
  have "prepareOrder True default_config demo_env hold_request =
    (Inr (ContractOrder
            (if request_side hold_request = JString ''sell''
                \<or> falsy (request_side hold_request) then 0 else 1)
            (request_tokenId hold_request) 1500000000000000000 3),
     [BalanceOf (request_tokenId hold_request)])"
    by (rule prepareOrder_kept [where q = 3 and b = 3])
       (simp_all add: hold_request_def sell_request_def demo_env_def quantity_3
          MAX_UINT72_def MAX_UINT24_def)
  hence b: "prepareOrder True default_config demo_env hold_request =
    (Inr (ContractOrder 1 (JNumber (Num 7)) 1500000000000000000 3), [BalanceOf (JNumber (Num 7))])"
    by (simp add: hold_request_def sell_request_def falsy_def)
  have c: "validateAndPrepareOrders True default_config demo_env [hold_request]
     = (Inr [ContractOrder 1 (JNumber (Num 7)) 1500000000000000000 3],
        [BalanceOf (JNumber (Num 7))])"
  proof -
    have "length [hold_request] \<le> maxBatchSize default_config"
      by (simp add: default_config_def)
    from validateAndPrepareOrders_within [OF this, of True demo_env]
    show ?thesis by (simp add: b)
  qed
  from a c show ?thesis by blast
qed



lemma attempts_of_append [simp]: "attempts_of (xs @ ys) = attempts_of xs @ attempts_of ys"
  by (simp add: attempts_of_def List.map_filter_def)

lemma warnings_of_append [simp]: "warnings_of (xs @ ys) = warnings_of xs @ warnings_of ys"
  by (simp add: warnings_of_def List.map_filter_def)

lemma approvals_of_append [simp]: "approvals_of (xs @ ys) = approvals_of xs + approvals_of ys"
  by (simp add: approvals_of_def)

lemma attempts_of_simps [simp]:
  "attempts_of [] = []"
  "attempts_of (EstimateGas os # tr) = os # attempts_of tr"
  "attempts_of (SwitchEthereumChain # tr) = attempts_of tr"
  "attempts_of (AddEthereumChain # tr) = attempts_of tr"
  "attempts_of (BalanceOf t # tr) = attempts_of tr"
  "attempts_of (ConsoleError_balance t x # tr) = attempts_of tr"
  "attempts_of (ConsoleError_order t err # tr) = attempts_of tr"
  "attempts_of (IsApprovedForAll # tr) = attempts_of tr"
  "attempts_of (SetApprovalForAll # tr) = attempts_of tr"
  "attempts_of (ApprovalWait # tr) = attempts_of tr"
  "attempts_of (LimitOrders os g # tr) = attempts_of tr"
  "attempts_of (TxWait h # tr) = attempts_of tr"
  "attempts_of (ConsoleWarn ph n m # tr) = attempts_of tr"
  "attempts_of (Delay d # tr) = attempts_of tr"
  by (simp_all add: attempts_of_def List.map_filter_simps)

lemma warnings_of_simps [simp]:
  "warnings_of [] = []"
  "warnings_of (ConsoleWarn ph n m # tr) = (ph, n, m) # warnings_of tr"
  "warnings_of (SwitchEthereumChain # tr) = warnings_of tr"
  "warnings_of (AddEthereumChain # tr) = warnings_of tr"
  "warnings_of (BalanceOf t # tr) = warnings_of tr"
  "warnings_of (ConsoleError_balance t x # tr) = warnings_of tr"
  "warnings_of (ConsoleError_order t err # tr) = warnings_of tr"
  "warnings_of (IsApprovedForAll # tr) = warnings_of tr"
  "warnings_of (SetApprovalForAll # tr) = warnings_of tr"
  "warnings_of (ApprovalWait # tr) = warnings_of tr"
  "warnings_of (LimitOrders os g # tr) = warnings_of tr"
  "warnings_of (TxWait h # tr) = warnings_of tr"
  "warnings_of (EstimateGas os # tr) = warnings_of tr"
  "warnings_of (Delay d # tr) = warnings_of tr"
  by (simp_all add: warnings_of_def List.map_filter_simps)

lemma approvals_of_simps [simp]:
  "approvals_of [] = 0"
  "approvals_of (SetApprovalForAll # tr) = Suc (approvals_of tr)"
  "ev \<noteq> SetApprovalForAll \<Longrightarrow> approvals_of (ev # tr) = approvals_of tr"
  by (simp_all add: approvals_of_def)

lemma setup_quiet:
  assumes "createBatchOrders_setup e limits now = (r, tr0, limits')"
  shows "attempts_of tr0 = [] \<and> warnings_of tr0 = [] \<and> approvals_of tr0 = 0"
  using assms
  by (auto simp: createBatchOrders_setup_def switchNetwork_def Let_def
           split: prod.splits rate_decision.splits if_splits option.splits sum.splits)

lemma getUserBalance_quiet:
  "attempts_of (snd (getUserBalance av e t)) = [] \<and> warnings_of (snd (getUserBalance av e t)) = []
   \<and> approvals_of (snd (getUserBalance av e t)) = 0"
  by (auto simp: getUserBalance_def contract_call_def split: sum.splits)

lemma prepareOrder_events:
  "snd (prepareOrder av cfg e r) = snd (getUserBalance av e (request_tokenId r))"
  by (simp add: prepareOrder_def new_MarketOrder_def BaseModel_def BaseModel_transform_def Let_def
        split: prod.splits sell_check.splits sum.splits option.splits)

lemma prepareOrders_quiet:
  "attempts_of (snd (prepareOrders av cfg e rs)) = []
   \<and> warnings_of (snd (prepareOrders av cfg e rs)) = []
   \<and> approvals_of (snd (prepareOrders av cfg e rs)) = 0"
proof (induction rs)
  case Nil
  show ?case by simp
next
  case (Cons r rs)
  obtain out evs where p: "prepareOrder av cfg e r = (out, evs)"
    by (cases "prepareOrder av cfg e r") auto
  from prepareOrder_events [of av cfg e r] getUserBalance_quiet [of av e "request_tokenId r"] p
  have q: "attempts_of evs = []" "warnings_of evs = []" "approvals_of evs = 0" by simp_all
  obtain os evs' where p': "prepareOrders av cfg e rs = (os, evs')"
    by (cases "prepareOrders av cfg e rs") auto
  with Cons.IH have q': "attempts_of evs' = []" "warnings_of evs' = []" "approvals_of evs' = 0"
    by simp_all
  show ?case by (cases out) (simp_all add: p p' q q')
qed

lemma validateAndPrepareOrders_quiet:
  assumes "validateAndPrepareOrders av cfg e reqs = (r, evs)"
  shows "attempts_of evs = [] \<and> warnings_of evs = [] \<and> approvals_of evs = 0"
  using assms prepareOrders_quiet [of av cfg e reqs]
  by (auto simp: validateAndPrepareOrders_def split: if_splits prod.splits)

lemma ensureApprovals_trace:
  assumes "ensureApprovals av e tr = (r, tr2)"
  shows "\<exists>evs. tr2 = tr @ evs \<and> attempts_of evs = [] \<and> warnings_of evs = []
               \<and> approvals_of evs \<le> 1"
  using assms
  by (auto simp: ensureApprovals_def contract_call_def
           split: sum.splits prod.splits bool.splits if_splits)

lemma ensureApprovals_approved:
  "isApprovedForAll e tr = Inr True \<Longrightarrow>
     ensureApprovals True e tr = (Inr (), tr @ [IsApprovedForAll])"
  by (simp add: ensureApprovals_def contract_call_def)

lemma ensureApprovals_confirmed:
  "isApprovedForAll e tr = Inr False \<Longrightarrow> setApprovalForAll e (tr @ [IsApprovedForAll]) = Inr u
     \<Longrightarrow> approval_wait e (tr @ [IsApprovedForAll, SetApprovalForAll]) = Inr u'
     \<Longrightarrow> ensureApprovals True e tr
           = (Inr (), tr @ [IsApprovedForAll, SetApprovalForAll, ApprovalWait])"
  by (simp add: ensureApprovals_def contract_call_def)

lemma ensureApprovals_unconfirmed:
  "isApprovedForAll e tr = Inr False \<Longrightarrow> setApprovalForAll e (tr @ [IsApprovedForAll]) = Inr u
     \<Longrightarrow> approval_wait e (tr @ [IsApprovedForAll, SetApprovalForAll]) = Inl m
     \<Longrightarrow> ensureApprovals True e tr
           = (Inl (approval_error m), tr @ [IsApprovedForAll, SetApprovalForAll, ApprovalWait])"
  by (simp add: ensureApprovals_def contract_call_def)

lemma createBatchOrders_try_prepared:
  assumes "createBatchOrders_setup e limits now = (Inr av, tr0, limits')"
    and "validateAndPrepareOrders av cfg e reqs = (Inr orders, evs)"
    and "orders \<noteq> []"
  shows "createBatchOrders_try cfg e limits now reqs =
     (case ensureApprovals av e (tr0 @ evs) of
        (Inl m, tr2) \<Rightarrow> (Inl m, tr2, limits')
      | (Inr u, tr2) \<Rightarrow>
          (case executeBatchTransaction av cfg e orders tr2 of
             (Inl m, tr3) \<Rightarrow> (Inl m, tr3, limits')
           | (Inr result, tr3) \<Rightarrow> (Inr (result, length orders), tr3, limits')))"
  using assms by (simp add: createBatchOrders_try_def)

lemma approval_error_is_Error: "\<exists>s. approval_error x = new_Error s"
  by (cases x) (auto simp: approval_error_def message_of_def cannot_read_def)

lemma approval_error_message:
  "approval_error (Thrown code (Some s)) = new_Error (''Failed to approve marketplace: '' @ s)"
  by (simp add: approval_error_def interpolate_def)

lemma ensureApprovals_errors:
  assumes "ensureApprovals av e tr = (Inl x, tr2)"
  shows "\<exists>s. x = new_Error s"
proof -
  from assms have "\<exists>y. x = approval_error y"
    by (auto simp: ensureApprovals_def contract_call_def
             split: sum.splits prod.splits bool.splits if_splits)
  with approval_error_is_Error show ?thesis by metis
qed

lemma createBatchOrders_approval_failed:
  assumes "createBatchOrders_setup e limits now = (Inr av, tr0, limits')"
    and "validateAndPrepareOrders av cfg e reqs = (Inr orders, evs)"
    and "orders \<noteq> []"
    and "ensureApprovals av e (tr0 @ evs) = (Inl x, tr2)"
  shows "(\<exists>r s. createBatchOrders cfg e limits now fin reqs = (Inr r, tr2, limits')
            \<and> \<not> success r \<and> error r = Some s \<and> x = new_Error s \<and> txHash r = None)
         \<and> attempts_of tr2 = [] \<and> approvals_of tr2 \<le> 1"
proof -
  from ensureApprovals_errors [OF assms(4)] obtain s where s: "x = new_Error s" by blast
  have t: "createBatchOrders_try cfg e limits now reqs = (Inl (new_Error s), tr2, limits')"
    using assms(4) by (simp add: createBatchOrders_try_prepared [OF assms(1-3)] s)
  have "createBatchOrders cfg e limits now fin reqs = (Inr (failure (Some s) fin), tr2, limits')"
    by (rule createBatchOrders_caught [OF t])
  hence "\<exists>r s. createBatchOrders cfg e limits now fin reqs = (Inr r, tr2, limits')
            \<and> \<not> success r \<and> error r = Some s \<and> x = new_Error s \<and> txHash r = None"
    using s by simp
  moreover from ensureApprovals_trace [OF assms(4)] setup_quiet [OF assms(1)]
    validateAndPrepareOrders_quiet [OF assms(2)]
  have "attempts_of tr2 = [] \<and> approvals_of tr2 \<le> 1" by auto
  ultimately show ?thesis by blast
qed

text \<open>
  Claim C9. When the operator is already approved, \<^verbatim>\<open>#ensureApprovals\<close> only asks
  \<^verbatim>\<open>isApprovedForAll\<close>: it sends no approval transaction, and neither does a second
  call right after it. When the operator is not approved, it sends one
  \<^verbatim>\<open>setApprovalForAll\<close> transaction and waits for it before it returns. When that wait
  fails, whatever it fails with, the method throws an \<^verbatim>\<open>Error\<close> without sending
  another transaction (for a failure with the message \<open>s\<close> the error
  \<^verbatim>\<open>Failed to approve marketplace: s\<close>). An error thrown by \<^verbatim>\<open>#ensureApprovals\<close>
  ends the enclosing \<^verbatim>\<open>createBatchOrders\<close>: it returns a result with
  \<^verbatim>\<open>success: false\<close>, the message of that error and no transaction hash, after at
  most one approval transaction and before any submission attempt.
\<close>

theorem ensureApprovals_idempotent:
  "(isApprovedForAll e tr = Inr True \<longrightarrow>
      ensureApprovals True e tr = (Inr (), tr @ [IsApprovedForAll])
      \<and> approvals_of (snd (ensureApprovals True e tr)) = approvals_of tr)
   \<and> (isApprovedForAll e tr = Inr True \<and> isApprovedForAll e (tr @ [IsApprovedForAll]) = Inr True \<longrightarrow>
        ensureApprovals True e (snd (ensureApprovals True e tr))
          = (Inr (), tr @ [IsApprovedForAll, IsApprovedForAll])
        \<and> approvals_of (snd (ensureApprovals True e (snd (ensureApprovals True e tr))))
            = approvals_of tr)
   \<and> (isApprovedForAll e tr = Inr False \<and> setApprovalForAll e (tr @ [IsApprovedForAll]) = Inr ()
        \<and> approval_wait e (tr @ [IsApprovedForAll, SetApprovalForAll]) = Inr () \<longrightarrow>
        ensureApprovals True e tr
          = (Inr (), tr @ [IsApprovedForAll, SetApprovalForAll, ApprovalWait])
        \<and> approvals_of (snd (ensureApprovals True e tr)) = approvals_of tr + 1)
   \<and> (isApprovedForAll e tr = Inr False \<and> setApprovalForAll e (tr @ [IsApprovedForAll]) = Inr ()
        \<and> approval_wait e (tr @ [IsApprovedForAll, SetApprovalForAll]) = Inl m \<longrightarrow>
        ensureApprovals True e tr
          = (Inl (approval_error m), tr @ [IsApprovedForAll, SetApprovalForAll, ApprovalWait])
        \<and> approvals_of (snd (ensureApprovals True e tr)) = approvals_of tr + 1
        \<and> (\<exists>s. approval_error m = new_Error s)
        \<and> (\<forall>code s. m = Thrown code (Some s) \<longrightarrow>
              approval_error m = new_Error (''Failed to approve marketplace: '' @ s)))
   \<and> (\<forall>tr0 limits' orders evs x tr2.
         createBatchOrders_setup e limits now = (Inr av, tr0, limits')
         \<and> validateAndPrepareOrders av cfg e reqs = (Inr orders, evs) \<and> orders \<noteq> []
         \<and> ensureApprovals av e (tr0 @ evs) = (Inl x, tr2) \<longrightarrow>
         (\<exists>r s. createBatchOrders cfg e limits now fin reqs = (Inr r, tr2, limits')
            \<and> \<not> success r \<and> error r = Some s \<and> x = new_Error s \<and> txHash r = None)
         \<and> attempts_of tr2 = [] \<and> approvals_of tr2 \<le> 1)"
proof -
  have a: "ensureApprovals True e tr = (Inr (), tr @ [IsApprovedForAll])
      \<and> approvals_of (snd (ensureApprovals True e tr)) = approvals_of tr"
    if "isApprovedForAll e tr = Inr True"
    by (simp add: ensureApprovals_approved [OF that])
  have b: "ensureApprovals True e (snd (ensureApprovals True e tr))
          = (Inr (), tr @ [IsApprovedForAll, IsApprovedForAll])
        \<and> approvals_of (snd (ensureApprovals True e (snd (ensureApprovals True e tr))))
            = approvals_of tr"
    if "isApprovedForAll e tr = Inr True" "isApprovedForAll e (tr @ [IsApprovedForAll]) = Inr True"
    by (simp add: ensureApprovals_approved [OF that(1)] ensureApprovals_approved [OF that(2)])
  have c: "ensureApprovals True e tr
          = (Inr (), tr @ [IsApprovedForAll, SetApprovalForAll, ApprovalWait])
        \<and> approvals_of (snd (ensureApprovals True e tr)) = approvals_of tr + 1"
    if "isApprovedForAll e tr = Inr False" "setApprovalForAll e (tr @ [IsApprovedForAll]) = Inr ()"
      "approval_wait e (tr @ [IsApprovedForAll, SetApprovalForAll]) = Inr ()"
    by (simp add: ensureApprovals_confirmed [OF that])
  have d: "ensureApprovals True e tr
          = (Inl (approval_error m), tr @ [IsApprovedForAll, SetApprovalForAll, ApprovalWait])
        \<and> approvals_of (snd (ensureApprovals True e tr)) = approvals_of tr + 1
        \<and> (\<exists>s. approval_error m = new_Error s)
        \<and> (\<forall>code s. m = Thrown code (Some s) \<longrightarrow>
              approval_error m = new_Error (''Failed to approve marketplace: '' @ s))"
    if "isApprovedForAll e tr = Inr False" "setApprovalForAll e (tr @ [IsApprovedForAll]) = Inr ()"
      "approval_wait e (tr @ [IsApprovedForAll, SetApprovalForAll]) = Inl m"
    using approval_error_is_Error [of m]
    by (auto simp: ensureApprovals_unconfirmed [OF that] approval_error_message)
  have f: "(\<exists>r s. createBatchOrders cfg e limits now fin reqs = (Inr r, tr2, limits')
            \<and> \<not> success r \<and> error r = Some s \<and> x = new_Error s \<and> txHash r = None)
         \<and> attempts_of tr2 = [] \<and> approvals_of tr2 \<le> 1"
    if "createBatchOrders_setup e limits now = (Inr av, tr0, limits')"
      "validateAndPrepareOrders av cfg e reqs = (Inr orders, evs)" "orders \<noteq> []"
      "ensureApprovals av e (tr0 @ evs) = (Inl x, tr2)"
    for tr0 limits' orders evs x tr2
    using that by (rule createBatchOrders_approval_failed)
  from a b c d f show ?thesis by blast
qed


lemma setup_demo:
  assumes "wallet_isConnected e" "wallet_address e = Some ''0xabc''"
    "wallet_isOnCorrectNetwork e" "contracts_initialized e"
  shows "createBatchOrders_setup e Map.empty 1000
      = (Inr True, [], [''batch-orders-0xabc'' \<mapsto> [1000]])"
  using assms
  by (simp add: createBatchOrders_setup_def checkRateLimit_def
        rate_limit_key_def requests_of_def recentRequests_def Let_def)

lemma prepare_demo:
  assumes "balanceOf e = balanceOf demo_env" "parseEther e = parseEther demo_env"
    "BigNumber_from e = BigNumber_from demo_env"
  shows "validateAndPrepareOrders True default_config e [sell_request 7 3]
     = (Inr [ContractOrder 0 (JNumber (Num 7)) 1500000000000000000 3],
        [BalanceOf (JNumber (Num 7))])"
proof -
  have "prepareOrder True default_config e (sell_request 7 3) =
    (Inr (ContractOrder
            (if request_side (sell_request 7 3) = JString ''sell''
                \<or> falsy (request_side (sell_request 7 3)) then 0 else 1)
            (request_tokenId (sell_request 7 3)) 1500000000000000000 3),
     [BalanceOf (request_tokenId (sell_request 7 3))])"
    by (rule prepareOrder_kept [where q = 3 and b = 3])
       (simp_all add: assms sell_request_def demo_env_def quantity_3 MAX_UINT72_def MAX_UINT24_def)
  hence b: "prepareOrder True default_config e (sell_request 7 3) =
    (Inr (ContractOrder 0 (JNumber (Num 7)) 1500000000000000000 3), [BalanceOf (JNumber (Num 7))])"
    by (simp add: sell_request_def)
  have "length [sell_request 7 3] \<le> maxBatchSize default_config"
    by (simp add: default_config_def)
  from validateAndPrepareOrders_within [OF this, of True e]
  show ?thesis by (simp add: b)
qed

theorem ensureApprovals_idempotent_witness:
  "ensureApprovals True demo_env [BalanceOf (JNumber (Num 7))]
     = (Inr (), [BalanceOf (JNumber (Num 7)), IsApprovedForAll, SetApprovalForAll, ApprovalWait])
   \<and> ensureApprovals True demo_env [SetApprovalForAll, ApprovalWait]
     = (Inr (), [SetApprovalForAll, ApprovalWait, IsApprovedForAll])
   \<and> ensureApprovals True demo_env (snd (ensureApprovals True demo_env [SetApprovalForAll, ApprovalWait]))
     = (Inr (), [SetApprovalForAll, ApprovalWait, IsApprovedForAll, IsApprovedForAll])
   \<and> approvals_of (snd (ensureApprovals True demo_env
        (snd (ensureApprovals True demo_env [SetApprovalForAll, ApprovalWait])))) = 1
   \<and> ensureApprovals True unconfirmed_env [BalanceOf (JNumber (Num 7))]
     = (Inl (new_Error ''Failed to approve marketplace: transaction failed''),
        [BalanceOf (JNumber (Num 7)), IsApprovedForAll, SetApprovalForAll, ApprovalWait])
   \<and> (\<exists>r. createBatchOrders default_config unconfirmed_env Map.empty 1000 2000 [sell_request 7 3]
          = (Inr r,
             [BalanceOf (JNumber (Num 7)), IsApprovedForAll, SetApprovalForAll, ApprovalWait],
             [''batch-orders-0xabc'' \<mapsto> [1000]])
        \<and> \<not> success r
        \<and> error r = Some ''Failed to approve marketplace: transaction failed''
        \<and> txHash r = None)"
proof -
  let ?b = "[BalanceOf (JNumber (Num 7))]"
  let ?t = "[SetApprovalForAll, ApprovalWait]"
  let ?x = "new_Error ''transaction failed''"
  note w1 = ensureApprovals_idempotent [where e = demo_env and tr = ?b
      and m = ?x and limits = Map.empty and now = 1000 and av = True
      and cfg = default_config and reqs = "[sell_request 7 3]" and fin = 2000]
  note w2 = ensureApprovals_idempotent [where e = demo_env and tr = ?t
      and m = ?x and limits = Map.empty and now = 1000 and av = True
      and cfg = default_config and reqs = "[sell_request 7 3]" and fin = 2000]
  note w3 = ensureApprovals_idempotent [where e = unconfirmed_env and tr = ?b
      and m = ?x and limits = Map.empty and now = 1000 and av = True
      and cfg = default_config and reqs = "[sell_request 7 3]" and fin = 2000]
  have h1: "isApprovedForAll demo_env ?b = Inr False"
    "setApprovalForAll demo_env (?b @ [IsApprovedForAll]) = Inr ()"
    "approval_wait demo_env (?b @ [IsApprovedForAll, SetApprovalForAll]) = Inr ()"
    by (simp_all add: demo_env_def)
  have h2: "isApprovedForAll demo_env ?t = Inr True"
    "isApprovedForAll demo_env (?t @ [IsApprovedForAll]) = Inr True"
    by (simp_all add: demo_env_def)
  have h3: "isApprovedForAll unconfirmed_env ?b = Inr False"
    "setApprovalForAll unconfirmed_env (?b @ [IsApprovedForAll]) = Inr ()"
    "approval_wait unconfirmed_env (?b @ [IsApprovedForAll, SetApprovalForAll]) = Inl ?x"
    by (simp_all add: unconfirmed_env_def demo_env_def)
  have x: "?x = Thrown None (Some ''transaction failed'')" by (simp add: new_Error_def)
  from w1 h1 have a: "ensureApprovals True demo_env ?b
     = (Inr (), ?b @ [IsApprovedForAll, SetApprovalForAll, ApprovalWait])"
    by blast
  from w2 h2 have b: "ensureApprovals True demo_env ?t = (Inr (), ?t @ [IsApprovedForAll])"
    by blast
  from w2 h2 have c: "ensureApprovals True demo_env (snd (ensureApprovals True demo_env ?t))
         = (Inr (), ?t @ [IsApprovedForAll, IsApprovedForAll])
      \<and> approvals_of (snd (ensureApprovals True demo_env (snd (ensureApprovals True demo_env ?t))))
         = approvals_of ?t"
    by blast
  from w3 h3 have d0: "ensureApprovals True unconfirmed_env ?b
     = (Inl (approval_error ?x), ?b @ [IsApprovedForAll, SetApprovalForAll, ApprovalWait])"
    by blast
  from w3 h3 x have d1: "approval_error ?x
      = new_Error (''Failed to approve marketplace: '' @ ''transaction failed'')"
    by blast
  from d0 d1 have d: "ensureApprovals True unconfirmed_env ?b
     = (Inl (new_Error ''Failed to approve marketplace: transaction failed''),
        ?b @ [IsApprovedForAll, SetApprovalForAll, ApprovalWait])"
    by simp
  have st: "createBatchOrders_setup unconfirmed_env Map.empty 1000
      = (Inr True, [], [''batch-orders-0xabc'' \<mapsto> [1000]])"
    by (rule setup_demo) (simp_all add: unconfirmed_env_def demo_env_def)
  have pr: "validateAndPrepareOrders True default_config unconfirmed_env [sell_request 7 3]
     = (Inr [ContractOrder 0 (JNumber (Num 7)) 1500000000000000000 3], ?b)"
    by (rule prepare_demo) (simp_all add: unconfirmed_env_def)
  have d': "ensureApprovals True unconfirmed_env ([] @ ?b)
     = (Inl (new_Error ''Failed to approve marketplace: transaction failed''),
        ?b @ [IsApprovedForAll, SetApprovalForAll, ApprovalWait])"
    using d by simp
  have ne: "[ContractOrder 0 (JNumber (Num 7)) 1500000000000000000 3] \<noteq> []" by simp
  from w3 st pr ne d'
  have "\<exists>r s. createBatchOrders default_config unconfirmed_env Map.empty 1000 2000 [sell_request 7 3]
          = (Inr r, ?b @ [IsApprovedForAll, SetApprovalForAll, ApprovalWait],
             [''batch-orders-0xabc'' \<mapsto> [1000]])
        \<and> \<not> success r \<and> error r = Some s
        \<and> new_Error ''Failed to approve marketplace: transaction failed'' = new_Error s
        \<and> txHash r = None"
    by blast
  hence f: "\<exists>r. createBatchOrders default_config unconfirmed_env Map.empty 1000 2000 [sell_request 7 3]
          = (Inr r, ?b @ [IsApprovedForAll, SetApprovalForAll, ApprovalWait],
             [''batch-orders-0xabc'' \<mapsto> [1000]])
        \<and> \<not> success r
        \<and> error r = Some ''Failed to approve marketplace: transaction failed''
        \<and> txHash r = None"
    by auto
  from a b c d f show ?thesis by simp
qed



lemma attempt_trace:
  assumes "attempt True cfg e os tr = (r, tr')"
  shows "attempts_of tr' = attempts_of tr @ [os] \<and> warnings_of tr' = warnings_of tr
         \<and> approvals_of tr' = approvals_of tr"
  using assms
  by (auto simp: attempt_def contract_call_def Let_def split: sum.splits prod.splits)

lemma tryOrders_done:
  "\<not> n < maxRetries cfg \<Longrightarrow> tryOrders ph av cfg e os n lastError tr = (RanOut lastError, tr)"
  by (simp add: tryOrders.simps)

lemma tryOrders_success:
  "n < maxRetries cfg \<Longrightarrow> attempt av cfg e os tr = (Inr result, tr')
     \<Longrightarrow> tryOrders ph av cfg e os n lastError tr = (Returned result, tr')"
  by (simp add: tryOrders.simps)

lemma tryOrders_retry:
  "n < maxRetries cfg \<Longrightarrow> attempt av cfg e os tr = (Inl (Thrown code m), tr')
     \<Longrightarrow> tryOrders ph av cfg e os n lastError tr =
         tryOrders ph av cfg e os (n + 1) (Some (Thrown code m))
           (tr' @ [ConsoleWarn ph (n + 1) m]
                @ (if n + 1 < maxRetries cfg then [Delay (retryDelay cfg)] else []))"
  by (subst tryOrders.simps) simp

lemma tryOrders_raised:
  "n < maxRetries cfg \<Longrightarrow> attempt av cfg e os tr = (Inl x, tr') \<Longrightarrow> message_of x = Inl t
     \<Longrightarrow> tryOrders ph av cfg e os n lastError tr = (Raised t, tr')"
  by (subst tryOrders.simps) simp

lemma tryOrders_all_fail:
  assumes fails: "\<And>tr. \<exists>code m. fst (attempt True cfg e os tr) = Inl (Thrown code m)"
  shows "k = maxRetries cfg - n \<Longrightarrow>
    \<exists>msgs tr' l. tryOrders ph True cfg e os n lastError tr = (RanOut l, tr')
       \<and> length msgs = k
       \<and> attempts_of tr' = attempts_of tr @ replicate k os
       \<and> warnings_of tr' = warnings_of tr
            @ map (\<lambda>(i, m). (ph, i, m)) (zip [Suc n ..< Suc (maxRetries cfg)] msgs)
       \<and> (\<forall>m \<in> set msgs. \<exists>trA trA' code.
              attempt True cfg e os trA = (Inl (Thrown code m), trA'))
       \<and> (k = 0 \<longrightarrow> l = lastError \<and> tr' = tr)
       \<and> (0 < k \<longrightarrow>
            (\<exists>trL trL' code.
                attempt True cfg e os trL = (Inl (Thrown code (last msgs)), trL')
                \<and> tr' = trL' @ [ConsoleWarn ph (maxRetries cfg) (last msgs)]
                \<and> l = Some (Thrown code (last msgs))))"
proof (induction k arbitrary: n lastError tr)
  case 0
  hence "\<not> n < maxRetries cfg" by simp
  from tryOrders_done [OF this] show ?case by simp
next
  case (Suc k)
  hence lt: "n < maxRetries cfg" and k: "k = maxRetries cfg - (n + 1)" by simp_all
  from fails [of tr] obtain code m tr1 where
    a: "attempt True cfg e os tr = (Inl (Thrown code m), tr1)"
    by (cases "attempt True cfg e os tr") auto
  let ?tr2 = "tr1 @ [ConsoleWarn ph (n + 1) m]
                @ (if n + 1 < maxRetries cfg then [Delay (retryDelay cfg)] else [])"
  from Suc.IH [OF k, of "Some (Thrown code m)" ?tr2] obtain msgs tr' l where
    ih: "tryOrders ph True cfg e os (n + 1) (Some (Thrown code m)) ?tr2 = (RanOut l, tr')"
      "length msgs = k"
      "attempts_of tr' = attempts_of ?tr2 @ replicate k os"
      "warnings_of tr' = warnings_of ?tr2
         @ map (\<lambda>(i, m). (ph, i, m)) (zip [Suc (n + 1) ..< Suc (maxRetries cfg)] msgs)"
      "\<forall>m \<in> set msgs. \<exists>trA trA' code. attempt True cfg e os trA = (Inl (Thrown code m), trA')"
      "k = 0 \<longrightarrow> l = Some (Thrown code m) \<and> tr' = ?tr2"
      "0 < k \<longrightarrow>
            (\<exists>trL trL' code.
                attempt True cfg e os trL = (Inl (Thrown code (last msgs)), trL')
                \<and> tr' = trL' @ [ConsoleWarn ph (maxRetries cfg) (last msgs)]
                \<and> l = Some (Thrown code (last msgs)))"
    by blast
  from attempt_trace [OF a] have t1: "attempts_of tr1 = attempts_of tr @ [os]"
    "warnings_of tr1 = warnings_of tr" by simp_all
  have up: "[Suc n ..< Suc (maxRetries cfg)] = Suc n # [Suc (n + 1) ..< Suc (maxRetries cfg)]"
    using lt by (simp add: upt_conv_Cons)
  have r: "tryOrders ph True cfg e os n lastError tr = (RanOut l, tr')"
    using tryOrders_retry [OF lt a] ih(1) by simp
  have len: "length (m # msgs) = Suc k" using ih(2) by simp
  have att: "attempts_of tr' = attempts_of tr @ replicate (Suc k) os"
    using ih(3) t1 by (simp add: replicate_append_same)
  have warn: "warnings_of tr' = warnings_of tr
      @ map (\<lambda>(i, m). (ph, i, m)) (zip [Suc n ..< Suc (maxRetries cfg)] (m # msgs))"
    using ih(4) t1 unfolding up by simp
  have each: "\<forall>m' \<in> set (m # msgs). \<exists>trA trA' code.
      attempt True cfg e os trA = (Inl (Thrown code m'), trA')"
    using ih(5) a by auto
  have final: "\<exists>trL trL' code.
      attempt True cfg e os trL = (Inl (Thrown code (last (m # msgs))), trL')
      \<and> tr' = trL' @ [ConsoleWarn ph (maxRetries cfg) (last (m # msgs))]
      \<and> l = Some (Thrown code (last (m # msgs)))"
  proof (cases "k = 0")
    case True
    with ih(2) have e: "msgs = []" by simp
    from True k lt have n1: "n + 1 = maxRetries cfg" by simp
    from True ih(6) have "l = Some (Thrown code m)" "tr' = ?tr2" by simp_all
    with a n1 e show ?thesis by auto
  next
    case False
    with ih(2) have "msgs \<noteq> []" by auto
    with False ih(7) show ?thesis by simp
  qed
  from r len att warn each final show ?case
    by (intro exI [of _ "m # msgs"] exI [of _ tr'] exI [of _ l]) simp
qed

lemma executeBatchTransaction_all_fail:
  assumes sell: "\<And>tr. \<exists>code m. fst (attempt True cfg e orders tr) = Inl (Thrown code m)"
    and buy: "\<And>tr. \<exists>code m. fst (attempt True cfg e (buyOrders_of orders) tr) = Inl (Thrown code m)"
    and n: "1 \<le> maxRetries cfg"
  shows "\<exists>msgs1 msgs2 tr' trL trL' code.
      length msgs1 = maxRetries cfg \<and> length msgs2 = maxRetries cfg
      \<and> executeBatchTransaction True cfg e orders tr
          = (Inl (new_Error (all_attempts_failed (Some (Thrown code (last msgs2))))), tr')
      \<and> attempts_of tr' = attempts_of tr @ replicate (maxRetries cfg) orders
            @ replicate (maxRetries cfg) (buyOrders_of orders)
      \<and> warnings_of tr' = warnings_of tr
            @ map (\<lambda>(i, m). (SellPhase, i, m)) (zip [1 ..< Suc (maxRetries cfg)] msgs1)
            @ map (\<lambda>(i, m). (BuyPhase, i, m)) (zip [1 ..< Suc (maxRetries cfg)] msgs2)
      \<and> (\<forall>m \<in> set msgs1. \<exists>trA trA' c.
             attempt True cfg e orders trA = (Inl (Thrown c m), trA'))
      \<and> (\<forall>m \<in> set msgs2. \<exists>trA trA' c.
             attempt True cfg e (buyOrders_of orders) trA = (Inl (Thrown c m), trA'))
      \<and> attempt True cfg e (buyOrders_of orders) trL = (Inl (Thrown code (last msgs2)), trL')
      \<and> tr' = trL' @ [ConsoleWarn BuyPhase (maxRetries cfg) (last msgs2)]"
proof -
  from tryOrders_all_fail [of cfg e orders "maxRetries cfg" 0 SellPhase None tr, OF sell]
  obtain msgs1 tr1 l1 where
    s: "tryOrders SellPhase True cfg e orders 0 None tr = (RanOut l1, tr1)"
      "length msgs1 = maxRetries cfg"
      "attempts_of tr1 = attempts_of tr @ replicate (maxRetries cfg) orders"
      "warnings_of tr1 = warnings_of tr
         @ map (\<lambda>(i, m). (SellPhase, i, m)) (zip [Suc 0 ..< Suc (maxRetries cfg)] msgs1)"
      "\<forall>m \<in> set msgs1. \<exists>trA trA' c. attempt True cfg e orders trA = (Inl (Thrown c m), trA')"
    by auto
  from n have pos: "0 < maxRetries cfg - 0" by simp
  from tryOrders_all_fail [of cfg e "buyOrders_of orders" "maxRetries cfg" 0 BuyPhase l1 tr1, OF buy]
    pos
  obtain msgs2 tr2 l2 trL trL' code where
    b: "tryOrders BuyPhase True cfg e (buyOrders_of orders) 0 l1 tr1 = (RanOut l2, tr2)"
      "length msgs2 = maxRetries cfg"
      "attempts_of tr2 = attempts_of tr1 @ replicate (maxRetries cfg) (buyOrders_of orders)"
      "warnings_of tr2 = warnings_of tr1
         @ map (\<lambda>(i, m). (BuyPhase, i, m)) (zip [Suc 0 ..< Suc (maxRetries cfg)] msgs2)"
      "\<forall>m \<in> set msgs2. \<exists>trA trA' c.
          attempt True cfg e (buyOrders_of orders) trA = (Inl (Thrown c m), trA')"
      "attempt True cfg e (buyOrders_of orders) trL = (Inl (Thrown code (last msgs2)), trL')"
      "tr2 = trL' @ [ConsoleWarn BuyPhase (maxRetries cfg) (last msgs2)]"
      "l2 = Some (Thrown code (last msgs2))"
    by auto
  have x: "executeBatchTransaction True cfg e orders tr
          = (Inl (new_Error (all_attempts_failed (Some (Thrown code (last msgs2))))), tr2)"
    using s(1) b(1) b(8) by (simp add: executeBatchTransaction_def Let_def)
  from s(2) b(2) x s(3) b(3) s(4) b(4) s(5) b(5) b(6) b(7) show ?thesis
    by (intro exI [of _ msgs1] exI [of _ msgs2] exI [of _ tr2] exI [of _ trL] exI [of _ trL']
          exI [of _ code]) simp
qed

lemma all_attempts_failed_message:
  "all_attempts_failed (Some (Thrown code m))
     = ''All transaction attempts failed: ''
         @ (case m of Some s \<Rightarrow> if s = [] then ''Unknown error'' else s
                    | None \<Rightarrow> ''Unknown error'')"
  by (simp add: all_attempts_failed_def split: option.splits)

text \<open>
  Claim C1, amended. Let \<open>maxRetries \<ge> 1\<close> and let the call reach the submitter with a
  non-empty validated batch. If every attempt on the batch and on its buy-side copy (the
  batch with the side of every order set to 1) fails with a value other than
  \<^verbatim>\<open>undefined\<close> and \<^verbatim>\<open>null\<close>, then gas is estimated exactly \<open>maxRetries\<close> times
  for the batch and after that exactly \<open>maxRetries\<close> times for the buy-side copy; the
  warnings are those of the sell loop numbered \<open>1 \<dots> maxRetries\<close> followed by those of
  the buy loop numbered \<open>1 \<dots> maxRetries\<close>, each with the message of a failed attempt;
  the last events of the call are those of the last attempt on the buy-side copy and its
  warning; and \<^verbatim>\<open>createBatchOrders\<close> returns a result with \<^verbatim>\<open>success: false\<close>, no
  hash, and the error \<^verbatim>\<open>All transaction attempts failed: \<close> followed by the message
  that this last attempt failed with (\<^verbatim>\<open>Unknown error\<close> when it has no message or an
  empty one).
\<close>

theorem exhausted_retries_fail:
  assumes "1 \<le> maxRetries cfg"
    and "\<And>tr. \<exists>code m. fst (attempt True cfg e orders tr) = Inl (Thrown code m)"
    and "\<And>tr. \<exists>code m.
           fst (attempt True cfg e
                  (map (\<lambda>order. ContractOrder 1 (co_tokenId order) (co_price order)
                                  (co_quantity order)) orders) tr)
             = Inl (Thrown code m)"
    and "createBatchOrders_setup e limits now = (Inr True, tr0, limits')"
    and "validateAndPrepareOrders True cfg e reqs = (Inr orders, evs)"
    and "orders \<noteq> []"
    and "ensureApprovals True e (tr0 @ evs) = (Inr (), tr2)"
  shows "\<exists>msgs1 msgs2 tr3 r trL trL' code.
      length msgs1 = maxRetries cfg \<and> length msgs2 = maxRetries cfg
      \<and> createBatchOrders cfg e limits now fin reqs = (Inr r, tr3, limits')
      \<and> \<not> success r \<and> txHash r = None
      \<and> error r = Some (''All transaction attempts failed: ''
                         @ (case last msgs2 of
                              Some s \<Rightarrow> if s = [] then ''Unknown error'' else s
                            | None \<Rightarrow> ''Unknown error''))
      \<and> attempts_of tr3 = replicate (maxRetries cfg) orders
            @ replicate (maxRetries cfg)
                (map (\<lambda>order. ContractOrder 1 (co_tokenId order) (co_price order)
                                (co_quantity order)) orders)
      \<and> warnings_of tr3
          = map (\<lambda>(i, m). (SellPhase, i, m)) (zip [1 ..< Suc (maxRetries cfg)] msgs1)
            @ map (\<lambda>(i, m). (BuyPhase, i, m)) (zip [1 ..< Suc (maxRetries cfg)] msgs2)
      \<and> (\<forall>m \<in> set msgs1. \<exists>trA trA' c.
             attempt True cfg e orders trA = (Inl (Thrown c m), trA'))
      \<and> (\<forall>m \<in> set msgs2. \<exists>trA trA' c.
             attempt True cfg e
               (map (\<lambda>order. ContractOrder 1 (co_tokenId order) (co_price order)
                               (co_quantity order)) orders) trA
               = (Inl (Thrown c m), trA'))
      \<and> attempt True cfg e
          (map (\<lambda>order. ContractOrder 1 (co_tokenId order) (co_price order)
                          (co_quantity order)) orders) trL
          = (Inl (Thrown code (last msgs2)), trL')
      \<and> tr3 = trL' @ [ConsoleWarn BuyPhase (maxRetries cfg) (last msgs2)]"
proof -
  let ?buys = "map (\<lambda>order. ContractOrder 1 (co_tokenId order) (co_price order)
                              (co_quantity order)) orders"
  have bo: "buyOrders_of orders = ?buys" by (simp add: buyOrders_of_def)
  have buy: "\<And>tr. \<exists>code m. fst (attempt True cfg e (buyOrders_of orders) tr) = Inl (Thrown code m)"
    unfolding bo by (rule assms(3))
  from executeBatchTransaction_all_fail [OF assms(2) buy assms(1), of tr2]
  obtain msgs1 msgs2 tr3 trL trL' code where
    x: "length msgs1 = maxRetries cfg" "length msgs2 = maxRetries cfg"
      "executeBatchTransaction True cfg e orders tr2
          = (Inl (new_Error (all_attempts_failed (Some (Thrown code (last msgs2))))), tr3)"
      "attempts_of tr3 = attempts_of tr2 @ replicate (maxRetries cfg) orders
            @ replicate (maxRetries cfg) ?buys"
      "warnings_of tr3 = warnings_of tr2
            @ map (\<lambda>(i, m). (SellPhase, i, m)) (zip [1 ..< Suc (maxRetries cfg)] msgs1)
            @ map (\<lambda>(i, m). (BuyPhase, i, m)) (zip [1 ..< Suc (maxRetries cfg)] msgs2)"
      "\<forall>m \<in> set msgs1. \<exists>trA trA' c. attempt True cfg e orders trA = (Inl (Thrown c m), trA')"
      "\<forall>m \<in> set msgs2. \<exists>trA trA' c. attempt True cfg e ?buys trA = (Inl (Thrown c m), trA')"
      "attempt True cfg e ?buys trL = (Inl (Thrown code (last msgs2)), trL')"
      "tr3 = trL' @ [ConsoleWarn BuyPhase (maxRetries cfg) (last msgs2)]"
    unfolding bo by blast
  from ensureApprovals_trace [OF assms(7)] setup_quiet [OF assms(4)]
    validateAndPrepareOrders_quiet [OF assms(5)]
  have q: "attempts_of tr2 = []" "warnings_of tr2 = []" by auto
  let ?msg = "all_attempts_failed (Some (Thrown code (last msgs2)))"
  have t: "createBatchOrders_try cfg e limits now reqs = (Inl (new_Error ?msg), tr3, limits')"
    by (simp add: createBatchOrders_try_prepared [OF assms(4-6)] assms(7) x(3))
  have c: "createBatchOrders cfg e limits now fin reqs = (Inr (failure (Some ?msg) fin), tr3, limits')"
    by (rule createBatchOrders_caught [OF t])
  have f: "\<not> success (failure (Some ?msg) fin)" "txHash (failure (Some ?msg) fin) = None"
    "error (failure (Some ?msg) fin)
       = Some (''All transaction attempts failed: ''
               @ (case last msgs2 of
                    Some s \<Rightarrow> if s = [] then ''Unknown error'' else s
                  | None \<Rightarrow> ''Unknown error''))"
    by (simp_all add: all_attempts_failed_message)
  from x(1,2) c f x(4,5) q x(6-9) show ?thesis
    by (intro exI [of _ msgs1] exI [of _ msgs2] exI [of _ tr3]
          exI [of _ "failure (Some ?msg) fin"] exI [of _ trL] exI [of _ trL'] exI [of _ code])
       simp
qed


lemma default_transaction_settings:
  "maxRetries default_config = 3" "gasBufferPercent default_config = 20"
  "retryDelay default_config = 2000" "maxBatchSize default_config = 50"
  by (simp_all add: default_config_def)

lemma approve_demo:
  assumes "isApprovedForAll e = isApprovedForAll demo_env"
    "setApprovalForAll e = setApprovalForAll demo_env"
    "approval_wait e = approval_wait demo_env"
  shows "ensureApprovals True e ([] @ [BalanceOf (JNumber (Num 7))])
     = (Inr (), [BalanceOf (JNumber (Num 7)), IsApprovedForAll, SetApprovalForAll, ApprovalWait])"
  using ensureApprovals_confirmed [of e "[BalanceOf (JNumber (Num 7))]" "()" "()"]
  by (simp add: assms demo_env_def)

lemma attempt_rejecting:
  "attempt True default_config rejecting_env os tr
     = (Inl (new_Error ''execution reverted''), tr @ [EstimateGas os])"
  by (simp add: attempt_def contract_call_def rejecting_env_def)

lemma all_same_replicate:
  "\<forall>y \<in> set xs. y = x \<Longrightarrow> xs = replicate (length xs) x"
  by (induction xs) auto

theorem exhausted_retries_fail_witness:
  "\<exists>r tr3.
      createBatchOrders default_config rejecting_env Map.empty 1000 2000 [sell_request 7 3]
        = (Inr r, tr3, [''batch-orders-0xabc'' \<mapsto> [1000]])
      \<and> \<not> success r \<and> txHash r = None
      \<and> error r = Some ''All transaction attempts failed: execution reverted''
      \<and> attempts_of tr3
          = [[ContractOrder 0 (JNumber (Num 7)) 1500000000000000000 3],
             [ContractOrder 0 (JNumber (Num 7)) 1500000000000000000 3],
             [ContractOrder 0 (JNumber (Num 7)) 1500000000000000000 3],
             [ContractOrder 1 (JNumber (Num 7)) 1500000000000000000 3],
             [ContractOrder 1 (JNumber (Num 7)) 1500000000000000000 3],
             [ContractOrder 1 (JNumber (Num 7)) 1500000000000000000 3]]
      \<and> warnings_of tr3
          = [(SellPhase, 1, Some ''execution reverted''), (SellPhase, 2, Some ''execution reverted''),
             (SellPhase, 3, Some ''execution reverted''), (BuyPhase, 1, Some ''execution reverted''),
             (BuyPhase, 2, Some ''execution reverted''), (BuyPhase, 3, Some ''execution reverted'')]"
proof -
  let ?os = "[ContractOrder 0 (JNumber (Num 7)) 1500000000000000000 3]"
  let ?bs = "[ContractOrder 1 (JNumber (Num 7)) 1500000000000000000 3]"
  let ?m = "Some ''execution reverted''"
  have bs: "map (\<lambda>order. ContractOrder 1 (co_tokenId order) (co_price order) (co_quantity order)) ?os
      = ?bs" by simp
  have h1: "1 \<le> maxRetries default_config" by (simp add: default_transaction_settings)
  have h2: "\<exists>code m. fst (attempt True default_config rejecting_env ?os tr) = Inl (Thrown code m)"
    for tr by (simp add: attempt_rejecting new_Error_def)
  have h3: "\<exists>code m. fst (attempt True default_config rejecting_env
      (map (\<lambda>order. ContractOrder 1 (co_tokenId order) (co_price order) (co_quantity order)) ?os) tr)
      = Inl (Thrown code m)"
    for tr by (simp add: attempt_rejecting new_Error_def)
  have h4: "createBatchOrders_setup rejecting_env Map.empty 1000
      = (Inr True, [], [''batch-orders-0xabc'' \<mapsto> [1000]])"
    by (rule setup_demo) (simp_all add: rejecting_env_def demo_env_def)
  have h5: "validateAndPrepareOrders True default_config rejecting_env [sell_request 7 3]
     = (Inr ?os, [BalanceOf (JNumber (Num 7))])"
    by (rule prepare_demo) (simp_all add: rejecting_env_def)
  have h6: "?os \<noteq> []" by simp
  have h7: "ensureApprovals True rejecting_env ([] @ [BalanceOf (JNumber (Num 7))])
     = (Inr (), [BalanceOf (JNumber (Num 7)), IsApprovedForAll, SetApprovalForAll, ApprovalWait])"
    by (rule approve_demo) (simp_all add: rejecting_env_def)
  from exhausted_retries_fail [OF h1 h2 h3 h4 h5 h6 h7, of 2000]
  obtain msgs1 msgs2 tr3 r trL trL' code where
    x: "length msgs1 = maxRetries default_config" "length msgs2 = maxRetries default_config"
      "createBatchOrders default_config rejecting_env Map.empty 1000 2000 [sell_request 7 3]
         = (Inr r, tr3, [''batch-orders-0xabc'' \<mapsto> [1000]])"
      "\<not> success r" "txHash r = None"
      "error r = Some (''All transaction attempts failed: ''
                         @ (case last msgs2 of
                              Some s \<Rightarrow> if s = [] then ''Unknown error'' else s
                            | None \<Rightarrow> ''Unknown error''))"
      "attempts_of tr3 = replicate (maxRetries default_config) ?os
            @ replicate (maxRetries default_config) ?bs"
      "warnings_of tr3
          = map (\<lambda>(i, m). (SellPhase, i, m)) (zip [1 ..< Suc (maxRetries default_config)] msgs1)
            @ map (\<lambda>(i, m). (BuyPhase, i, m)) (zip [1 ..< Suc (maxRetries default_config)] msgs2)"
      "\<forall>m \<in> set msgs1. \<exists>trA trA' c.
          attempt True default_config rejecting_env ?os trA = (Inl (Thrown c m), trA')"
      "\<forall>m \<in> set msgs2. \<exists>trA trA' c.
          attempt True default_config rejecting_env ?bs trA = (Inl (Thrown c m), trA')"
    unfolding bs by blast
  from x(9) have "\<forall>m \<in> set msgs1. m = ?m" by (auto simp: attempt_rejecting new_Error_def)
  from all_same_replicate [OF this] x(1)
  have m1: "msgs1 = [?m, ?m, ?m]"
    by (simp add: default_transaction_settings numeral_3_eq_3)
  from x(10) have "\<forall>m \<in> set msgs2. m = ?m" by (auto simp: attempt_rejecting new_Error_def)
  from all_same_replicate [OF this] x(2)
  have m2: "msgs2 = [?m, ?m, ?m]"
    by (simp add: default_transaction_settings numeral_3_eq_3)
  have up: "[Suc 0 ..< 4] = [Suc 0, 2, 3 :: nat]" by (simp add: upt_rec)
  have e: "error r = Some ''All transaction attempts failed: execution reverted''"
    using x(6) by (simp add: m2)
  have a: "attempts_of tr3 = [?os, ?os, ?os, ?bs, ?bs, ?bs]"
    using x(7) by (simp add: default_transaction_settings numeral_3_eq_3)
  have w: "warnings_of tr3
          = [(SellPhase, 1, ?m), (SellPhase, 2, ?m), (SellPhase, 3, ?m),
             (BuyPhase, 1, ?m), (BuyPhase, 2, ?m), (BuyPhase, 3, ?m)]"
    using x(8) by (simp add: default_transaction_settings up m1 m2)
  from x(3,4,5) e a w show ?thesis by blast
qed

text \<open>
  Claim C1 as stated fails when an attempt fails with \<^verbatim>\<open>undefined\<close>. With the default
  configuration (\<open>maxRetries = 3\<close>) and an order book that rejects every gas estimation
  with \<^verbatim>\<open>undefined\<close>, the first attempt is the only one: the \<^verbatim>\<open>catch\<close> clause of
  the sell loop throws while it reads \<^verbatim>\<open>error.message\<close>, no buy-side attempt follows,
  and the failed result carries the message of that \<^verbatim>\<open>TypeError\<close>.
\<close>

theorem exhausted_retries_counterexample:
  "createBatchOrders default_config bare_rejecting_env Map.empty 1000 2000 [sell_request 7 3]
     = (Inr \<lparr> success = False, txHash = None, blockNumber = None, gasUsed = None,
              ordersCreated = None,
              error = Some (''Cannot read properties of undefined (reading ''
                            @ [CHR 0x27] @ ''message'' @ [CHR 0x27] @ '')''),
              note_field = None, timestamp = 2000 \<rparr>,
        [BalanceOf (JNumber (Num 7)), IsApprovedForAll, SetApprovalForAll, ApprovalWait,
         EstimateGas [ContractOrder 0 (JNumber (Num 7)) 1500000000000000000 3]],
        [''batch-orders-0xabc'' \<mapsto> [1000]])
   \<and> attempt True default_config bare_rejecting_env
        [ContractOrder 0 (JNumber (Num 7)) 1500000000000000000 3]
        [BalanceOf (JNumber (Num 7)), IsApprovedForAll, SetApprovalForAll, ApprovalWait]
       = (Inl ThrownUndefined,
          [BalanceOf (JNumber (Num 7)), IsApprovedForAll, SetApprovalForAll, ApprovalWait,
           EstimateGas [ContractOrder 0 (JNumber (Num 7)) 1500000000000000000 3]])
   \<and> length (attempts_of (fst (snd (createBatchOrders default_config bare_rejecting_env Map.empty
                                       1000 2000 [sell_request 7 3])))) = 1
   \<and> maxRetries default_config = 3"
proof -
  let ?tr2 = "[BalanceOf (JNumber (Num 7)), IsApprovedForAll, SetApprovalForAll, ApprovalWait]"
  let ?os = "[ContractOrder 0 (JNumber (Num 7)) 1500000000000000000 3]"
  have a: "attempt True default_config bare_rejecting_env ?os ?tr2
      = (Inl ThrownUndefined, ?tr2 @ [EstimateGas ?os])"
    by (simp add: attempt_def contract_call_def bare_rejecting_env_def)
  have s: "tryOrders SellPhase True default_config bare_rejecting_env ?os 0 None ?tr2
      = (Raised (cannot_read ''undefined'' ''message''), ?tr2 @ [EstimateGas ?os])"
    by (rule tryOrders_raised [OF _ a]) (simp_all add: default_transaction_settings)
  have x: "executeBatchTransaction True default_config bare_rejecting_env ?os ?tr2
      = (Inl (cannot_read ''undefined'' ''message''), ?tr2 @ [EstimateGas ?os])"
    by (simp add: executeBatchTransaction_def s)
  have st: "createBatchOrders_setup bare_rejecting_env Map.empty 1000
      = (Inr True, [], [''batch-orders-0xabc'' \<mapsto> [1000]])"
    by (rule setup_demo) (simp_all add: bare_rejecting_env_def demo_env_def)
  have pr: "validateAndPrepareOrders True default_config bare_rejecting_env [sell_request 7 3]
     = (Inr ?os, [BalanceOf (JNumber (Num 7))])"
    by (rule prepare_demo) (simp_all add: bare_rejecting_env_def)
  have ap: "ensureApprovals True bare_rejecting_env [BalanceOf (JNumber (Num 7))] = (Inr (), ?tr2)"
    using approve_demo [of bare_rejecting_env] by (simp add: bare_rejecting_env_def)
  have c: "createBatchOrders default_config bare_rejecting_env Map.empty 1000 2000 [sell_request 7 3]
     = (Inr \<lparr> success = False, txHash = None, blockNumber = None, gasUsed = None,
              ordersCreated = None,
              error = Some (''Cannot read properties of undefined (reading ''
                            @ [CHR 0x27] @ ''message'' @ [CHR 0x27] @ '')''),
              note_field = None, timestamp = 2000 \<rparr>,
        ?tr2 @ [EstimateGas ?os], [''batch-orders-0xabc'' \<mapsto> [1000]])"
    by (simp add: createBatchOrders_def createBatchOrders_try_prepared [OF st pr] ap x
          failure_def new_TransactionResult_def BaseModel_def BaseModel_transform_def)
  have l: "length (attempts_of (fst (snd (createBatchOrders default_config bare_rejecting_env
      Map.empty 1000 2000 [sell_request 7 3])))) = 1"
    unfolding c by simp
  from c a l show ?thesis by (simp add: default_transaction_settings)
qed


lemma tryOrders_rejected:
  assumes rej: "\<And>tr. attempt True cfg e os tr = (Inl (Thrown code m), tr @ [EstimateGas os])"
  shows "k = maxRetries cfg - n \<Longrightarrow>
    tryOrders ph True cfg e os n lastError tr
      = (RanOut (if n < maxRetries cfg then Some (Thrown code m) else lastError),
         tr @ concat (map (\<lambda>i. [EstimateGas os, ConsoleWarn ph (i + 1) m]
                                  @ (if i + 1 < maxRetries cfg then [Delay (retryDelay cfg)] else []))
                          [n ..< maxRetries cfg]))"
proof (induction k arbitrary: n lastError tr)
  case 0
  hence "\<not> n < maxRetries cfg" by simp
  from tryOrders_done [OF this] this show ?case by simp
next
  case (Suc k)
  hence lt: "n < maxRetries cfg" and k: "k = maxRetries cfg - (n + 1)" by simp_all
  have up: "[n ..< maxRetries cfg] = n # [n + 1 ..< maxRetries cfg]"
    using lt by (simp add: upt_conv_Cons)
  show ?case
    unfolding tryOrders_retry [OF lt rej] Suc.IH [OF k] up using lt by simp
qed

lemma executeBatchTransaction_fallback:
  assumes "tryOrders SellPhase True cfg e os 0 None tr = (RanOut l, tr1)"
    and "tryOrders BuyPhase True cfg e (buyOrders_of os) 0 l tr1 = (Returned res, tr2)"
  shows "executeBatchTransaction True cfg e os tr
           = (Inr (res \<lparr> result_note := Some buy_note \<rparr>), tr2)"
  by (simp add: executeBatchTransaction_def assms)

lemma show_90000: "show_nat 90000 = ''90000''"
  by (simp add: show_nat.simps digit_char_def)

text \<open>
  Claim C4 fails on the code. With an order book that rejects the sell-side batch and
  accepts its buy-side copy, \<^verbatim>\<open>#executeBatchTransaction\<close> returns the note
  \<^verbatim>\<open>Created BUY orders instead of SELL orders\<close> after three failed sell attempts, but
  the result that \<^verbatim>\<open>createBatchOrders\<close> builds from it has no note: the object literal
  passed to \<^verbatim>\<open>TransactionResult\<close> has no \<^verbatim>\<open>note\<close> field.
\<close>

theorem buy_fallback_note_is_lost:
  "executeBatchTransaction True default_config buy_only_env
       [ContractOrder 0 (JNumber (Num 7)) 1500000000000000000 3]
       [BalanceOf (JNumber (Num 7)), IsApprovedForAll, SetApprovalForAll, ApprovalWait]
     = (Inr \<lparr> result_txHash = ''0xfeed'', result_blockNumber = 1234,
              result_gasUsed = ''90000'', result_note = Some buy_note \<rparr>,
        [BalanceOf (JNumber (Num 7)), IsApprovedForAll, SetApprovalForAll, ApprovalWait,
         EstimateGas [ContractOrder 0 (JNumber (Num 7)) 1500000000000000000 3],
         ConsoleWarn SellPhase 1 (Some ''execution reverted''), Delay 2000,
         EstimateGas [ContractOrder 0 (JNumber (Num 7)) 1500000000000000000 3],
         ConsoleWarn SellPhase 2 (Some ''execution reverted''), Delay 2000,
         EstimateGas [ContractOrder 0 (JNumber (Num 7)) 1500000000000000000 3],
         ConsoleWarn SellPhase 3 (Some ''execution reverted''),
         EstimateGas [ContractOrder 1 (JNumber (Num 7)) 1500000000000000000 3],
         LimitOrders [ContractOrder 1 (JNumber (Num 7)) 1500000000000000000 3] 120000,
         TxWait ''0xfeed''])
   \<and> fst (createBatchOrders default_config buy_only_env Map.empty 1000 2000 [sell_request 7 3])
     = Inr \<lparr> success = True, txHash = Some ''0xfeed'', blockNumber = Some 1234,
             gasUsed = Some ''90000'', ordersCreated = Some 1, error = None,
             note_field = None, timestamp = 2000 \<rparr>"
proof -
  let ?tr2 = "[BalanceOf (JNumber (Num 7)), IsApprovedForAll, SetApprovalForAll, ApprovalWait]"
  let ?os = "[ContractOrder 0 (JNumber (Num 7)) 1500000000000000000 3]"
  let ?bs = "[ContractOrder 1 (JNumber (Num 7)) 1500000000000000000 3]"
  let ?m = "Some ''execution reverted''"
  let ?tr3 = "?tr2 @
        [EstimateGas ?os, ConsoleWarn SellPhase 1 ?m, Delay 2000,
         EstimateGas ?os, ConsoleWarn SellPhase 2 ?m, Delay 2000,
         EstimateGas ?os, ConsoleWarn SellPhase 3 ?m]"
  have a1: "attempt True default_config buy_only_env ?os tr
      = (Inl (Thrown None ?m), tr @ [EstimateGas ?os])" for tr
    by (simp add: attempt_def contract_call_def buy_only_env_def new_Error_def)
  have a2: "attempt True default_config buy_only_env ?bs tr
      = (Inr \<lparr> result_txHash = ''0xfeed'', result_blockNumber = 1234,
               result_gasUsed = ''90000'', result_note = None \<rparr>,
         tr @ [EstimateGas ?bs, LimitOrders ?bs 120000, TxWait ''0xfeed''])" for tr
    by (simp add: attempt_def contract_call_def buy_only_env_def demo_env_def
          default_transaction_settings show_90000 Let_def)
  have up: "[0 ..< 3] = [0, 1, 2 :: nat]" by (simp add: upt_rec)
  have s: "tryOrders SellPhase True default_config buy_only_env ?os 0 None ?tr2
      = (RanOut (Some (Thrown None ?m)), ?tr3)"
    using tryOrders_rejected [of default_config buy_only_env ?os None ?m
        "maxRetries default_config" 0 SellPhase None ?tr2, OF a1]
    by (simp add: default_transaction_settings up)
  have bo: "buyOrders_of ?os = ?bs" by (simp add: buyOrders_of_def)
  have b: "tryOrders BuyPhase True default_config buy_only_env (buyOrders_of ?os) 0
             (Some (Thrown None ?m)) ?tr3
      = (Returned \<lparr> result_txHash = ''0xfeed'', result_blockNumber = 1234,
               result_gasUsed = ''90000'', result_note = None \<rparr>,
         ?tr3 @ [EstimateGas ?bs, LimitOrders ?bs 120000, TxWait ''0xfeed''])"
    unfolding bo
    by (rule tryOrders_success [OF _ a2]) (simp add: default_transaction_settings)
  have x: "executeBatchTransaction True default_config buy_only_env ?os ?tr2
     = (Inr \<lparr> result_txHash = ''0xfeed'', result_blockNumber = 1234,
              result_gasUsed = ''90000'', result_note = Some buy_note \<rparr>,
        ?tr3 @ [EstimateGas ?bs, LimitOrders ?bs 120000, TxWait ''0xfeed''])"
    using executeBatchTransaction_fallback [OF s b] by simp
  have st: "createBatchOrders_setup buy_only_env Map.empty 1000
      = (Inr True, [], [''batch-orders-0xabc'' \<mapsto> [1000]])"
    by (rule setup_demo) (simp_all add: buy_only_env_def demo_env_def)
  have pr: "validateAndPrepareOrders True default_config buy_only_env [sell_request 7 3]
     = (Inr ?os, [BalanceOf (JNumber (Num 7))])"
    by (rule prepare_demo) (simp_all add: buy_only_env_def)
  have ap: "ensureApprovals True buy_only_env [BalanceOf (JNumber (Num 7))] = (Inr (), ?tr2)"
    using approve_demo [of buy_only_env] by (simp add: buy_only_env_def)
  have "fst (createBatchOrders default_config buy_only_env Map.empty 1000 2000 [sell_request 7 3])
     = Inr \<lparr> success = True, txHash = Some ''0xfeed'', blockNumber = Some 1234,
             gasUsed = Some ''90000'', ordersCreated = Some 1, error = None,
             note_field = None, timestamp = 2000 \<rparr>"
    by (simp add: createBatchOrders_def createBatchOrders_try_prepared [OF st pr] ap x
          succeeded_def new_TransactionResult_def BaseModel_def BaseModel_transform_def)
  with x show ?thesis by simp
qed


lemma tryOrders_raised_is_Error:
  "tryOrders ph av cfg e os n l tr = (Raised t, tr') \<Longrightarrow> \<exists>s. t = new_Error s"
proof (induction ph av cfg e os n l tr rule: tryOrders.induct)
  case (1 ph av cfg e os n l tr)
  show ?case
  proof (cases "n < maxRetries cfg")
    case False
    with "1.prems" show ?thesis by (simp add: tryOrders.simps)
  next
    case True
    obtain out tr1 where a: "attempt av cfg e os tr = (out, tr1)"
      by (cases "attempt av cfg e os tr") auto
    show ?thesis
    proof (cases out)
      case (Inr res)
      with "1.prems" True a show ?thesis by (simp add: tryOrders.simps)
    next
      case (Inl caught)
      show ?thesis
      proof (cases "message_of caught")
        case (Inl ty)
        with "1.prems" True a \<open>out = Inl caught\<close> have "t = ty" by (simp add: tryOrders.simps)
        with Inl show ?thesis by (auto simp: message_of_Inl_iff cannot_read_def)
      next
        case (Inr message)
        with "1.prems" True a \<open>out = Inl caught\<close>
        have "tryOrders ph av cfg e os (n + 1) (Some caught)
                (tr1 @ [ConsoleWarn ph (n + 1) message]
                     @ (if n + 1 < maxRetries cfg then [Delay (retryDelay cfg)] else []))
              = (Raised t, tr')"
          by (simp add: tryOrders.simps [of ph av cfg e os n])
        from "1.IH" [OF True a [symmetric] \<open>out = Inl caught\<close> Inr this] show ?thesis .
      qed
    qed
  qed
qed

lemma executeBatchTransaction_errors:
  assumes "executeBatchTransaction av cfg e orders tr = (Inl x, tr3)"
  shows "\<exists>s. x = new_Error s"
proof -
  obtain o1 tr1 where s: "tryOrders SellPhase av cfg e orders 0 None tr = (o1, tr1)"
    by (cases "tryOrders SellPhase av cfg e orders 0 None tr") auto
  show ?thesis
  proof (cases o1)
    case (Returned res)
    with assms s show ?thesis by (simp add: executeBatchTransaction_def)
  next
    case (Raised t)
    with assms s have "x = t" by (simp add: executeBatchTransaction_def)
    with tryOrders_raised_is_Error s Raised show ?thesis by blast
  next
    case (RanOut l)
    obtain o2 tr2 where b: "tryOrders BuyPhase av cfg e (buyOrders_of orders) 0 l tr1 = (o2, tr2)"
      by (cases "tryOrders BuyPhase av cfg e (buyOrders_of orders) 0 l tr1") auto
    show ?thesis
    proof (cases o2)
      case (Returned res)
      with assms s RanOut b show ?thesis by (simp add: executeBatchTransaction_def)
    next
      case (Raised t)
      with assms s RanOut b have "x = t" by (simp add: executeBatchTransaction_def)
      with tryOrders_raised_is_Error b Raised show ?thesis by blast
    next
      case (RanOut l')
      with assms s \<open>o1 = RanOut l\<close> b show ?thesis
        by (auto simp: executeBatchTransaction_def)
    qed
  qed
qed

lemma validateAndPrepareOrders_errors:
  assumes "validateAndPrepareOrders av cfg e reqs = (Inl x, evs)"
  shows "x = new_Error (too_many_orders (maxBatchSize cfg))"
  using assms by (auto simp: validateAndPrepareOrders_def split: if_splits prod.splits)

lemma createBatchOrders_try_setup_failed:
  "createBatchOrders_setup e limits now = (Inl x, tr0, l) \<Longrightarrow>
     createBatchOrders_try cfg e limits now reqs = (Inl x, tr0, l)"
  by (simp add: createBatchOrders_try_def)

lemma createBatchOrders_try_stage_errors:
  assumes "createBatchOrders_setup e limits now = (Inr av, tr0, l)"
    and "createBatchOrders_try cfg e limits now reqs = (Inl x, tr, l')"
  shows "\<exists>s. x = new_Error s"
proof -
  obtain r1 evs where pr: "validateAndPrepareOrders av cfg e reqs = (r1, evs)"
    by (cases "validateAndPrepareOrders av cfg e reqs") auto
  show ?thesis
  proof (cases r1)
    case (Inl x1)
    with assms pr have "x = x1" by (simp add: createBatchOrders_try_def)
    with validateAndPrepareOrders_errors pr Inl show ?thesis by blast
  next
    case (Inr orders)
    note os = this
    show ?thesis
    proof (cases "orders = []")
      case True
      with assms pr os show ?thesis by (auto simp: createBatchOrders_try_def)
    next
      case False
      obtain r2 tr2 where ap: "ensureApprovals av e (tr0 @ evs) = (r2, tr2)"
        by (cases "ensureApprovals av e (tr0 @ evs)") auto
      show ?thesis
      proof (cases r2)
        case (Inl x2)
        with assms pr os False ap have "x = x2" by (simp add: createBatchOrders_try_def)
        with ensureApprovals_errors ap Inl show ?thesis by blast
      next
        case (Inr u)
        obtain r3 tr3 where ex: "executeBatchTransaction av cfg e orders tr2 = (r3, tr3)"
          by (cases "executeBatchTransaction av cfg e orders tr2") auto
        show ?thesis
        proof (cases r3)
          case (Inl x3)
          with assms pr os False ap \<open>r2 = Inr u\<close> ex have "x = x3"
            by (simp add: createBatchOrders_try_def)
          with executeBatchTransaction_errors ex Inl show ?thesis by blast
        next
          case (Inr res)
          with assms pr os False ap \<open>r2 = Inr u\<close> ex show ?thesis
            by (simp add: createBatchOrders_try_def)
        qed
      qed
    qed
  qed
qed

lemma createBatchOrders_try_limits:
  assumes "checkRateLimit now (rate_limit_key e) 5 60000 limits = (decision, limits')"
    and "createBatchOrders_try cfg e limits now reqs = (t, tr, l)"
  shows "l = limits'"
proof -
  obtain r0 tr0 l0 where st: "createBatchOrders_setup e limits now = (r0, tr0, l0)"
    by (cases "createBatchOrders_setup e limits now") auto
  have "l0 = limits'"
    using st assms(1)
    by (auto simp: createBatchOrders_setup_def Let_def
             split: prod.splits rate_decision.splits if_splits option.splits)
  moreover have "l = l0"
    using st assms(2)
    by (cases r0)
       (auto simp: createBatchOrders_try_def split: prod.splits sum.splits if_splits)
  ultimately show ?thesis by simp
qed

lemma createBatchOrders_try_count:
  assumes "createBatchOrders_try cfg e limits now reqs = (Inr (res, n), tr, l)"
  shows "0 < n"
  using assms
  by (auto simp: createBatchOrders_try_def split: prod.splits sum.splits if_splits)

text \<open>What the set-up throws, in terms of the wallet and the rate limiter.\<close>

lemma setup_thrown:
  assumes "checkRateLimit now (rate_limit_key e) 5 60000 limits = (decision, limits')"
    and "createBatchOrders_setup e limits now = (Inl x, tr0, l)"
  shows "(\<exists>s. x = new_Error s)
     \<or> decision = Allowed \<and> wallet_isConnected e \<and> \<not> wallet_isOnCorrectNetwork e
        \<and> ((\<exists>code m. switchEthereumChain e = Some (Thrown code m) \<and> code \<noteq> Some 4902
                \<and> x = Thrown code m)
           \<or> (\<exists>m. switchEthereumChain e = Some (Thrown (Some 4902) m))
               \<and> addEthereumChain e = Some x)"
  using assms
  by (auto simp: createBatchOrders_setup_def switchNetwork_def initializeContracts_def
        code_of_def cannot_read_def Let_def
      split: prod.splits rate_decision.splits if_splits option.splits sum.splits thrown.splits)

lemma setup_add_rejected:
  assumes "checkRateLimit now (rate_limit_key e) 5 60000 limits = (Allowed, limits')"
    and "wallet_isConnected e" "\<not> wallet_isOnCorrectNetwork e"
    and "switchEthereumChain e = Some (Thrown (Some 4902) m)"
    and "addEthereumChain e = Some x"
  shows "createBatchOrders_setup e limits now
           = (Inl x, [SwitchEthereumChain, AddEthereumChain], limits')"
  using assms
  by (simp add: createBatchOrders_setup_def switchNetwork_def code_of_def)

lemma setup_switch_rejected:
  assumes "checkRateLimit now (rate_limit_key e) 5 60000 limits = (Allowed, limits')"
    and "wallet_isConnected e" "\<not> wallet_isOnCorrectNetwork e"
    and "switchNetwork e = (Some x, tr0)"
  shows "createBatchOrders_setup e limits now = (Inl x, tr0, limits')"
  using assms by (simp add: createBatchOrders_setup_def)

lemma createBatchOrders_thrown:
  assumes "createBatchOrders_try cfg e limits now reqs = (Inl x, tr, l)"
  shows "createBatchOrders cfg e limits now fin reqs =
     (case message_of x of Inl ty \<Rightarrow> (Inl ty, tr, l) | Inr m \<Rightarrow> (Inr (failure m fin), tr, l))"
  using assms by (simp add: createBatchOrders_def split: sum.splits)

lemma createBatchOrders_completed:
  assumes "createBatchOrders_try cfg e limits now reqs = (Inr (res, n), tr, l)"
  shows "createBatchOrders cfg e limits now fin reqs = (Inr (succeeded res n fin), tr, l)"
  using assms by (simp add: createBatchOrders_def)


lemma caught_outcome:
  assumes "createBatchOrders cfg e limits now fin reqs = (outcome, tr, limits1)"
    and "createBatchOrders_try cfg e limits now reqs = (Inl (Thrown code m), tr', l)"
  shows "outcome = Inr (failure m fin) \<and> tr = tr' \<and> limits1 = l"
  using assms by (simp add: createBatchOrders_def)

lemma caught_Error_outcome:
  assumes "createBatchOrders cfg e limits now fin reqs = (outcome, tr, limits1)"
    and "createBatchOrders_try cfg e limits now reqs = (Inl (new_Error s), tr', l)"
  shows "(\<exists>r. outcome = Inr r \<and> \<not> success r \<and> error r = Some s) \<and> tr = tr'"
  using assms by (auto simp: createBatchOrders_def)

text \<open>
  Claim C2, amended. \<^verbatim>\<open>createBatchOrders\<close> throws past its boundary in exactly one
  situation: the rate limiter admits the call, the wallet is connected to another network,
  it does not know the chain (its rejection of the switch has the code 4902), and it rejects
  the request to add the chain with \<^verbatim>\<open>undefined\<close> or \<^verbatim>\<open>null\<close>. What is thrown then
  is the \<^verbatim>\<open>TypeError\<close> of reading \<^verbatim>\<open>error.message\<close> in the \<^verbatim>\<open>catch\<close> clause. In
  every other case the call returns one result, and the rate limiter's state is the one
  left by its check in all cases.

  A successful result has no error, a transaction hash and a positive order count. A
  failed result has no hash, no block number and no order count; its error is null only
  when the wallet rejected the network switch, or the addition of the chain, with a value
  that has no \<^verbatim>\<open>message\<close>.

  Each failure is reported with \<^verbatim>\<open>success: false\<close> and its message: the rate limit, the
  wallet that is not connected, the rejected network switch (with the message of the
  rejection), the contracts that cannot be created, too many orders, no valid order left,
  an error thrown by the approval step, an error thrown by the submission. When all
  steps complete, the result is successful with the hash of the submission and the number
  of validated orders.
\<close>

theorem createBatchOrders_returns_result:
  assumes "createBatchOrders cfg e limits now fin reqs = (outcome, tr, limits1)"
    and "checkRateLimit now (rate_limit_key e) 5 60000 limits = (decision, limits')"
  shows
  "((\<exists>x. outcome = Inl x) \<longleftrightarrow>
       decision = Allowed \<and> wallet_isConnected e \<and> \<not> wallet_isOnCorrectNetwork e
       \<and> (\<exists>m. switchEthereumChain e = Some (Thrown (Some 4902) m))
       \<and> (addEthereumChain e = Some ThrownUndefined \<or> addEthereumChain e = Some ThrownNull))
   \<and> (\<forall>x. outcome = Inl x \<longrightarrow>
         x = cannot_read ''undefined'' ''message'' \<or> x = cannot_read ''null'' ''message'')
   \<and> limits1 = limits'
   \<and> (\<forall>r. outcome = Inr r \<and> success r \<longrightarrow>
         error r = None \<and> (\<exists>h. txHash r = Some h) \<and> (\<exists>n. ordersCreated r = Some n \<and> 0 < n))
   \<and> (\<forall>r. outcome = Inr r \<and> \<not> success r \<longrightarrow>
         txHash r = None \<and> blockNumber r = None \<and> ordersCreated r = None)
   \<and> (\<forall>r. outcome = Inr r \<and> \<not> success r \<and> error r = None \<longrightarrow>
         decision = Allowed \<and> wallet_isConnected e \<and> \<not> wallet_isOnCorrectNetwork e
         \<and> ((\<exists>code. switchEthereumChain e = Some (Thrown code None) \<and> code \<noteq> Some 4902)
            \<or> (\<exists>m code. switchEthereumChain e = Some (Thrown (Some 4902) m)
                  \<and> addEthereumChain e = Some (Thrown code None))))
   \<and> (\<forall>t. decision = Rejected t \<longrightarrow>
         (\<exists>r. outcome = Inr r \<and> \<not> success r \<and> error r = Some (rate_limit_error t)) \<and> tr = [])
   \<and> (decision = Allowed \<and> \<not> wallet_isConnected e \<longrightarrow>
         (\<exists>r. outcome = Inr r \<and> \<not> success r \<and> error r = Some ''Wallet not connected'')
         \<and> tr = [])
   \<and> (\<forall>code m tr0.
         decision = Allowed \<and> wallet_isConnected e \<and> \<not> wallet_isOnCorrectNetwork e
         \<and> switchNetwork e = (Some (Thrown code m), tr0) \<longrightarrow>
         (\<exists>r. outcome = Inr r \<and> \<not> success r \<and> error r = m) \<and> tr = tr0)
   \<and> (decision = Allowed \<and> wallet_isConnected e
        \<and> (wallet_isOnCorrectNetwork e \<or> fst (switchNetwork e) = None)
        \<and> \<not> contracts_initialized e \<and> wallet_provider e \<and> \<not> contracts_constructible e \<longrightarrow>
         (\<exists>r. outcome = Inr r \<and> \<not> success r
              \<and> error r = Some ''Failed to initialize marketplace contracts''))
   \<and> (\<forall>av tr0 l. createBatchOrders_setup e limits now = (Inr av, tr0, l) \<longrightarrow>
         (maxBatchSize cfg < length reqs \<longrightarrow>
            (\<exists>r. outcome = Inr r \<and> \<not> success r
                 \<and> error r = Some (too_many_orders (maxBatchSize cfg)))
            \<and> tr = tr0)
         \<and> (length reqs \<le> maxBatchSize cfg \<and> fst (prepareOrders av cfg e reqs) = [] \<longrightarrow>
              (\<exists>r. outcome = Inr r \<and> \<not> success r \<and> error r = Some ''No valid orders to create'')
              \<and> tr = tr0 @ snd (prepareOrders av cfg e reqs))
         \<and> (\<forall>orders evs.
               validateAndPrepareOrders av cfg e reqs = (Inr orders, evs) \<and> orders \<noteq> [] \<longrightarrow>
               (\<forall>x tr2. ensureApprovals av e (tr0 @ evs) = (Inl x, tr2) \<longrightarrow>
                  (\<exists>r s. outcome = Inr r \<and> \<not> success r \<and> error r = Some s \<and> x = new_Error s)
                  \<and> tr = tr2)
               \<and> (\<forall>tr2. ensureApprovals av e (tr0 @ evs) = (Inr (), tr2) \<longrightarrow>
                    (\<forall>x tr3. executeBatchTransaction av cfg e orders tr2 = (Inl x, tr3) \<longrightarrow>
                       (\<exists>r s. outcome = Inr r \<and> \<not> success r \<and> error r = Some s
                              \<and> x = new_Error s)
                       \<and> tr = tr3)
                    \<and> (\<forall>res tr3. executeBatchTransaction av cfg e orders tr2 = (Inr res, tr3) \<longrightarrow>
                         (\<exists>r. outcome = Inr r \<and> success r \<and> error r = None
                              \<and> txHash r = Some (result_txHash res)
                              \<and> ordersCreated r = Some (length orders))
                         \<and> tr = tr3))))"
proof -
  note out = assms(1)
  note rl = assms(2)
  obtain t tr' l where T: "createBatchOrders_try cfg e limits now reqs = (t, tr', l)"
    by (cases "createBatchOrders_try cfg e limits now reqs") auto
  have l: "l = limits'" by (rule createBatchOrders_try_limits [OF rl T])
  obtain r0 tr0' l0 where st: "createBatchOrders_setup e limits now = (r0, tr0', l0)"
    by (cases "createBatchOrders_setup e limits now") auto

  have shape: "(\<exists>res n. t = Inr (res, n) \<and> outcome = Inr (succeeded res n fin) \<and> 0 < n)
      \<or> (\<exists>code m. t = Inl (Thrown code m) \<and> outcome = Inr (failure m fin))
      \<or> (t = Inl ThrownUndefined \<and> outcome = Inl (cannot_read ''undefined'' ''message''))
      \<or> (t = Inl ThrownNull \<and> outcome = Inl (cannot_read ''null'' ''message''))"
  proof (cases t)
    case (Inr p)
    obtain res n where p: "p = (res, n)" by (cases p) auto
    from T Inr p have T': "createBatchOrders_try cfg e limits now reqs = (Inr (res, n), tr', l)"
      by simp
    from createBatchOrders_completed [OF T', of fin] out createBatchOrders_try_count [OF T']
    show ?thesis using Inr p by simp
  next
    case (Inl x)
    from T Inl have T': "createBatchOrders_try cfg e limits now reqs = (Inl x, tr', l)" by simp
    from createBatchOrders_thrown [OF T', of fin] out show ?thesis
      using Inl by (cases x) auto
  qed
  have trl: "tr = tr' \<and> limits1 = l"
    using out T by (auto simp: createBatchOrders_def split: sum.splits prod.splits)

  have from_setup: "createBatchOrders_setup e limits now = (Inl x, tr', l)"
    if "t = Inl x" "\<forall>s. x \<noteq> new_Error s" for x
  proof (cases r0)
    case (Inl x0)
    from createBatchOrders_try_setup_failed [of e limits now x0 tr0' l0 cfg reqs] st Inl T that(1)
    show ?thesis by simp
  next
    case (Inr av)
    from createBatchOrders_try_stage_errors [of e limits now av tr0' l0 cfg reqs x tr' l]
      st Inr T that
    show ?thesis by blast
  qed

  have c1: "(\<exists>x. outcome = Inl x) \<longleftrightarrow>
       decision = Allowed \<and> wallet_isConnected e \<and> \<not> wallet_isOnCorrectNetwork e
       \<and> (\<exists>m. switchEthereumChain e = Some (Thrown (Some 4902) m))
       \<and> (addEthereumChain e = Some ThrownUndefined \<or> addEthereumChain e = Some ThrownNull)"
    (is "?L \<longleftrightarrow> ?R")
  proof
    assume ?L
    with shape obtain x where x: "t = Inl x" "x = ThrownUndefined \<or> x = ThrownNull" by auto
    hence "\<forall>s. x \<noteq> new_Error s" by auto
    from from_setup [OF x(1) this] have "createBatchOrders_setup e limits now = (Inl x, tr', l)" .
    from setup_thrown [OF rl this] x(2) show ?R by auto
  next
    assume r: ?R
    then obtain m x where m: "switchEthereumChain e = Some (Thrown (Some 4902) m)"
      and x: "addEthereumChain e = Some x" "x = ThrownUndefined \<or> x = ThrownNull" by auto
    from r have d: "checkRateLimit now (rate_limit_key e) 5 60000 limits = (Allowed, limits')"
      using rl by simp
    from setup_add_rejected [OF d _ _ m x(1)] r
    have "createBatchOrders_setup e limits now
            = (Inl x, [SwitchEthereumChain, AddEthereumChain], limits')" by simp
    from createBatchOrders_try_setup_failed [OF this, of cfg reqs] T
    have "t = Inl x" by simp
    with shape x(2) show ?L by auto
  qed
  have c2: "\<forall>x. outcome = Inl x \<longrightarrow>
         x = cannot_read ''undefined'' ''message'' \<or> x = cannot_read ''null'' ''message''"
    using shape by auto
  have c3: "limits1 = limits'" using trl l by simp
  have c4: "\<forall>r. outcome = Inr r \<and> success r \<longrightarrow>
         error r = None \<and> (\<exists>h. txHash r = Some h) \<and> (\<exists>n. ordersCreated r = Some n \<and> 0 < n)"
    using shape by auto
  have c5: "\<forall>r. outcome = Inr r \<and> \<not> success r \<longrightarrow>
         txHash r = None \<and> blockNumber r = None \<and> ordersCreated r = None"
    using shape by auto
  have c6: "\<forall>r. outcome = Inr r \<and> \<not> success r \<and> error r = None \<longrightarrow>
         decision = Allowed \<and> wallet_isConnected e \<and> \<not> wallet_isOnCorrectNetwork e
         \<and> ((\<exists>code. switchEthereumChain e = Some (Thrown code None) \<and> code \<noteq> Some 4902)
            \<or> (\<exists>m code. switchEthereumChain e = Some (Thrown (Some 4902) m)
                  \<and> addEthereumChain e = Some (Thrown code None)))"
  proof (intro allI impI)
    fix r assume a: "outcome = Inr r \<and> \<not> success r \<and> error r = None"
    with shape obtain code where x: "t = Inl (Thrown code None)" by auto
    have "\<forall>s. Thrown code None \<noteq> new_Error s" by (simp add: new_Error_def)
    from from_setup [OF x this]
    have "createBatchOrders_setup e limits now = (Inl (Thrown code None), tr', l)" .
    from setup_thrown [OF rl this]
    show "decision = Allowed \<and> wallet_isConnected e \<and> \<not> wallet_isOnCorrectNetwork e
         \<and> ((\<exists>code. switchEthereumChain e = Some (Thrown code None) \<and> code \<noteq> Some 4902)
            \<or> (\<exists>m code. switchEthereumChain e = Some (Thrown (Some 4902) m)
                  \<and> addEthereumChain e = Some (Thrown code None)))"
      by (auto simp: new_Error_def)
  qed
  have c7: "\<forall>t. decision = Rejected t \<longrightarrow>
         (\<exists>r. outcome = Inr r \<and> \<not> success r \<and> error r = Some (rate_limit_error t)) \<and> tr = []"
  proof (intro allI impI)
    fix rt assume "decision = Rejected rt"
    with rl have "createBatchOrders_setup e limits now
        = (Inl (new_Error (rate_limit_error rt)), [], limits')"
      by (simp add: createBatchOrders_setup_def)
    from caught_Error_outcome [OF out createBatchOrders_try_setup_failed [OF this]]
    show "(\<exists>r. outcome = Inr r \<and> \<not> success r \<and> error r = Some (rate_limit_error rt)) \<and> tr = []" .
  qed
  have c8: "decision = Allowed \<and> \<not> wallet_isConnected e \<longrightarrow>
         (\<exists>r. outcome = Inr r \<and> \<not> success r \<and> error r = Some ''Wallet not connected'')
         \<and> tr = []"
  proof
    assume "decision = Allowed \<and> \<not> wallet_isConnected e"
    with rl have "createBatchOrders_setup e limits now
        = (Inl (new_Error ''Wallet not connected''), [], limits')"
      by (simp add: createBatchOrders_setup_def)
    from caught_Error_outcome [OF out createBatchOrders_try_setup_failed [OF this]]
    show "(\<exists>r. outcome = Inr r \<and> \<not> success r \<and> error r = Some ''Wallet not connected'')
         \<and> tr = []" .
  qed
  have c9: "\<forall>code m tr0.
         decision = Allowed \<and> wallet_isConnected e \<and> \<not> wallet_isOnCorrectNetwork e
         \<and> switchNetwork e = (Some (Thrown code m), tr0) \<longrightarrow>
         (\<exists>r. outcome = Inr r \<and> \<not> success r \<and> error r = m) \<and> tr = tr0"
  proof (intro allI impI)
    fix code m tr0
    assume a: "decision = Allowed \<and> wallet_isConnected e \<and> \<not> wallet_isOnCorrectNetwork e
         \<and> switchNetwork e = (Some (Thrown code m), tr0)"
    with rl have d: "checkRateLimit now (rate_limit_key e) 5 60000 limits = (Allowed, limits')"
      by simp
    from setup_switch_rejected [OF d] a
    have "createBatchOrders_setup e limits now = (Inl (Thrown code m), tr0, limits')" by simp
    from caught_outcome [OF out createBatchOrders_try_setup_failed [OF this]]
    show "(\<exists>r. outcome = Inr r \<and> \<not> success r \<and> error r = m) \<and> tr = tr0" by simp
  qed
  have c10: "decision = Allowed \<and> wallet_isConnected e
        \<and> (wallet_isOnCorrectNetwork e \<or> fst (switchNetwork e) = None)
        \<and> \<not> contracts_initialized e \<and> wallet_provider e \<and> \<not> contracts_constructible e \<longrightarrow>
         (\<exists>r. outcome = Inr r \<and> \<not> success r
              \<and> error r = Some ''Failed to initialize marketplace contracts'')"
  proof
    assume a: "decision = Allowed \<and> wallet_isConnected e
        \<and> (wallet_isOnCorrectNetwork e \<or> fst (switchNetwork e) = None)
        \<and> \<not> contracts_initialized e \<and> wallet_provider e \<and> \<not> contracts_constructible e"
    with rl have "\<exists>tr0. createBatchOrders_setup e limits now
        = (Inl (new_Error ''Failed to initialize marketplace contracts''), tr0, limits')"
      by (auto simp: createBatchOrders_setup_def initializeContracts_def split: prod.splits)
    then obtain tr0 where "createBatchOrders_setup e limits now
        = (Inl (new_Error ''Failed to initialize marketplace contracts''), tr0, limits')" ..
    from caught_Error_outcome [OF out createBatchOrders_try_setup_failed [OF this]]
    show "\<exists>r. outcome = Inr r \<and> \<not> success r
              \<and> error r = Some ''Failed to initialize marketplace contracts''" by blast
  qed
  have c11: "\<forall>av tr0 l. createBatchOrders_setup e limits now = (Inr av, tr0, l) \<longrightarrow>
         (maxBatchSize cfg < length reqs \<longrightarrow>
            (\<exists>r. outcome = Inr r \<and> \<not> success r
                 \<and> error r = Some (too_many_orders (maxBatchSize cfg)))
            \<and> tr = tr0)
         \<and> (length reqs \<le> maxBatchSize cfg \<and> fst (prepareOrders av cfg e reqs) = [] \<longrightarrow>
              (\<exists>r. outcome = Inr r \<and> \<not> success r \<and> error r = Some ''No valid orders to create'')
              \<and> tr = tr0 @ snd (prepareOrders av cfg e reqs))
         \<and> (\<forall>orders evs.
               validateAndPrepareOrders av cfg e reqs = (Inr orders, evs) \<and> orders \<noteq> [] \<longrightarrow>
               (\<forall>x tr2. ensureApprovals av e (tr0 @ evs) = (Inl x, tr2) \<longrightarrow>
                  (\<exists>r s. outcome = Inr r \<and> \<not> success r \<and> error r = Some s \<and> x = new_Error s)
                  \<and> tr = tr2)
               \<and> (\<forall>tr2. ensureApprovals av e (tr0 @ evs) = (Inr (), tr2) \<longrightarrow>
                    (\<forall>x tr3. executeBatchTransaction av cfg e orders tr2 = (Inl x, tr3) \<longrightarrow>
                       (\<exists>r s. outcome = Inr r \<and> \<not> success r \<and> error r = Some s
                              \<and> x = new_Error s)
                       \<and> tr = tr3)
                    \<and> (\<forall>res tr3. executeBatchTransaction av cfg e orders tr2 = (Inr res, tr3) \<longrightarrow>
                         (\<exists>r. outcome = Inr r \<and> success r \<and> error r = None
                              \<and> txHash r = Some (result_txHash res)
                              \<and> ordersCreated r = Some (length orders))
                         \<and> tr = tr3)))"
  proof (intro allI impI)
    fix av tr0 l'
    assume s: "createBatchOrders_setup e limits now = (Inr av, tr0, l')"
    have big: "(\<exists>r. outcome = Inr r \<and> \<not> success r
                 \<and> error r = Some (too_many_orders (maxBatchSize cfg)))
            \<and> tr = tr0"
      if "maxBatchSize cfg < length reqs"
    proof -
      have "createBatchOrders_try cfg e limits now reqs
          = (Inl (new_Error (too_many_orders (maxBatchSize cfg))), tr0, l')"
        by (simp add: createBatchOrders_try_def s validateAndPrepareOrders_too_many [OF that])
      from caught_Error_outcome [OF out this] show ?thesis .
    qed
    have none: "(\<exists>r. outcome = Inr r \<and> \<not> success r \<and> error r = Some ''No valid orders to create'')
              \<and> tr = tr0 @ snd (prepareOrders av cfg e reqs)"
      if "length reqs \<le> maxBatchSize cfg \<and> fst (prepareOrders av cfg e reqs) = []"
    proof -
      from that have "createBatchOrders_try cfg e limits now reqs
          = (Inl (new_Error ''No valid orders to create''),
             tr0 @ snd (prepareOrders av cfg e reqs), l')"
        by (simp add: createBatchOrders_try_def s validateAndPrepareOrders_within)
      from caught_Error_outcome [OF out this] show ?thesis .
    qed
    have stages: "(\<forall>x tr2. ensureApprovals av e (tr0 @ evs) = (Inl x, tr2) \<longrightarrow>
                  (\<exists>r s. outcome = Inr r \<and> \<not> success r \<and> error r = Some s \<and> x = new_Error s)
                  \<and> tr = tr2)
               \<and> (\<forall>tr2. ensureApprovals av e (tr0 @ evs) = (Inr (), tr2) \<longrightarrow>
                    (\<forall>x tr3. executeBatchTransaction av cfg e orders tr2 = (Inl x, tr3) \<longrightarrow>
                       (\<exists>r s. outcome = Inr r \<and> \<not> success r \<and> error r = Some s
                              \<and> x = new_Error s)
                       \<and> tr = tr3)
                    \<and> (\<forall>res tr3. executeBatchTransaction av cfg e orders tr2 = (Inr res, tr3) \<longrightarrow>
                         (\<exists>r. outcome = Inr r \<and> success r \<and> error r = None
                              \<and> txHash r = Some (result_txHash res)
                              \<and> ordersCreated r = Some (length orders))
                         \<and> tr = tr3))"
      if p: "validateAndPrepareOrders av cfg e reqs = (Inr orders, evs) \<and> orders \<noteq> []"
      for orders evs
    proof -
      from p have pr: "validateAndPrepareOrders av cfg e reqs = (Inr orders, evs)"
        and ne: "orders \<noteq> []" by simp_all
      note prepared = createBatchOrders_try_prepared [OF s pr ne]
      have ap: "(\<exists>r s. outcome = Inr r \<and> \<not> success r \<and> error r = Some s \<and> x = new_Error s)
                  \<and> tr = tr2"
        if a: "ensureApprovals av e (tr0 @ evs) = (Inl x, tr2)" for x tr2
      proof -
        from ensureApprovals_errors [OF a] obtain s' where s': "x = new_Error s'" by blast
        have "createBatchOrders_try cfg e limits now reqs = (Inl (new_Error s'), tr2, l')"
          by (simp add: prepared a s' [symmetric])
        from caught_Error_outcome [OF out this] s' show ?thesis by blast
      qed
      have ex: "(\<exists>r s. outcome = Inr r \<and> \<not> success r \<and> error r = Some s \<and> x = new_Error s)
                       \<and> tr = tr3"
        if a: "ensureApprovals av e (tr0 @ evs) = (Inr (), tr2)"
          and b: "executeBatchTransaction av cfg e orders tr2 = (Inl x, tr3)" for x tr2 tr3
      proof -
        from executeBatchTransaction_errors [OF b] obtain s' where s': "x = new_Error s'" by blast
        have "createBatchOrders_try cfg e limits now reqs = (Inl (new_Error s'), tr3, l')"
          by (simp add: prepared a b s' [symmetric])
        from caught_Error_outcome [OF out this] s' show ?thesis by blast
      qed
      have ok: "(\<exists>r. outcome = Inr r \<and> success r \<and> error r = None
                              \<and> txHash r = Some (result_txHash res)
                              \<and> ordersCreated r = Some (length orders))
                         \<and> tr = tr3"
        if a: "ensureApprovals av e (tr0 @ evs) = (Inr (), tr2)"
          and b: "executeBatchTransaction av cfg e orders tr2 = (Inr res, tr3)" for res tr2 tr3
      proof -
        have "createBatchOrders_try cfg e limits now reqs = (Inr (res, length orders), tr3, l')"
          by (simp add: prepared a b)
        from createBatchOrders_completed [OF this, of fin] out show ?thesis by simp
      qed
      from ap ex ok show ?thesis by blast
    qed
    from big none stages
    show "(maxBatchSize cfg < length reqs \<longrightarrow>
            (\<exists>r. outcome = Inr r \<and> \<not> success r
                 \<and> error r = Some (too_many_orders (maxBatchSize cfg)))
            \<and> tr = tr0)
         \<and> (length reqs \<le> maxBatchSize cfg \<and> fst (prepareOrders av cfg e reqs) = [] \<longrightarrow>
              (\<exists>r. outcome = Inr r \<and> \<not> success r \<and> error r = Some ''No valid orders to create'')
              \<and> tr = tr0 @ snd (prepareOrders av cfg e reqs))
         \<and> (\<forall>orders evs.
               validateAndPrepareOrders av cfg e reqs = (Inr orders, evs) \<and> orders \<noteq> [] \<longrightarrow>
               (\<forall>x tr2. ensureApprovals av e (tr0 @ evs) = (Inl x, tr2) \<longrightarrow>
                  (\<exists>r s. outcome = Inr r \<and> \<not> success r \<and> error r = Some s \<and> x = new_Error s)
                  \<and> tr = tr2)
               \<and> (\<forall>tr2. ensureApprovals av e (tr0 @ evs) = (Inr (), tr2) \<longrightarrow>
                    (\<forall>x tr3. executeBatchTransaction av cfg e orders tr2 = (Inl x, tr3) \<longrightarrow>
                       (\<exists>r s. outcome = Inr r \<and> \<not> success r \<and> error r = Some s
                              \<and> x = new_Error s)
                       \<and> tr = tr3)
                    \<and> (\<forall>res tr3. executeBatchTransaction av cfg e orders tr2 = (Inr res, tr3) \<longrightarrow>
                         (\<exists>r. outcome = Inr r \<and> success r \<and> error r = None
                              \<and> txHash r = Some (result_txHash res)
                              \<and> ordersCreated r = Some (length orders))
                         \<and> tr = tr3)))"
      by blast
  qed
  show ?thesis
    by (intro conjI c1 c2 c3 c4 c5 c6 c7 c8 c9 c10 c11)
qed


lemma allowed_demo:
  "wallet_address e = Some ''0xabc'' \<Longrightarrow>
     checkRateLimit 1000 (rate_limit_key e) 5 60000 Map.empty
       = (Allowed, [''batch-orders-0xabc'' \<mapsto> [1000]])"
  by (simp add: checkRateLimit_def rate_limit_key_def requests_of_def recentRequests_def)

lemma attempt_demo:
  "attempt True default_config demo_env os tr
     = (Inr \<lparr> result_txHash = ''0xfeed'', result_blockNumber = 1234,
              result_gasUsed = ''90000'', result_note = None \<rparr>,
        tr @ [EstimateGas os, LimitOrders os 120000, TxWait ''0xfeed''])"
  by (simp add: attempt_def contract_call_def demo_env_def default_transaction_settings
        show_90000 Let_def)

lemma executeBatchTransaction_demo:
  "executeBatchTransaction True default_config demo_env os tr
     = (Inr \<lparr> result_txHash = ''0xfeed'', result_blockNumber = 1234,
              result_gasUsed = ''90000'', result_note = None \<rparr>,
        tr @ [EstimateGas os, LimitOrders os 120000, TxWait ''0xfeed''])"
proof -
  have "tryOrders SellPhase True default_config demo_env os 0 None tr
     = (Returned \<lparr> result_txHash = ''0xfeed'', result_blockNumber = 1234,
                   result_gasUsed = ''90000'', result_note = None \<rparr>,
        tr @ [EstimateGas os, LimitOrders os 120000, TxWait ''0xfeed''])"
    by (rule tryOrders_success [OF _ attempt_demo]) (simp add: default_transaction_settings)
  thus ?thesis by (simp add: executeBatchTransaction_def)
qed

theorem createBatchOrders_returns_result_witness:
  "(\<exists>r. fst (createBatchOrders default_config demo_env
               [''batch-orders-0xabc'' \<mapsto> [500, 600, 700, 800, 900]] 1000 2000
               [sell_request 7 3]) = Inr r
        \<and> \<not> success r \<and> error r = Some ''Rate limit exceeded. Try again in 60 seconds.'')
   \<and> (\<exists>r. fst (createBatchOrders default_config (demo_env \<lparr> wallet_isConnected := False \<rparr>)
                 Map.empty 1000 2000 [sell_request 7 3]) = Inr r
          \<and> \<not> success r \<and> error r = Some ''Wallet not connected'')
   \<and> (\<exists>r. fst (createBatchOrders default_config
                 (demo_env \<lparr> wallet_isOnCorrectNetwork := False,
                             switchEthereumChain :=
                               Some (Thrown (Some 4001) (Some ''User rejected the request.'')) \<rparr>)
                 Map.empty 1000 2000 [sell_request 7 3]) = Inr r
          \<and> \<not> success r \<and> error r = Some ''User rejected the request.'')
   \<and> (\<exists>r. fst (createBatchOrders default_config demo_env Map.empty 1000 2000 [sell_request 9 3])
             = Inr r
          \<and> \<not> success r \<and> error r = Some ''No valid orders to create'')
   \<and> (\<exists>r. createBatchOrders default_config demo_env Map.empty 1000 2000 [sell_request 7 3]
             = (Inr r,
                [BalanceOf (JNumber (Num 7)), IsApprovedForAll, SetApprovalForAll, ApprovalWait,
                 EstimateGas [ContractOrder 0 (JNumber (Num 7)) 1500000000000000000 3],
                 LimitOrders [ContractOrder 0 (JNumber (Num 7)) 1500000000000000000 3] 120000,
                 TxWait ''0xfeed''],
                [''batch-orders-0xabc'' \<mapsto> [1000]])
          \<and> success r \<and> error r = None \<and> txHash r = Some ''0xfeed''
          \<and> ordersCreated r = Some 1)"
proof -
  let ?os = "[ContractOrder 0 (JNumber (Num 7)) 1500000000000000000 3]"
  let ?full = "[''batch-orders-0xabc'' \<mapsto> [500, 600, 700, 800, 900 :: int]]"
  let ?lim = "[''batch-orders-0xabc'' \<mapsto> [1000 :: int]]"
  let ?off = "demo_env \<lparr> wallet_isConnected := False \<rparr>"
  let ?ref = "demo_env \<lparr> wallet_isOnCorrectNetwork := False,
                          switchEthereumChain :=
                            Some (Thrown (Some 4001) (Some ''User rejected the request.'')) \<rparr>"
  have addr: "wallet_address demo_env = Some ''0xabc''" "wallet_address ?off = Some ''0xabc''"
    "wallet_address ?ref = Some ''0xabc''"
    by (simp_all add: demo_env_def)

  obtain o1 t1 l1 where out1:
    "createBatchOrders default_config demo_env ?full 1000 2000 [sell_request 7 3] = (o1, t1, l1)"
    by (cases "createBatchOrders default_config demo_env ?full 1000 2000 [sell_request 7 3]") auto
  have c: "\<lceil>rat_of_int (500 + 60000 - 1000) / 1000\<rceil> = 60"
    by (simp add: ceiling_eq_iff)
  have rl1: "checkRateLimit 1000 (rate_limit_key demo_env) 5 60000 ?full
      = (Rejected (Some 60), ?full)"
    using c
    by (simp add: checkRateLimit_def rate_limit_key_def requests_of_def recentRequests_def
          Math_ceil_div_def addr)
  have msg: "rate_limit_error (Some 60) = ''Rate limit exceeded. Try again in 60 seconds.''"
    by (simp add: rate_limit_error_def show_int_def show_nat.simps digit_char_def)
  note w1 = createBatchOrders_returns_result [OF out1 rl1]
  note w1_limit = w1 [THEN conjunct2, THEN conjunct2, THEN conjunct2, THEN conjunct2,
      THEN conjunct2, THEN conjunct2, THEN conjunct1]
  from w1_limit
  have "(\<exists>r. o1 = Inr r \<and> \<not> success r \<and> error r = Some (rate_limit_error (Some 60)))
      \<and> t1 = []"
    by simp
  hence a: "\<exists>r. fst (createBatchOrders default_config demo_env ?full 1000 2000 [sell_request 7 3])
        = Inr r \<and> \<not> success r \<and> error r = Some ''Rate limit exceeded. Try again in 60 seconds.''"
    using out1 msg by simp

  obtain o2 t2 l2 where out2:
    "createBatchOrders default_config ?off Map.empty 1000 2000 [sell_request 7 3] = (o2, t2, l2)"
    by (cases "createBatchOrders default_config ?off Map.empty 1000 2000 [sell_request 7 3]") auto
  note rl2 = allowed_demo [OF addr(2)]
  note w2 = createBatchOrders_returns_result [OF out2 rl2]
  note w2_wallet = w2 [THEN conjunct2, THEN conjunct2, THEN conjunct2, THEN conjunct2,
      THEN conjunct2, THEN conjunct2, THEN conjunct2, THEN conjunct1]
  have "\<not> wallet_isConnected ?off" by simp
  with w2_wallet
  have "(\<exists>r. o2 = Inr r \<and> \<not> success r \<and> error r = Some ''Wallet not connected'') \<and> t2 = []"
    by simp
  hence b: "\<exists>r. fst (createBatchOrders default_config ?off Map.empty 1000 2000 [sell_request 7 3])
        = Inr r \<and> \<not> success r \<and> error r = Some ''Wallet not connected''"
    using out2 by simp

  obtain o3 t3 l3 where out3:
    "createBatchOrders default_config ?ref Map.empty 1000 2000 [sell_request 7 3] = (o3, t3, l3)"
    by (cases "createBatchOrders default_config ?ref Map.empty 1000 2000 [sell_request 7 3]") auto
  note rl3 = allowed_demo [OF addr(3)]
  have sw: "switchNetwork ?ref
      = (Some (Thrown (Some 4001) (Some ''User rejected the request.'')), [SwitchEthereumChain])"
    by (simp add: switchNetwork_def code_of_def)
  have con: "wallet_isConnected ?ref" "\<not> wallet_isOnCorrectNetwork ?ref"
    by (simp_all add: demo_env_def)
  note w3 = createBatchOrders_returns_result [OF out3 rl3]
  note w3_switch = w3 [THEN conjunct2, THEN conjunct2, THEN conjunct2, THEN conjunct2,
      THEN conjunct2, THEN conjunct2, THEN conjunct2, THEN conjunct2, THEN conjunct1]
  from w3_switch sw con have "\<exists>r. o3 = Inr r \<and> \<not> success r \<and> error r = Some ''User rejected the request.''"
    by blast
  hence c3: "\<exists>r. fst (createBatchOrders default_config ?ref Map.empty 1000 2000 [sell_request 7 3])
        = Inr r \<and> \<not> success r \<and> error r = Some ''User rejected the request.''"
    using out3 by simp

  have st: "createBatchOrders_setup demo_env Map.empty 1000 = (Inr True, [], ?lim)"
    by (rule setup_demo) (simp_all add: demo_env_def)
  note rl4 = allowed_demo [OF addr(1)]
  obtain o4 t4 l4 where out4:
    "createBatchOrders default_config demo_env Map.empty 1000 2000 [sell_request 9 3] = (o4, t4, l4)"
    by (cases "createBatchOrders default_config demo_env Map.empty 1000 2000 [sell_request 9 3]")
       auto
  have f: "balanceOf demo_env (request_tokenId (sell_request 9 3))
      = Inl (new_Error ''call revert exception'')"
    by (simp add: demo_env_def sell_request_def)
  have v: "validateInput default_config (request_amount (sell_request 9 3)) Quantity = valid (Num 3)"
    by (simp add: sell_request_def quantity_3)
  have "fst (prepareOrder True default_config demo_env (sell_request 9 3))
      = Inl (BalanceCheckFailed (InsufficientBalance 0 (Num 3)))"
    by (simp add: prepareOrder_insufficient [OF f v])
  hence none: "fst (prepareOrders True default_config demo_env [sell_request 9 3]) = []"
    by (simp add: prepareOrders_orders List.map_filter_simps del: prepareOrders.simps)
  have len: "length [sell_request 9 3] \<le> maxBatchSize default_config"
    by (simp add: default_transaction_settings)
  note w4 = createBatchOrders_returns_result [OF out4 rl4]
  note w4_stages = w4 [THEN conjunct2, THEN conjunct2, THEN conjunct2, THEN conjunct2,
      THEN conjunct2, THEN conjunct2, THEN conjunct2, THEN conjunct2, THEN conjunct2,
      THEN conjunct2, rule_format, OF st]
  note w4_none = w4_stages [THEN conjunct2, THEN conjunct1]
  from w4_none len none
  have "\<exists>r. o4 = Inr r \<and> \<not> success r \<and> error r = Some ''No valid orders to create''"
    by blast
  hence d: "\<exists>r. fst (createBatchOrders default_config demo_env Map.empty 1000 2000 [sell_request 9 3])
        = Inr r \<and> \<not> success r \<and> error r = Some ''No valid orders to create''"
    using out4 by simp

  obtain o5 t5 l5 where out5:
    "createBatchOrders default_config demo_env Map.empty 1000 2000 [sell_request 7 3] = (o5, t5, l5)"
    by (cases "createBatchOrders default_config demo_env Map.empty 1000 2000 [sell_request 7 3]")
       auto
  let ?tr2 = "[BalanceOf (JNumber (Num 7)), IsApprovedForAll, SetApprovalForAll, ApprovalWait]"
  let ?res = "\<lparr> result_txHash = ''0xfeed'', result_blockNumber = 1234,
                result_gasUsed = ''90000'', result_note = None \<rparr>"
  have pr: "validateAndPrepareOrders True default_config demo_env [sell_request 7 3]
     = (Inr ?os, [BalanceOf (JNumber (Num 7))])"
    by (rule prepare_demo) simp_all
  have ap: "ensureApprovals True demo_env ([] @ [BalanceOf (JNumber (Num 7))]) = (Inr (), ?tr2)"
    by (rule approve_demo) simp_all
  have ex: "executeBatchTransaction True default_config demo_env ?os ?tr2
     = (Inr ?res, ?tr2 @ [EstimateGas ?os, LimitOrders ?os 120000, TxWait ''0xfeed''])"
    by (rule executeBatchTransaction_demo)
  note w5 = createBatchOrders_returns_result [OF out5 rl4]
  note l5 = w5 [THEN conjunct2, THEN conjunct2, THEN conjunct1]
  note w5_stages = w5 [THEN conjunct2, THEN conjunct2, THEN conjunct2, THEN conjunct2,
      THEN conjunct2, THEN conjunct2, THEN conjunct2, THEN conjunct2, THEN conjunct2,
      THEN conjunct2, rule_format, OF st]
  note w5_prepared = w5_stages [THEN conjunct2, THEN conjunct2, rule_format, OF conjI [OF pr]]
  have ne: "?os \<noteq> []" by simp
  note w5_done = w5_prepared [OF ne, THEN conjunct2, rule_format, OF ap, THEN conjunct2,
      rule_format, OF ex]
  from w5_done
  have "(\<exists>r. o5 = Inr r \<and> success r \<and> error r = None
                              \<and> txHash r = Some (result_txHash ?res)
                              \<and> ordersCreated r = Some (length ?os))
        \<and> t5 = ?tr2 @ [EstimateGas ?os, LimitOrders ?os 120000, TxWait ''0xfeed'']"
    by simp
  hence e: "\<exists>r. createBatchOrders default_config demo_env Map.empty 1000 2000 [sell_request 7 3]
             = (Inr r, ?tr2 @ [EstimateGas ?os, LimitOrders ?os 120000, TxWait ''0xfeed''], ?lim)
          \<and> success r \<and> error r = None \<and> txHash r = Some ''0xfeed''
          \<and> ordersCreated r = Some 1"
    using out5 l5 by auto
  from a b c3 d e show ?thesis by simp
qed

text \<open>
  Claim C2 as stated fails in two ways. A wallet on another network that does not know
  the chain and rejects the request to add it with \<^verbatim>\<open>undefined\<close> makes
  \<^verbatim>\<open>createBatchOrders\<close> throw: the rejection reaches the \<^verbatim>\<open>catch\<close> clause as it
  is, and reading its \<^verbatim>\<open>message\<close> throws a \<^verbatim>\<open>TypeError\<close> that nothing catches. A
  wallet that rejects the switch with a value without a \<^verbatim>\<open>message\<close> gives a failed
  result whose error is null.
\<close>

theorem createBatchOrders_counterexample:
  "createBatchOrders default_config unknown_chain_env Map.empty 1000 2000 [sell_request 7 3]
     = (Inl (new_Error (''Cannot read properties of undefined (reading ''
                        @ [CHR 0x27] @ ''message'' @ [CHR 0x27] @ '')'')),
        [SwitchEthereumChain, AddEthereumChain],
        [''batch-orders-0xabc'' \<mapsto> [1000]])
   \<and> createBatchOrders default_config refused_switch_env Map.empty 1000 2000 [sell_request 7 3]
     = (Inr \<lparr> success = False, txHash = None, blockNumber = None, gasUsed = None,
              ordersCreated = None, error = None, note_field = None, timestamp = 2000 \<rparr>,
        [SwitchEthereumChain],
        [''batch-orders-0xabc'' \<mapsto> [1000]])"
proof -
  have a1: "wallet_address unknown_chain_env = Some ''0xabc''"
    and a2: "wallet_address refused_switch_env = Some ''0xabc''"
    by (simp_all add: unknown_chain_env_def refused_switch_env_def demo_env_def)
  have s1: "createBatchOrders_setup unknown_chain_env Map.empty 1000
      = (Inl ThrownUndefined, [SwitchEthereumChain, AddEthereumChain],
         [''batch-orders-0xabc'' \<mapsto> [1000]])"
    by (rule setup_add_rejected [OF allowed_demo [OF a1]])
       (simp_all add: unknown_chain_env_def demo_env_def)
  have s2: "createBatchOrders_setup refused_switch_env Map.empty 1000
      = (Inl (Thrown (Some 4001) None), [SwitchEthereumChain],
         [''batch-orders-0xabc'' \<mapsto> [1000]])"
    by (rule setup_switch_rejected [OF allowed_demo [OF a2]])
       (simp_all add: refused_switch_env_def demo_env_def switchNetwork_def code_of_def)
  show ?thesis
    by (simp add: createBatchOrders_def createBatchOrders_try_setup_failed [OF s1]
          createBatchOrders_try_setup_failed [OF s2] cannot_read_def
          failure_def new_TransactionResult_def BaseModel_def BaseModel_transform_def)
qed


end
